theory Spec2Isabelle
  imports Complex_Main
begin

section \<open>Numbers, vectors and errors\<close>

text \<open>
  The solvers of \<^verbatim>\<open>copt/frank_wolfe.py\<close> compute with numpy floats. The embedding computes
  with the real numbers instead: every operation has its exact result, so rounding is not
  modelled, and the constants \<^verbatim>\<open>0.999\<close>, \<^verbatim>\<open>1e-7\<close>, \<^verbatim>\<open>1e10\<close> are the rationals they denote.
  A float computation can leave the finite numbers where a real one is undefined, namely at a
  division by zero (numpy yields \<^verbatim>\<open>inf\<close> or \<^verbatim>\<open>nan\<close> with a warning, a Python float raises
  \<^verbatim>\<open>ZeroDivisionError\<close>). The model cannot follow such a run: it stops there with the error
  value \<open>ZeroDivisionError\<close>.

  Every raise, failed assertion and unbound-variable error of the source is an \<open>Inl\<close> result.
\<close>

datatype error =
    ValueError
  | AssertionError
  | UnboundLocalError
  | IndexError
  | ZeroDivisionError
  | ShapeError
  | NotImplementedError

type_synonym vec = "real list"

text \<open>The objective oracle \<^verbatim>\<open>f_grad\<close>: a pure function from a point to (loss, gradient).\<close>

type_synonym objective = "vec \<Rightarrow> real \<times> vec"

definition fdiv :: "real \<Rightarrow> real \<Rightarrow> error + real" where
  "fdiv a b = (if b = 0 then Inl ZeroDivisionError else Inr (a / b))"

definition vadd :: "vec \<Rightarrow> vec \<Rightarrow> vec" where
  "vadd xs ys = map2 (+) xs ys"

definition vsub :: "vec \<Rightarrow> vec \<Rightarrow> vec" where
  "vsub xs ys = map2 (-) xs ys"

definition smul :: "real \<Rightarrow> vec \<Rightarrow> vec" where
  "smul c xs = map ((*) c) xs"

definition vneg :: "vec \<Rightarrow> vec" where
  "vneg xs = map uminus xs"

definition vdot :: "vec \<Rightarrow> vec \<Rightarrow> real" where
  "vdot xs ys = sum_list (map2 (*) xs ys)"

definition zeros :: "nat \<Rightarrow> vec" where
  "zeros n = replicate n 0"

text \<open>\<^verbatim>\<open>np.finfo(np.float).eps\<close>, the machine epsilon of a 64-bit float.\<close>

definition LS_EPS :: real where
  "LS_EPS = 1 / 2 ^ 52"

text \<open>
  A call of the oracle. The source never checks the oracle's answer; the vector operations
  that follow (\<^verbatim>\<open>d_t.T.dot(grad)\<close>, \<^verbatim>\<open>grad[idx]\<close>) need a gradient of the point's shape, so
  the model checks the shape at the call and stops with \<open>ShapeError\<close> otherwise.
\<close>

definition call_f_grad :: "objective \<Rightarrow> vec \<Rightarrow> error + (real \<times> vec)" where
  "call_f_grad f_grad x =
     (case f_grad x of (f, g) \<Rightarrow>
        if length g = length x then Inr (f, g) else Inl ShapeError)"

text \<open>
  \<^verbatim>\<open>np.argmax\<close>: the first index of a maximal entry; \<^verbatim>\<open>ValueError\<close> on an empty array.
\<close>

fun argmax_from :: "real list \<Rightarrow> nat \<Rightarrow> nat \<Rightarrow> real \<Rightarrow> nat" where
  "argmax_from [] i best v = best"
| "argmax_from (y # ys) i best v =
     (if v < y then argmax_from ys (Suc i) i y else argmax_from ys (Suc i) best v)"

definition argmax :: "real list \<Rightarrow> error + nat" where
  "argmax xs = (case xs of [] \<Rightarrow> Inl ValueError | y # ys \<Rightarrow> Inr (argmax_from ys 1 0 y))"

text \<open>
  How a line-search loop was left: by the \<^verbatim>\<open>break\<close> of the sufficient-decrease test, by the
  \<^verbatim>\<open>break\<close> on a step below \<^verbatim>\<open>1e-7\<close>, or by running out of trials. The drivers do not see
  this tag; it only names the exit taken.
\<close>

datatype ls_exit = Accepted | TinyStep | Exhausted

section \<open>Line search\<close>

subsection \<open>\<^verbatim>\<open>backtrack\<close> (lines 8-23)\<close>

text \<open>
  The \<^verbatim>\<open>else\<close> of the source belongs to the \<^verbatim>\<open>for\<close>, not to the \<^verbatim>\<open>if\<close>: it runs once, after
  \<^verbatim>\<open>max_iter\<close> trials without a \<^verbatim>\<open>break\<close>. Within the loop \<^verbatim>\<open>L_t\<close> does not change.
  \<open>prev\<close> holds \<^verbatim>\<open>step_size, f_next, grad_next\<close> of the previous trial (unbound before the
  first).
\<close>

fun backtrack_for ::
  "real \<Rightarrow> objective \<Rightarrow> vec \<Rightarrow> vec \<Rightarrow> real \<Rightarrow> real \<Rightarrow> real \<Rightarrow> real \<Rightarrow> real \<Rightarrow> real \<Rightarrow>
   nat \<Rightarrow> nat \<Rightarrow> (real \<times> real \<times> vec) option \<Rightarrow>
   error + (ls_exit \<times> real \<times> real \<times> real \<times> vec)"
where
  "backtrack_for f_t f_grad x_t d_t g_t d2_t L_t gamma_max ratio_increase ratio_decrease
       0 i prev =
     (case prev of
        None \<Rightarrow> Inl UnboundLocalError
      | Some (step_size, f_next, grad_next) \<Rightarrow>
          Inr (Exhausted, step_size, L_t * ratio_increase, f_next, grad_next))"
| "backtrack_for f_t f_grad x_t d_t g_t d2_t L_t gamma_max ratio_increase ratio_decrease
       (Suc k) i prev =
     (case fdiv g_t (d2_t * L_t) of
        Inl e \<Rightarrow> Inl e
      | Inr q \<Rightarrow>
          (let step_size = min q gamma_max;
               rhs = f_t - step_size * g_t + 0.5 * step_size ^ 2 * L_t * d2_t
           in case call_f_grad f_grad (vadd x_t (smul step_size d_t)) of
                Inl e \<Rightarrow> Inl e
              | Inr (f_next, grad_next) \<Rightarrow>
                  if f_next \<le> rhs
                  then Inr (Accepted, step_size,
                            (if i = 0 then L_t * ratio_decrease else L_t), f_next, grad_next)
                  else backtrack_for f_t f_grad x_t d_t g_t d2_t L_t gamma_max
                         ratio_increase ratio_decrease k (Suc i)
                         (Some (step_size, f_next, grad_next))))"

definition backtrack ::
  "real \<Rightarrow> objective \<Rightarrow> vec \<Rightarrow> vec \<Rightarrow> real \<Rightarrow> real \<Rightarrow> real \<Rightarrow> real \<Rightarrow> real \<Rightarrow> nat \<Rightarrow>
   error + (real \<times> real \<times> real \<times> vec)"
where
  "backtrack f_t f_grad x_t d_t g_t L_t gamma_max ratio_increase ratio_decrease max_iter =
     map_sum id snd
       (backtrack_for f_t f_grad x_t d_t g_t (vdot d_t d_t) L_t gamma_max
          ratio_increase ratio_decrease max_iter 0 None)"

subsection \<open>Bisection line searches (lines 27-110)\<close>

text \<open>
  The inner function \<^verbatim>\<open>obj\<close> of the three bisection searches: the loss, the directional
  derivative \<^verbatim>\<open>d_t.T.dot(grad)\<close> and the gradient at \<^verbatim>\<open>x_t + gamma * d_t\<close>. Its \<open>f_grad\<close> is
  the oracle call as the driver makes it (\<open>call_f_grad\<close> of the user's oracle, or the closure
  \<^verbatim>\<open>f_grad\<close> of a trace driver). The parameters \<^verbatim>\<open>ratio_increase\<close> and \<^verbatim>\<open>ratio_decrease\<close> of
  the searches are never read and are left out.
\<close>

definition ls_obj ::
  "(vec \<Rightarrow> error + (real \<times> vec)) \<Rightarrow> vec \<Rightarrow> vec \<Rightarrow> real \<Rightarrow> error + (real \<times> real \<times> vec)"
where
  "ls_obj f_grad x_t d_t gamma =
     (case f_grad (vadd x_t (smul gamma d_t)) of
        Inl e \<Rightarrow> Inl e
      | Inr (f_next, grad) \<Rightarrow> Inr (f_next, vdot d_t grad, grad))"

text \<open>One bisection: the new bracket \<^verbatim>\<open>(lbracket, grad_lbracket, rbracket, grad_rbracket)\<close>.\<close>

definition bisect ::
  "real \<Rightarrow> real \<Rightarrow> real \<Rightarrow> real \<Rightarrow> real \<Rightarrow> real \<Rightarrow> real \<times> real \<times> real \<times> real"
where
  "bisect c grad_c lbracket grad_lbracket rbracket grad_rbracket =
     (if grad_c * grad_lbracket \<ge> 0 then (c, grad_c, rbracket, grad_rbracket)
      else (lbracket, grad_lbracket, c, grad_c))"

text \<open>\<^verbatim>\<open>approx_ls\<close> (lines 27-52): leaves the loop when \<^verbatim>\<open>fc < f_t\<close>, returns the midpoint.\<close>

fun approx_ls_for ::
  "real \<Rightarrow> (real \<Rightarrow> error + (real \<times> real \<times> vec)) \<Rightarrow> nat \<Rightarrow>
   real \<Rightarrow> real \<Rightarrow> real \<Rightarrow> real \<Rightarrow> error + (real \<times> real)"
where
  "approx_ls_for f_t obj 0 lbracket grad_lbracket rbracket grad_rbracket =
     Inr (lbracket, rbracket)"
| "approx_ls_for f_t obj (Suc k) lbracket grad_lbracket rbracket grad_rbracket =
     (if \<not> grad_lbracket * grad_rbracket \<le> 0 then Inl AssertionError
      else let c = (lbracket + rbracket) / 2 in
        case obj c of
          Inl e \<Rightarrow> Inl e
        | Inr (fc, grad_c, grad_f) \<Rightarrow>
            (case bisect c grad_c lbracket grad_lbracket rbracket grad_rbracket of
               (l, gl, r, gr) \<Rightarrow>
                 if fc < f_t then Inr (l, r) else approx_ls_for f_t obj k l gl r gr))"

definition approx_ls ::
  "real \<Rightarrow> (vec \<Rightarrow> error + (real \<times> vec)) \<Rightarrow> vec \<Rightarrow> vec \<Rightarrow> real \<Rightarrow> real \<Rightarrow> real \<Rightarrow> nat \<Rightarrow> error + real"
where
  "approx_ls f_t f_grad x_t d_t g_t L_t gamma_max max_iter =
     (case ls_obj f_grad x_t d_t 0 of
        Inl e \<Rightarrow> Inl e
      | Inr (f0, grad_lbracket, g0) \<Rightarrow>
          (case ls_obj f_grad x_t d_t gamma_max of
             Inl e \<Rightarrow> Inl e
           | Inr (f1, grad_rbracket, g1) \<Rightarrow>
               (case approx_ls_for f_t (ls_obj f_grad x_t d_t) max_iter
                       0 grad_lbracket gamma_max grad_rbracket of
                  Inl e \<Rightarrow> Inl e
                | Inr (lbracket, rbracket) \<Rightarrow> Inr ((lbracket + rbracket) / 2))))"

text \<open>
  \<^verbatim>\<open>approx_ls_trace\<close> (lines 54-81): as \<^verbatim>\<open>approx_ls\<close>, but after the loop it returns the last
  midpoint \<^verbatim>\<open>c\<close> when \<^verbatim>\<open>fc < f_t + 0.01 * c * grad_gamma\<close>. \<open>prev\<close> holds \<^verbatim>\<open>c, fc, grad_gamma\<close>
  of the last pass.
\<close>

fun approx_ls_trace_for ::
  "real \<Rightarrow> (real \<Rightarrow> error + (real \<times> real \<times> vec)) \<Rightarrow> nat \<Rightarrow>
   real \<Rightarrow> real \<Rightarrow> real \<Rightarrow> real \<Rightarrow> (real \<times> real \<times> real) option \<Rightarrow>
   error + (real \<times> real \<times> (real \<times> real \<times> real) option)"
where
  "approx_ls_trace_for f_t obj 0 lbracket grad_lbracket rbracket grad_rbracket prev =
     Inr (lbracket, rbracket, prev)"
| "approx_ls_trace_for f_t obj (Suc k) lbracket grad_lbracket rbracket grad_rbracket prev =
     (if \<not> grad_lbracket * grad_rbracket \<le> 0 then Inl AssertionError
      else let c = (lbracket + rbracket) / 2 in
        case obj c of
          Inl e \<Rightarrow> Inl e
        | Inr (fc, grad_c, grad_f) \<Rightarrow>
            (case bisect c grad_c lbracket grad_lbracket rbracket grad_rbracket of
               (l, gl, r, gr) \<Rightarrow>
                 if fc < f_t then Inr (l, r, Some (c, fc, grad_c))
                 else approx_ls_trace_for f_t obj k l gl r gr (Some (c, fc, grad_c))))"

definition approx_ls_trace ::
  "real \<Rightarrow> (vec \<Rightarrow> error + (real \<times> vec)) \<Rightarrow> vec \<Rightarrow> vec \<Rightarrow> real \<Rightarrow> real \<Rightarrow> real \<Rightarrow> nat \<Rightarrow>
   error + real"
where
  "approx_ls_trace f_t f_grad x_t d_t g_t L_t gamma_max max_iter =
     (case ls_obj f_grad x_t d_t 0 of
        Inl e \<Rightarrow> Inl e
      | Inr (f0, grad_lbracket, g0) \<Rightarrow>
          (case ls_obj f_grad x_t d_t gamma_max of
             Inl e \<Rightarrow> Inl e
           | Inr (f1, grad_rbracket, g1) \<Rightarrow>
               (case approx_ls_trace_for f_t (ls_obj f_grad x_t d_t) max_iter
                       0 grad_lbracket gamma_max grad_rbracket None of
                  Inl e \<Rightarrow> Inl e
                | Inr (lbracket, rbracket, None) \<Rightarrow> Inl UnboundLocalError
                | Inr (lbracket, rbracket, Some (c, fc, grad_gamma)) \<Rightarrow>
                    if fc < f_t + 0.01 * c * grad_gamma then Inr c
                    else Inr ((lbracket + rbracket) / 2))))"

text \<open>
  \<^verbatim>\<open>approx_ls_armijo\<close> (lines 85-110): leaves the loop when
  \<^verbatim>\<open>fc < f_t + 0.1 * c * d_t.dot(grad_f)\<close> and returns the last midpoint \<^verbatim>\<open>c\<close>.
\<close>

fun approx_ls_armijo_for ::
  "real \<Rightarrow> vec \<Rightarrow> (real \<Rightarrow> error + (real \<times> real \<times> vec)) \<Rightarrow> nat \<Rightarrow>
   real \<Rightarrow> real \<Rightarrow> real \<Rightarrow> real \<Rightarrow> real option \<Rightarrow> error + real"
where
  "approx_ls_armijo_for f_t d_t obj 0 lbracket grad_lbracket rbracket grad_rbracket prev =
     (case prev of None \<Rightarrow> Inl UnboundLocalError | Some c \<Rightarrow> Inr c)"
| "approx_ls_armijo_for f_t d_t obj (Suc k) lbracket grad_lbracket rbracket grad_rbracket prev =
     (if \<not> grad_lbracket * grad_rbracket \<le> 0 then Inl AssertionError
      else let c = (lbracket + rbracket) / 2 in
        case obj c of
          Inl e \<Rightarrow> Inl e
        | Inr (fc, grad_c, grad_f) \<Rightarrow>
            (case bisect c grad_c lbracket grad_lbracket rbracket grad_rbracket of
               (l, gl, r, gr) \<Rightarrow>
                 if fc < f_t + 0.1 * c * vdot d_t grad_f then Inr c
                 else approx_ls_armijo_for f_t d_t obj k l gl r gr (Some c)))"

definition approx_ls_armijo ::
  "real \<Rightarrow> (vec \<Rightarrow> error + (real \<times> vec)) \<Rightarrow> vec \<Rightarrow> vec \<Rightarrow> real \<Rightarrow> real \<Rightarrow> real \<Rightarrow> nat \<Rightarrow> error + real"
where
  "approx_ls_armijo f_t f_grad x_t d_t g_t L_t gamma_max max_iter =
     (case ls_obj f_grad x_t d_t 0 of
        Inl e \<Rightarrow> Inl e
      | Inr (f0, grad_lbracket, g0) \<Rightarrow>
          (case ls_obj f_grad x_t d_t gamma_max of
             Inl e \<Rightarrow> Inl e
           | Inr (f1, grad_rbracket, g1) \<Rightarrow>
               approx_ls_armijo_for f_t d_t (ls_obj f_grad x_t d_t) max_iter
                 0 grad_lbracket gamma_max grad_rbracket None))"

subsection \<open>The adaptive trial loop written inline in four drivers\<close>

text \<open>
  \<^verbatim>\<open>minimize_FW_trace\<close> (lines 186-195), \<^verbatim>\<open>minimize_PFW_trace\<close> (293-301),
  \<^verbatim>\<open>minimize_PFW_L1\<close> (413-429) and \<^verbatim>\<open>minimize_AFW_L1\<close> (556-575) each contain the same
  \<^verbatim>\<open>for i in range(100)\<close> loop. They differ in three places, which are the parameters here:
  \<open>probe\<close> builds the trial point for a step size and calls the oracle there, returning
  \<^verbatim>\<open>(x_next, f_next, grad_next)\<close>; \<open>tiny\<close> says whether the loop has the branch
  \<^verbatim>\<open>if step_size < 1e-7: break\<close> (the two L1 drivers); \<open>decay\<close> is the factor applied to
  \<^verbatim>\<open>L_t\<close> on acceptance at \<^verbatim>\<open>i == 0\<close>. Here the \<^verbatim>\<open>else\<close> belongs to the \<^verbatim>\<open>if\<close>: a rejected trial
  doubles \<^verbatim>\<open>L_t\<close> at once. The test divides by \<^verbatim>\<open>step_size\<close>.
\<close>

fun adaptive_trials ::
  "(real \<Rightarrow> error + (vec \<times> real \<times> vec)) \<Rightarrow> bool \<Rightarrow> real \<Rightarrow> real \<Rightarrow> real \<Rightarrow> real \<Rightarrow> real \<Rightarrow>
   nat \<Rightarrow> nat \<Rightarrow> real \<Rightarrow> (real \<times> vec \<times> real \<times> vec) option \<Rightarrow>
   error + (ls_exit \<times> real \<times> real \<times> vec \<times> real \<times> vec)"
where
  "adaptive_trials probe tiny decay f_t g_t d2_t gamma_max 0 i L_t prev =
     (case prev of
        None \<Rightarrow> Inl UnboundLocalError
      | Some (step_size, r) \<Rightarrow> Inr (Exhausted, step_size, L_t, r))"
| "adaptive_trials probe tiny decay f_t g_t d2_t gamma_max (Suc k) i L_t prev =
     (case fdiv g_t (d2_t * L_t) of
        Inl e \<Rightarrow> Inl e
      | Inr q \<Rightarrow>
          (let step_size = min q gamma_max in
           case probe step_size of
             Inl e \<Rightarrow> Inl e
           | Inr r \<Rightarrow>
               if tiny \<and> step_size < 1 / 10 ^ 7 then Inr (TinyStep, step_size, L_t, r)
               else if step_size = 0 then Inl ZeroDivisionError
               else if (fst (snd r) - f_t) / step_size
                         \<le> - (g_t - 0.5 * step_size * L_t * d2_t) + LS_EPS / step_size
               then Inr (Accepted, step_size, (if i = 0 then L_t * decay else L_t), r)
               else adaptive_trials probe tiny decay f_t g_t d2_t gamma_max k (Suc i)
                      (L_t * 2) (Some (step_size, r))))"

section \<open>The iteration loop\<close>

text \<open>
  What one pass of a driver's \<^verbatim>\<open>for it in pbar\<close> loop does: raise, \<^verbatim>\<open>break\<close>, or go on with
  new values of the loop's variables. \<open>for_range body n it s\<close> runs the passes
  \<open>it, it + 1, \<dots>, it + n - 1\<close>. The progress bar and the statistics computed only for it
  (\<^verbatim>\<open>L_average\<close>, \<^verbatim>\<open>L_t_mean\<close>, \<^verbatim>\<open>all_Lt\<close>, \<^verbatim>\<open>num_bad_steps\<close>) are not modelled.
  The callback is modelled by the list of the iterates it was called with, oldest first.
\<close>

datatype 'a flow = Raise error | Break | Continue 'a

fun for_range :: "(nat \<Rightarrow> 's \<Rightarrow> 's flow) \<Rightarrow> nat \<Rightarrow> nat \<Rightarrow> 's \<Rightarrow> error + 's" where
  "for_range body 0 it s = Inr s"
| "for_range body (Suc k) it s =
     (case body it s of
        Raise e \<Rightarrow> Inl e
      | Break \<Rightarrow> Inr s
      | Continue s' \<Rightarrow> for_range body k (Suc it) s')"

section \<open>\<^verbatim>\<open>minimize_FW_L1\<close> (lines 112-148)\<close>

text \<open>Lines 121-125: the oracle vertex, the direction and the Frank-Wolfe gap.\<close>

definition FW_L1_direction :: "real \<Rightarrow> vec \<Rightarrow> vec \<Rightarrow> error + (vec \<times> real)" where
  "FW_L1_direction alpha x_t grad =
     (case argmax (map abs grad) of
        Inl e \<Rightarrow> Inl e
      | Inr idx_oracle \<Rightarrow>
          if \<not> idx_oracle < length x_t then Inl IndexError
          else
            let mag_oracle = alpha * sgn (- (grad ! idx_oracle));
                d_t = (vneg x_t)[idx_oracle := vneg x_t ! idx_oracle + mag_oracle];
                g_t = - vdot d_t grad
            in Inr (d_t, g_t))"

text \<open>
  Lines 128-138. The chain has no final \<^verbatim>\<open>else\<close>: with another strategy \<^verbatim>\<open>step_size\<close> is
  unbound when line 139 reads it.
\<close>

definition FW_L1_linesearch ::
  "objective \<Rightarrow> string \<Rightarrow> real \<Rightarrow> vec \<Rightarrow> vec \<Rightarrow> real \<Rightarrow> real \<Rightarrow>
   error + (real \<times> real \<times> real \<times> vec)"
where
  "FW_L1_linesearch f_grad ls_strategy f_t x_t d_t g_t L_t =
     (if ls_strategy = ''adaptive'' then
        backtrack f_t f_grad x_t d_t g_t L_t 1 2 (999 / 1000) 100
      else if ls_strategy = ''Lipschitz'' then
        (let d2_t = vdot d_t d_t in
         case fdiv g_t (d2_t * L_t) of
           Inl e \<Rightarrow> Inl e
         | Inr q \<Rightarrow>
             (let step_size = min q 1 in
              case call_f_grad f_grad (vadd x_t (smul step_size d_t)) of
                Inl e \<Rightarrow> Inl e
              | Inr (f_next, grad_next) \<Rightarrow> Inr (step_size, L_t, f_next, grad_next)))
      else if ls_strategy = ''approx_ls'' then
        (case approx_ls_armijo f_t (call_f_grad f_grad) x_t d_t g_t L_t 1 100 of
           Inl e \<Rightarrow> Inl e
         | Inr step_size \<Rightarrow>
             (case call_f_grad f_grad (vadd x_t (smul step_size d_t)) of
                Inl e \<Rightarrow> Inl e
              | Inr (f_next, grad_next) \<Rightarrow> Inr (step_size, L_t, f_next, grad_next)))
      else Inl UnboundLocalError)"

text \<open>The variables of the loop: \<^verbatim>\<open>x_t, f_t, grad, L_t\<close> and the callback's log.\<close>

type_synonym fw_vars = "vec \<times> real \<times> vec \<times> real \<times> vec list"

definition FW_L1_body ::
  "objective \<Rightarrow> real \<Rightarrow> real \<Rightarrow> string \<Rightarrow> nat \<Rightarrow> fw_vars \<Rightarrow> fw_vars flow"
where
  "FW_L1_body f_grad alpha tol ls_strategy it =
     (\<lambda>(x_t, f_t, grad, L_t, calls).
        case FW_L1_direction alpha x_t grad of
          Inl e \<Rightarrow> Raise e
        | Inr (d_t, g_t) \<Rightarrow>
            if g_t \<le> tol then Break
            else
              (case FW_L1_linesearch f_grad ls_strategy f_t x_t d_t g_t L_t of
                 Inl e \<Rightarrow> Raise e
               | Inr (step_size, L_next, f_next, grad_next) \<Rightarrow>
                   (let x_next = vadd x_t (smul step_size d_t)
                    in Continue (x_next, f_next, grad_next, L_next, calls @ [x_next]))))"

definition minimize_FW_L1 ::
  "objective \<Rightarrow> vec \<Rightarrow> real \<Rightarrow> real \<Rightarrow> nat \<Rightarrow> real \<Rightarrow> string \<Rightarrow> error + (vec \<times> vec list)"
where
  "minimize_FW_L1 f_grad x0 alpha L_t max_iter tol ls_strategy =
     (case call_f_grad f_grad x0 of
        Inl e \<Rightarrow> Inl e
      | Inr (f_t, grad) \<Rightarrow>
          (case for_range (FW_L1_body f_grad alpha tol ls_strategy) max_iter 0
                  (x0, f_t, grad, L_t, [x0]) of
             Inl e \<Rightarrow> Inl e
           | Inr (x_t, f_end, grad_end, L_end, calls) \<Rightarrow> Inr (x_t, calls)))"

section \<open>The trace-norm drivers\<close>

text \<open>
  A matrix is the list of its entries, row after row: every matrix operation of the two
  drivers but the singular value decomposition acts entry by entry or sums over all entries.
  The sparse matrix \<^verbatim>\<open>A\<close> is the list of its entries too, \<open>None\<close> where \<^verbatim>\<open>A\<close> stores nothing.

  \<^verbatim>\<open>scipy.sparse.linalg.svds\<close> is not part of the source. The drivers take what they use of it
  as the parameter \<open>svds_uvt\<close>: the product \<^verbatim>\<open>u.dot(vt)\<close> of the leading singular vectors of
  its argument.
\<close>

type_synonym sparse = "real option list"

definition dense :: "sparse \<Rightarrow> vec" where
  "dense A = map (\<lambda>a. case a of None \<Rightarrow> 0 | Some v \<Rightarrow> v) A"

text \<open>\<^verbatim>\<open>P = A.copy(); P.data[:] = 1.\<close>: one at every stored entry.\<close>

definition pattern :: "sparse \<Rightarrow> vec" where
  "pattern A = map (\<lambda>a. case a of None \<Rightarrow> 0 | Some v \<Rightarrow> 1) A"

text \<open>
  The closure \<^verbatim>\<open>f_grad\<close> of both drivers (lines 163-171 and 234-238);
  \<^verbatim>\<open>n_features = A.shape[0] * A.shape[1]\<close> is the number of entries.
\<close>

definition trace_f_grad :: "sparse \<Rightarrow> vec \<Rightarrow> error + (real \<times> vec)" where
  "trace_f_grad A x =
     (if length x \<noteq> length A then Inl ShapeError
      else
        let n_features = real (length A);
            tmp = vsub (dense A) (map2 (*) (pattern A) x)
        in case fdiv (sum_list (map2 (*) tmp tmp)) n_features of
             Inl e \<Rightarrow> Inl e
           | Inr mean \<Rightarrow> Inr (0.5 * mean, map (\<lambda>t. - t / n_features) tmp))"

text \<open>The trial point of a line search and the oracle's answer there.\<close>

definition probe_along ::
  "(vec \<Rightarrow> error + (real \<times> vec)) \<Rightarrow> vec \<Rightarrow> vec \<Rightarrow> real \<Rightarrow> error + (vec \<times> real \<times> vec)"
where
  "probe_along f_grad x_t d_t step_size =
     (let x_next = vadd x_t (smul step_size d_t) in
      case f_grad x_next of
        Inl e \<Rightarrow> Inl e
      | Inr (f_next, grad_next) \<Rightarrow> Inr (x_next, f_next, grad_next))"

subsection \<open>\<^verbatim>\<open>minimize_FW_trace\<close> (lines 151-214)\<close>

definition FW_trace_direction ::
  "(vec \<Rightarrow> vec) \<Rightarrow> real \<Rightarrow> vec \<Rightarrow> vec \<Rightarrow> error + (vec \<times> real)"
where
  "FW_trace_direction svds_uvt alpha x_t grad =
     (let s_t = smul alpha (svds_uvt (vneg grad)) in
      if length s_t \<noteq> length x_t then Inl ShapeError
      else
        let d_t = vsub s_t x_t;
            g_t = - vdot grad d_t
        in Inr (d_t, g_t))"

text \<open>Lines 184-205: the result is \<^verbatim>\<open>step_size, L_t, f_next, grad_next\<close>.\<close>

definition FW_trace_linesearch ::
  "sparse \<Rightarrow> string \<Rightarrow> real \<Rightarrow> vec \<Rightarrow> vec \<Rightarrow> real \<Rightarrow> real \<Rightarrow>
   error + (real \<times> real \<times> real \<times> vec)"
where
  "FW_trace_linesearch A ls_strategy f_t x_t d_t g_t L_t =
     (if ls_strategy = ''adaptive'' then
        (let d2_t = vdot d_t d_t in
         case adaptive_trials (probe_along (trace_f_grad A) x_t d_t) False (999 / 1000)
                f_t g_t d2_t 1 100 0 L_t None of
           Inl e \<Rightarrow> Inl e
         | Inr (ex, step_size, L_next, x_next, f_next, grad_next) \<Rightarrow>
             Inr (step_size, L_next, f_next, grad_next))
      else if ls_strategy = ''Lipschitz'' then
        (let d2_t = vdot d_t d_t in
         case fdiv g_t (d2_t * L_t) of
           Inl e \<Rightarrow> Inl e
         | Inr q \<Rightarrow>
             (let step_size = min q 1 in
              case trace_f_grad A (vadd x_t (smul step_size d_t)) of
                Inl e \<Rightarrow> Inl e
              | Inr (f_next, grad_next) \<Rightarrow> Inr (step_size, L_t, f_next, grad_next)))
      else if ls_strategy = ''approx_ls'' then
        (case approx_ls_trace f_t (trace_f_grad A) x_t d_t g_t L_t 1 100 of
           Inl e \<Rightarrow> Inl e
         | Inr step_size \<Rightarrow>
             (case trace_f_grad A (vadd x_t (smul step_size d_t)) of
                Inl e \<Rightarrow> Inl e
              | Inr (f_next, grad_next) \<Rightarrow> Inr (step_size, L_t, f_next, grad_next)))
      else Inl ValueError)"

definition FW_trace_body ::
  "(vec \<Rightarrow> vec) \<Rightarrow> sparse \<Rightarrow> real \<Rightarrow> real \<Rightarrow> string \<Rightarrow> nat \<Rightarrow> fw_vars \<Rightarrow> fw_vars flow"
where
  "FW_trace_body svds_uvt A alpha tol ls_strategy it =
     (\<lambda>(x_t, f_t, grad, L_t, calls).
        case FW_trace_direction svds_uvt alpha x_t grad of
          Inl e \<Rightarrow> Raise e
        | Inr (d_t, g_t) \<Rightarrow>
            if g_t \<le> tol then Break
            else
              (case FW_trace_linesearch A ls_strategy f_t x_t d_t g_t L_t of
                 Inl e \<Rightarrow> Raise e
               | Inr (step_size, L_next, f_next, grad_next) \<Rightarrow>
                   (let x_next = vadd x_t (smul step_size d_t)
                    in Continue (x_next, f_next, grad_next, L_next, calls @ [x_next]))))"

text \<open>Line 161, \<^verbatim>\<open>beta = 1. / n_features\<close>, divides by a Python integer.\<close>

definition minimize_FW_trace ::
  "(vec \<Rightarrow> vec) \<Rightarrow> sparse \<Rightarrow> vec \<Rightarrow> real \<Rightarrow> real \<Rightarrow> nat \<Rightarrow> real \<Rightarrow> string \<Rightarrow>
   error + (vec \<times> vec list)"
where
  "minimize_FW_trace svds_uvt A x0 alpha L_t max_iter tol ls_strategy =
     (if length A = 0 then Inl ZeroDivisionError
      else
        case trace_f_grad A x0 of
          Inl e \<Rightarrow> Inl e
        | Inr (f_t, grad) \<Rightarrow>
            (case for_range (FW_trace_body svds_uvt A alpha tol ls_strategy) max_iter 0
                    (x0, f_t, grad, L_t, [x0]) of
               Inl e \<Rightarrow> Inl e
             | Inr (x_t, f_end, grad_end, L_end, calls) \<Rightarrow> Inr (x_t, calls)))"

subsection \<open>\<^verbatim>\<open>minimize_PFW_trace\<close> (lines 220-336)\<close>

text \<open>\<^verbatim>\<open>(tmp * tmp).max()\<close>: numpy raises \<^verbatim>\<open>ValueError\<close> on an array without entries.\<close>

definition amax :: "real list \<Rightarrow> error + real" where
  "amax xs = (case xs of [] \<Rightarrow> Inl ValueError | y # ys \<Rightarrow> Inr (fold max ys y))"

text \<open>
  Lines 247-255: the active atom nearest to \<^verbatim>\<open>s_t\<close>. \<^verbatim>\<open>min_vt_st\<close> starts at \<^verbatim>\<open>np.inf\<close>, which
  is \<open>None\<close> here; the index starts at \<open>- 1\<close>.
\<close>

fun nearest_atom ::
  "vec \<Rightarrow> vec list \<Rightarrow> nat \<Rightarrow> real option \<Rightarrow> int \<Rightarrow> error + (real option \<times> int)"
where
  "nearest_atom s_t [] i min_vt_st idx_min_vt_st = Inr (min_vt_st, idx_min_vt_st)"
| "nearest_atom s_t (a # rest) i min_vt_st idx_min_vt_st =
     (let tmp = vsub s_t a in
      case amax (map2 (*) tmp tmp) of
        Inl e \<Rightarrow> Inl e
      | Inr tmp_norm \<Rightarrow>
          if (case min_vt_st of None \<Rightarrow> True | Some m \<Rightarrow> tmp_norm < m)
          then nearest_atom s_t rest (Suc i) (Some tmp_norm) (int i)
          else nearest_atom s_t rest (Suc i) min_vt_st idx_min_vt_st)"

text \<open>
  Lines 260-270: the away atom, the last one of least \<^verbatim>\<open>grad.multiply(x_t - atom).sum()\<close>.
  \<^verbatim>\<open>vt_loss\<close> starts at \<^verbatim>\<open>np.inf\<close> (\<open>None\<close>).
\<close>

fun away_atom ::
  "vec \<Rightarrow> vec \<Rightarrow> vec list \<Rightarrow> nat \<Rightarrow> vec \<Rightarrow> real option \<Rightarrow> int \<Rightarrow> vec \<times> int"
where
  "away_atom grad x_t [] i v_t vt_loss vt_idx = (v_t, vt_idx)"
| "away_atom grad x_t (tmp_vt # rest) i v_t vt_loss vt_idx =
     (let tmp_vt_loss = vdot grad (vsub x_t tmp_vt) in
      if (case vt_loss of None \<Rightarrow> True | Some l \<Rightarrow> tmp_vt_loss \<le> l)
      then away_atom grad x_t rest (Suc i) tmp_vt (Some tmp_vt_loss) (int i)
      else away_atom grad x_t rest (Suc i) v_t vt_loss vt_idx)"

text \<open>\<^verbatim>\<open>list.pop(i)\<close> for an index in range.\<close>

definition pop_at :: "nat \<Rightarrow> 'a list \<Rightarrow> 'a list" where
  "pop_at i xs = take i xs @ drop (Suc i) xs"

text \<open>
  Lines 316-320, the update for the toward atom, and lines 322-326, the update for the
  away atom.
\<close>

definition PFW_trace_toward_update ::
  "bool \<Rightarrow> nat \<Rightarrow> vec \<Rightarrow> real \<Rightarrow> vec list \<times> real list \<Rightarrow> vec list \<times> real list"
where
  "PFW_trace_toward_update atom_in_activeset idx_min_vt_st s_t step_size =
     (\<lambda>(active_set, coefs_active_set).
        if atom_in_activeset
        then (active_set,
              coefs_active_set[idx_min_vt_st := coefs_active_set ! idx_min_vt_st + step_size])
        else (active_set @ [s_t], coefs_active_set @ [step_size]))"

definition PFW_trace_away_update ::
  "nat \<Rightarrow> real \<Rightarrow> real \<Rightarrow> vec list \<times> real list \<Rightarrow> vec list \<times> real list"
where
  "PFW_trace_away_update vt_idx gamma_max step_size =
     (\<lambda>(active_set, coefs_active_set).
        if step_size = gamma_max
        then (pop_at vt_idx active_set, pop_at vt_idx coefs_active_set)
        else (active_set,
              coefs_active_set[vt_idx := coefs_active_set ! vt_idx - step_size]))"

text \<open>
  Lines 291-311. With \<^verbatim>\<open>'approx_ls'\<close> the driver calls \<^verbatim>\<open>approx_ls\<close>, which is written for
  vectors, with the dense matrix \<^verbatim>\<open>d_t\<close> and the closure \<^verbatim>\<open>f_grad\<close>, whose gradient is a scipy
  sparse matrix. The two calls of \<^verbatim>\<open>obj\<close> before the loop (lines 36 and 38) evaluate the
  closure at \<^verbatim>\<open>x_t\<close> and at \<^verbatim>\<open>x_t + d_t\<close>; their \<^verbatim>\<open>d_t.T.dot(grad)\<close> (line 33) is an array of
  objects, not a number, and the assertion of the first pass of the loop (line 40) compares
  it with \<open>0\<close>, which a sparse matrix refuses with \<^verbatim>\<open>NotImplementedError\<close>. So this branch
  never yields a step size.
\<close>

definition PFW_trace_linesearch ::
  "sparse \<Rightarrow> string \<Rightarrow> real \<Rightarrow> vec \<Rightarrow> vec \<Rightarrow> real \<Rightarrow> real \<Rightarrow> real \<Rightarrow>
   error + (real \<times> real \<times> real \<times> vec)"
where
  "PFW_trace_linesearch A ls_strategy f_t x_t d_t g_t L_t gamma_max =
     (if ls_strategy = ''adaptive'' then
        (let d2_t = vdot d_t d_t in
         case adaptive_trials (probe_along (trace_f_grad A) x_t d_t) False (99 / 100)
                f_t g_t d2_t gamma_max 100 0 L_t None of
           Inl e \<Rightarrow> Inl e
         | Inr (ex, step_size, L_next, x_next, f_next, grad_next) \<Rightarrow>
             Inr (step_size, L_next, f_next, grad_next))
      else if ls_strategy = ''Lipschitz'' then
        (let d2_t = vdot d_t d_t in
         case fdiv g_t (d2_t * L_t) of
           Inl e \<Rightarrow> Inl e
         | Inr q \<Rightarrow>
             (let step_size = min q gamma_max in
              case trace_f_grad A (vadd x_t (smul step_size d_t)) of
                Inl e \<Rightarrow> Inl e
              | Inr (f_next, grad_next) \<Rightarrow> Inr (step_size, L_t, f_next, grad_next)))
      else if ls_strategy = ''approx_ls'' then
        (case trace_f_grad A (vadd x_t (smul 0 d_t)) of
           Inl e \<Rightarrow> Inl e
         | Inr (f_l, grad_l) \<Rightarrow>
             (case trace_f_grad A (vadd x_t (smul 1 d_t)) of
                Inl e \<Rightarrow> Inl e
              | Inr (f_r, grad_r) \<Rightarrow> Inl NotImplementedError))
      else Inl ValueError)"

text \<open>
  Lines 245-285: the toward atom (replaced by an active atom within \<^verbatim>\<open>1e-4\<close>), the away atom,
  the cap \<^verbatim>\<open>gamma_max\<close>, the direction and the gap. The result is
  \<^verbatim>\<open>(atom_in_activeset, idx_min_vt_st, s_t, vt_idx, gamma_max, d_t, g_t)\<close>.
\<close>

definition PFW_trace_direction ::
  "(vec \<Rightarrow> vec) \<Rightarrow> real \<Rightarrow> vec \<Rightarrow> vec \<Rightarrow> vec list \<Rightarrow> real list \<Rightarrow>
   error + (bool \<times> nat \<times> vec \<times> nat \<times> real \<times> vec \<times> real)"
where
  "PFW_trace_direction svds_uvt alpha x_t grad active_set coefs_active_set =
     (let s_oracle = smul alpha (svds_uvt (vneg grad)) in
      if length s_oracle \<noteq> length x_t then Inl ShapeError
      else
        case nearest_atom s_oracle active_set 0 None (- 1) of
          Inl e \<Rightarrow> Inl e
        | Inr (min_vt_st, idx_min_vt_st) \<Rightarrow>
            (let atom_in_activeset = (case min_vt_st of None \<Rightarrow> False | Some m \<Rightarrow> m < 1 / 10 ^ 4);
                 s_t = (if atom_in_activeset then active_set ! nat idx_min_vt_st else s_oracle)
             in case active_set of
                  [] \<Rightarrow> Inl IndexError
                | first # rest \<Rightarrow>
                    (case away_atom grad x_t active_set 0 first None (- 1) of
                       (v_t, vt_idx) \<Rightarrow>
                         if vt_idx < 0 then Inl ValueError
                         else if \<not> nat vt_idx < length coefs_active_set then Inl IndexError
                         else
                           let gamma_max = coefs_active_set ! nat vt_idx;
                               d_t = vsub s_t v_t;
                               g_t = - vdot grad d_t
                           in Inr (atom_in_activeset, nat idx_min_vt_st, s_t, nat vt_idx,
                                   gamma_max, d_t, g_t))))"

text \<open>
  The variables of the loop: \<^verbatim>\<open>x_t, f_t, grad, L_t, active_set, coefs_active_set\<close> and the
  callback's log. Lines 287-290 test \<^verbatim>\<open>g_t <= tol\<close> and then do nothing (\<^verbatim>\<open>pass\<close>): the pass goes
  on to the line search whatever the gap is.
\<close>

type_synonym pfw_vars = "vec \<times> real \<times> vec \<times> real \<times> vec list \<times> real list \<times> vec list"

definition PFW_trace_body ::
  "(vec \<Rightarrow> vec) \<Rightarrow> sparse \<Rightarrow> real \<Rightarrow> real \<Rightarrow> string \<Rightarrow> nat \<Rightarrow> pfw_vars \<Rightarrow> pfw_vars flow"
where
  "PFW_trace_body svds_uvt A alpha tol ls_strategy it =
     (\<lambda>(x_t, f_t, grad, L_t, active_set, coefs_active_set, calls).
        case PFW_trace_direction svds_uvt alpha x_t grad active_set coefs_active_set of
          Inl e \<Rightarrow> Raise e
        | Inr (atom_in_activeset, idx_min_vt_st, s_t, vt_idx, gamma_max, d_t, g_t) \<Rightarrow>
            (case PFW_trace_linesearch A ls_strategy f_t x_t d_t g_t L_t gamma_max of
               Inl e \<Rightarrow> Raise e
             | Inr (step_size, L_next, f_next, grad_next) \<Rightarrow>
                 if atom_in_activeset \<and> \<not> idx_min_vt_st < length coefs_active_set
                 then Raise IndexError
                 else
                   (let x_next = vadd x_t (smul step_size d_t) in
                    case PFW_trace_away_update vt_idx gamma_max step_size
                           (PFW_trace_toward_update atom_in_activeset idx_min_vt_st s_t step_size
                              (active_set, coefs_active_set)) of
                      (active_next, coefs_next) \<Rightarrow>
                        Continue (x_next, f_next, grad_next, L_next, active_next, coefs_next,
                                  calls @ [x_next]))))"

definition minimize_PFW_trace ::
  "(vec \<Rightarrow> vec) \<Rightarrow> sparse \<Rightarrow> vec \<Rightarrow> real \<Rightarrow> real \<Rightarrow> nat \<Rightarrow> real \<Rightarrow> string \<Rightarrow>
   error + (vec \<times> vec list)"
where
  "minimize_PFW_trace svds_uvt A x0 alpha L_t max_iter tol ls_strategy =
     (case trace_f_grad A x0 of
        Inl e \<Rightarrow> Inl e
      | Inr (f_t, grad) \<Rightarrow>
          (case for_range (PFW_trace_body svds_uvt A alpha tol ls_strategy) max_iter 0
                  (x0, f_t, grad, L_t, [zeros (length A)], [1], [x0]) of
             Inl e \<Rightarrow> Inl e
           | Inr (x_t, f_end, grad_end, L_end, active_end, coefs_end, calls) \<Rightarrow>
               Inr (x_t, calls)))"

section \<open>The L1 drivers with an active set\<close>

subsection \<open>\<^verbatim>\<open>max_active\<close> (lines 342-361)\<close>

text \<open>
  The running maximum starts at \<^verbatim>\<open>-np.inf\<close>, which is \<open>None\<close> here, and the index at \<open>- 1\<close>.
  Slot \<open>j < n\<close> is the atom \<open>+alpha e\<^sub>j\<close>, slot \<open>n + j\<close> the atom \<open>-alpha e\<^sub>j\<close>, slot \<open>2n\<close> the
  origin.
\<close>

definition above :: "real \<Rightarrow> real option \<Rightarrow> bool" where
  "above v m = (case m of None \<Rightarrow> True | Some w \<Rightarrow> v > w)"

definition max_active :: "vec \<Rightarrow> bool list \<Rightarrow> nat \<Rightarrow> bool \<Rightarrow> real option \<times> int" where
  "max_active grad active_set n_features include_zero =
     (let scan1 =
            fold (\<lambda>j (max_grad_active, max_grad_active_idx).
                    if active_set ! j \<and> above (grad ! j) max_grad_active
                    then (Some (grad ! j), int j)
                    else (max_grad_active, max_grad_active_idx))
                 [0 ..< n_features] (None, - 1);
          scan2 =
            fold (\<lambda>j (max_grad_active, max_grad_active_idx).
                    if active_set ! j \<and> above (- (grad ! (j mod n_features))) max_grad_active
                    then (Some (- (grad ! (j mod n_features))), int j)
                    else (max_grad_active, max_grad_active_idx))
                 [n_features ..< 2 * n_features] scan1
      in case scan2 of
           (max_grad_active, max_grad_active_idx) \<Rightarrow>
             if include_zero
                \<and> (case max_grad_active of None \<Rightarrow> True | Some m \<Rightarrow> m < 0)
                \<and> active_set ! (2 * n_features)
             then (Some 0, int (2 * n_features))
             else (max_grad_active, max_grad_active_idx))"

text \<open>
  Lines 385-393 and 512-520, shared by both drivers: the oracle slot, the away slot and the
  two signed magnitudes. The result is
  \<^verbatim>\<open>(idx_oracle, mag_oracle, max_grad_active_idx, mag_away)\<close>.
\<close>

definition L1_atoms ::
  "real \<Rightarrow> nat \<Rightarrow> vec \<Rightarrow> bool list \<Rightarrow> error + (nat \<times> real \<times> int \<times> real)"
where
  "L1_atoms alpha n_features grad active_set =
     (case argmax (map abs grad) of
        Inl e \<Rightarrow> Inl e
      | Inr i0 \<Rightarrow>
          (let idx_oracle = (if grad ! i0 > 0 then i0 + n_features else i0);
               mag_oracle = alpha * sgn (- (grad ! (idx_oracle mod n_features)));
               max_grad_active_idx = snd (max_active grad active_set n_features True);
               mag_away = alpha * sgn (real_of_int (int n_features - max_grad_active_idx))
           in Inr (idx_oracle, mag_oracle, max_grad_active_idx, mag_away)))"

text \<open>A store \<^verbatim>\<open>a[i] = v\<close> with Python's reading of a negative index.\<close>

definition py_set :: "'a list \<Rightarrow> int \<Rightarrow> 'a \<Rightarrow> 'a list" where
  "py_set xs i v = xs[nat (if i < 0 then i + int (length xs) else i) := v]"

subsection \<open>\<^verbatim>\<open>minimize_PFW_L1\<close> (lines 364-489)\<close>

text \<open>
  Lines 418-421 (and 444-447): the trial point. The second store overwrites the first when
  both slots name the same coordinate.
\<close>

definition PFW_L1_probe ::
  "objective \<Rightarrow> vec \<Rightarrow> nat \<Rightarrow> nat \<Rightarrow> real \<Rightarrow> bool \<Rightarrow> int \<Rightarrow> real \<Rightarrow> real \<Rightarrow>
   error + (vec \<times> real \<times> vec)"
where
  "PFW_L1_probe f_grad x_t n_features idx_oracle mag_oracle is_away_zero
       max_grad_active_idx mag_away step_size =
     (let io = idx_oracle mod n_features;
          a = nat (max_grad_active_idx mod int n_features);
          x_1 = x_t[io := x_t ! io + step_size * mag_oracle];
          x_next = (if \<not> is_away_zero then x_1[a := x_t ! a - step_size * mag_away] else x_1)
      in case call_f_grad f_grad x_next of
           Inl e \<Rightarrow> Inl e
         | Inr (f_next, grad_next) \<Rightarrow> Inr (x_next, f_next, grad_next))"

text \<open>
  Lines 412-449 and 555-589: the strategies of the two L1 drivers, over the driver's trial
  point. The result is \<^verbatim>\<open>step_size, L_t, x_next, f_next, grad_next\<close>.
\<close>

definition L1_linesearch ::
  "(real \<Rightarrow> error + (vec \<times> real \<times> vec)) \<Rightarrow> string \<Rightarrow> real \<Rightarrow> real \<Rightarrow> real \<Rightarrow> real \<Rightarrow> real \<Rightarrow>
   error + (real \<times> real \<times> vec \<times> real \<times> vec)"
where
  "L1_linesearch probe ls_strategy f_t g_t d2_t L_t gamma_max =
     (if ls_strategy = ''adaptive'' then
        (case adaptive_trials probe True (999 / 1000) f_t g_t d2_t gamma_max 100 0 L_t None of
           Inl e \<Rightarrow> Inl e
         | Inr (ex, r) \<Rightarrow> Inr r)
      else if ls_strategy = ''Lipschitz'' then
        (case fdiv g_t (d2_t * L_t) of
           Inl e \<Rightarrow> Inl e
         | Inr q \<Rightarrow>
             (let step_size = min q gamma_max in
              case probe step_size of
                Inl e \<Rightarrow> Inl e
              | Inr r \<Rightarrow> Inr (step_size, L_t, r)))
      else Inl ValueError)"

text \<open>
  The variables of the loop: \<^verbatim>\<open>x_t, f_t, grad, L_t, active_set, weight_zero\<close> and the
  callback's log.
\<close>

type_synonym l1_vars = "vec \<times> real \<times> vec \<times> real \<times> bool list \<times> real \<times> vec list"

text \<open>Lines 456-467: the active set and the weight of the origin after the step.\<close>

definition PFW_L1_update ::
  "nat \<Rightarrow> nat \<Rightarrow> nat \<Rightarrow> int \<Rightarrow> bool \<Rightarrow> real \<Rightarrow> vec \<Rightarrow> bool list \<Rightarrow> real \<Rightarrow> bool list \<times> real"
where
  "PFW_L1_update n_features it idx_oracle max_grad_active_idx is_away_zero step_size x_t
       active_set weight_zero =
     (let active_1 = active_set[idx_oracle := (x_t ! (idx_oracle mod n_features) \<noteq> 0)] in
      if it > 0 then
        (if is_away_zero then
           (let weight_next = weight_zero - step_size in
            ((if weight_next = 0 then active_1[2 * n_features := False] else active_1),
             weight_next))
         else
           (py_set active_1 max_grad_active_idx
              (x_t ! nat (max_grad_active_idx mod int n_features) \<noteq> 0),
            weight_zero))
      else (active_1, weight_zero))"

text \<open>Lines 395-403: the cap and the gap of a pass.\<close>

definition PFW_L1_gap ::
  "real \<Rightarrow> nat \<Rightarrow> vec \<Rightarrow> vec \<Rightarrow> real \<Rightarrow> nat \<Rightarrow> real \<Rightarrow> int \<Rightarrow> real \<Rightarrow> error + (real \<times> real)"
where
  "PFW_L1_gap alpha n_features x_t grad weight_zero idx_oracle mag_oracle
       max_grad_active_idx mag_away =
     (let is_away_zero = (max_grad_active_idx = int (2 * n_features));
          a = nat (max_grad_active_idx mod int n_features)
      in case (if is_away_zero then Inr weight_zero else fdiv \<bar>x_t ! a\<bar> alpha) of
           Inl e \<Rightarrow> Inl e
         | Inr gamma_max \<Rightarrow>
             if \<not> gamma_max > 0 then Inl AssertionError
             else Inr (gamma_max,
                       grad ! a * mag_away - grad ! (idx_oracle mod n_features) * mag_oracle))"

definition PFW_L1_body ::
  "objective \<Rightarrow> real \<Rightarrow> real \<Rightarrow> string \<Rightarrow> nat \<Rightarrow> nat \<Rightarrow> l1_vars \<Rightarrow> l1_vars flow"
where
  "PFW_L1_body f_grad alpha tol ls_strategy n_features it =
     (\<lambda>(x_t, f_t, grad, L_t, active_set, weight_zero, calls).
        case L1_atoms alpha n_features grad active_set of
          Inl e \<Rightarrow> Raise e
        | Inr (idx_oracle, mag_oracle, max_grad_active_idx, mag_away) \<Rightarrow>
            (case PFW_L1_gap alpha n_features x_t grad weight_zero idx_oracle mag_oracle
                    max_grad_active_idx mag_away of
               Inl e \<Rightarrow> Raise e
             | Inr (gamma_max, g_t) \<Rightarrow>
                 if g_t \<le> tol then Break
                 else if int idx_oracle = max_grad_active_idx then Raise ValueError
                 else
                   (let is_away_zero = (max_grad_active_idx = int (2 * n_features));
                        d2_t = 2 * alpha ^ 2
                    in case L1_linesearch
                              (PFW_L1_probe f_grad x_t n_features idx_oracle mag_oracle
                                 is_away_zero max_grad_active_idx mag_away)
                              ls_strategy f_t g_t d2_t L_t gamma_max of
                         Inl e \<Rightarrow> Raise e
                       | Inr (step_size, L_next, x_next, f_next, grad_next) \<Rightarrow>
                           if L_next \<ge> 10 ^ 10 then Raise ValueError
                           else
                             (case PFW_L1_update n_features it idx_oracle max_grad_active_idx
                                     is_away_zero step_size x_next active_set weight_zero of
                                (active_next, weight_next) \<Rightarrow>
                                  Continue (x_next, f_next, grad_next, L_next, active_next,
                                            weight_next, calls @ [x_next])))))"

text \<open>
  Lines 366-382. Of \<^verbatim>\<open>x0\<close> the function reads \<^verbatim>\<open>x0.size\<close> and \<^verbatim>\<open>x0.shape[0]\<close>, both the length
  of a vector.
\<close>

definition L1_init :: "nat \<Rightarrow> bool list" where
  "L1_init n_features = (replicate (2 * n_features + 1) False)[2 * n_features := True]"

definition minimize_PFW_L1 ::
  "objective \<Rightarrow> vec \<Rightarrow> real \<Rightarrow> real \<Rightarrow> nat \<Rightarrow> real \<Rightarrow> string \<Rightarrow> error + (vec \<times> vec list)"
where
  "minimize_PFW_L1 f_grad x0 alpha L_t max_iter tol ls_strategy =
     (let x_t = zeros (length x0);
          n_features = length x0
      in case call_f_grad f_grad x_t of
           Inl e \<Rightarrow> Inl e
         | Inr (f_t, grad) \<Rightarrow>
             (case for_range (PFW_L1_body f_grad alpha tol ls_strategy n_features) max_iter 0
                     (x_t, f_t, grad, L_t, L1_init n_features, 1, [x_t]) of
                Inl e \<Rightarrow> Inl e
              | Inr (x_end, f_end, grad_end, L_end, active_end, weight_end, calls) \<Rightarrow>
                  Inr (x_end, calls)))"

subsection \<open>\<^verbatim>\<open>minimize_AFW_L1\<close> (lines 492-616)\<close>

text \<open>
  Lines 530-548: the two gaps, the assertion, and the choice between the forward and the
  away step. The result is \<^verbatim>\<open>(d_t, gamma_max, g_t)\<close>.
\<close>

definition AFW_L1_gaps ::
  "nat \<Rightarrow> vec \<Rightarrow> vec \<Rightarrow> nat \<Rightarrow> real \<Rightarrow> int \<Rightarrow> real \<Rightarrow> real \<times> real"
where
  "AFW_L1_gaps n_features x_t grad idx_oracle mag_oracle max_grad_active_idx mag_away =
     (let x_grad = vdot grad x_t;
          gt_fw = - mag_oracle * grad ! (idx_oracle mod n_features) + x_grad;
          gt_a = - x_grad + mag_away * grad ! nat (max_grad_active_idx mod int n_features)
      in (gt_fw, gt_a))"

definition AFW_L1_direction ::
  "real \<Rightarrow> nat \<Rightarrow> vec \<Rightarrow> vec \<Rightarrow> nat \<Rightarrow> real \<Rightarrow> int \<Rightarrow> real \<Rightarrow> error + (vec \<times> real \<times> real)"
where
  "AFW_L1_direction alpha n_features x_t grad idx_oracle mag_oracle
       max_grad_active_idx mag_away =
     (case AFW_L1_gaps n_features x_t grad idx_oracle mag_oracle max_grad_active_idx mag_away of
        (gt_fw, gt_a) \<Rightarrow>
          if \<not> gt_fw \<ge> 0 then Inl AssertionError
          else if gt_fw \<ge> gt_a then
            (let io = idx_oracle mod n_features;
                 d_t = (vneg x_t)[io := vneg x_t ! io + mag_oracle]
             in Inr (d_t, 1, gt_fw))
          else
            (let a = nat (max_grad_active_idx mod int n_features);
                 d_t = x_t[a := x_t ! a - mag_away]
             in case fdiv \<bar>x_t ! a\<bar> alpha of
                  Inl e \<Rightarrow> Inl e
                | Inr alpha_v \<Rightarrow>
                    (case fdiv alpha_v (1 - alpha_v) of
                       Inl e \<Rightarrow> Inl e
                     | Inr gamma_max \<Rightarrow> Inr (d_t, gamma_max, gt_a))))"

text \<open>
  The loop keeps \<^verbatim>\<open>weight_zero\<close> at its initial value \<open>1\<close> and never reads it; it is a
  component of the variables all the same.
\<close>

definition AFW_L1_body ::
  "objective \<Rightarrow> real \<Rightarrow> real \<Rightarrow> string \<Rightarrow> nat \<Rightarrow> nat \<Rightarrow> l1_vars \<Rightarrow> l1_vars flow"
where
  "AFW_L1_body f_grad alpha tol ls_strategy n_features it =
     (\<lambda>(x_t, f_t, grad, L_t, active_set, weight_zero, calls).
        case L1_atoms alpha n_features grad active_set of
          Inl e \<Rightarrow> Raise e
        | Inr (idx_oracle, mag_oracle, max_grad_active_idx, mag_away) \<Rightarrow>
            (case AFW_L1_direction alpha n_features x_t grad idx_oracle mag_oracle
                    max_grad_active_idx mag_away of
               Inl e \<Rightarrow> Raise e
             | Inr (d_t, gamma_max, g_t) \<Rightarrow>
                 if g_t \<le> tol then Break
                 else
                   (let d2_t = vdot d_t d_t
                    in case L1_linesearch (probe_along (call_f_grad f_grad) x_t d_t)
                              ls_strategy f_t g_t d2_t L_t gamma_max of
                         Inl e \<Rightarrow> Raise e
                       | Inr (step_size, L_next, x_next, f_next, grad_next) \<Rightarrow>
                           if L_next \<ge> 10 ^ 10 then Raise ValueError
                           else
                             (let active_1 =
                                    active_set[idx_oracle :=
                                      (x_next ! (idx_oracle mod n_features) \<noteq> 0)];
                                  active_next =
                                    py_set active_1 max_grad_active_idx
                                      (x_next ! nat (max_grad_active_idx mod int n_features) \<noteq> 0)
                              in Continue (x_next, f_next, grad_next, L_next, active_next,
                                           weight_zero, calls @ [x_next])))))"

definition minimize_AFW_L1 ::
  "objective \<Rightarrow> vec \<Rightarrow> real \<Rightarrow> real \<Rightarrow> nat \<Rightarrow> real \<Rightarrow> string \<Rightarrow> error + (vec \<times> vec list)"
where
  "minimize_AFW_L1 f_grad x0 alpha L_t max_iter tol ls_strategy =
     (let x_t = zeros (length x0);
          n_features = length x0
      in case call_f_grad f_grad x_t of
           Inl e \<Rightarrow> Inl e
         | Inr (f_t, grad) \<Rightarrow>
             (case for_range (AFW_L1_body f_grad alpha tol ls_strategy n_features) max_iter 0
                     (x_t, f_t, grad, L_t, L1_init n_features, 1, [x_t]) of
                Inl e \<Rightarrow> Inl e
              | Inr (x_end, f_end, grad_end, L_end, active_end, weight_end, calls) \<Rightarrow>
                  Inr (x_end, calls)))"

section \<open>Feasibility and concrete inputs\<close>

text \<open>The L1 norm: an iterate is feasible when \<open>norm1 x \<le> alpha\<close>.\<close>

definition norm1 :: "vec \<Rightarrow> real" where
  "norm1 xs = sum_list (map abs xs)"

text \<open>
  Objectives and a trace-norm problem used to run the drivers on concrete inputs:
  \<open>50 (x\<^sub>0 - 1/10)\<^sup>2\<close>, \<open>2 (x\<^sub>0 - 1/4)\<^sup>2\<close>, \<open>- x\<^sub>0\<close> in one variable, \<open>(x\<^sub>1 - 1)\<^sup>2 / 2\<close> in two,
  each with its gradient. \<open>A_e11\<close> is the 2 x 2 sparse matrix whose one stored entry is
  \<open>A\<^sub>0\<^sub>0 = 1\<close>; the leading singular vectors of a matrix \<open>c E\<^sub>0\<^sub>0\<close> with \<open>c > 0\<close> are
  \<open>u = v = \<plusminus> e\<^sub>0\<close>, so \<^verbatim>\<open>u.dot(vt)\<close> is \<open>E\<^sub>0\<^sub>0\<close>, which is all \<open>uvt_e11\<close> is asked for.
\<close>

definition quad_steep :: objective where
  "quad_steep x = (50 * (x ! 0 - 1 / 10) ^ 2, [100 * (x ! 0 - 1 / 10)])"

definition quad_sharp :: objective where
  "quad_sharp x = (2 * (x ! 0 - 1 / 4) ^ 2, [4 * (x ! 0 - 1 / 4)])"


definition quad_2d :: objective where
  "quad_2d x = ((x ! 1 - 1) ^ 2 / 2, [0, x ! 1 - 1])"

definition uvt_e11 :: "vec \<Rightarrow> vec" where
  "uvt_e11 m = [1, 0, 0, 0]"

definition A_e11 :: sparse where
  "A_e11 = [Some 1, None, None, None]"

section \<open>Vectors and \<^verbatim>\<open>argmax\<close>\<close>

lemma argmax_from_spec:
  "argmax_from ys i b v = k \<Longrightarrow>
     (k = b \<and> (\<forall>y\<in>set ys. y \<le> v)) \<or>
     (i \<le> k \<and> k < i + length ys \<and> v < ys ! (k - i) \<and> (\<forall>y\<in>set ys. y \<le> ys ! (k - i)))"
proof (induction ys arbitrary: i b v)
  case Nil
  then show ?case by simp
next
  case (Cons y ys)
  show ?case
  proof (cases "v < y")
    case True
    with Cons.prems have "argmax_from ys (Suc i) i y = k" by simp
    from Cons.IH[OF this] show ?thesis
    proof
      assume "k = i \<and> (\<forall>z\<in>set ys. z \<le> y)"
      with True show ?thesis by auto
    next
      assume a: "Suc i \<le> k \<and> k < Suc i + length ys \<and> y < ys ! (k - Suc i) \<and> (\<forall>z\<in>set ys. z \<le> ys ! (k - Suc i))"
      then have "k - i = Suc (k - Suc i)" by arith
      with a True show ?thesis by auto
    qed
  next
    case False
    with Cons.prems have "argmax_from ys (Suc i) b v = k" by simp
    from Cons.IH[OF this] show ?thesis
    proof
      assume "k = b \<and> (\<forall>z\<in>set ys. z \<le> v)"
      with False show ?thesis by auto
    next
      assume a: "Suc i \<le> k \<and> k < Suc i + length ys \<and> v < ys ! (k - Suc i) \<and> (\<forall>z\<in>set ys. z \<le> ys ! (k - Suc i))"
      then have "k - i = Suc (k - Suc i)" by arith
      with a False show ?thesis by auto
    qed
  qed
qed

lemma argmax_spec:
  assumes "argmax xs = Inr k"
  shows "k < length xs \<and> (\<forall>i<length xs. xs ! i \<le> xs ! k)"
proof (cases xs)
  case Nil
  with assms show ?thesis by (simp add: argmax_def)
next
  case (Cons y ys)
  with assms have k: "argmax_from ys 1 0 y = k" by (simp add: argmax_def)
  from argmax_from_spec[OF k] show ?thesis
  proof
    assume "k = 0 \<and> (\<forall>z\<in>set ys. z \<le> y)"
    then show ?thesis using Cons by (auto simp: nth_Cons split: nat.splits)
  next
    assume a: "1 \<le> k \<and> k < 1 + length ys \<and> y < ys ! (k - 1) \<and> (\<forall>z\<in>set ys. z \<le> ys ! (k - 1))"
    then have "(y # ys) ! k = ys ! (k - 1)" by (cases k) auto
    with a show ?thesis using Cons by (auto simp: nth_Cons split: nat.splits)
  qed
qed

lemma argmax_abs:
  assumes "argmax (map abs g) = Inr k"
  shows "k < length g \<and> (\<forall>i<length g. \<bar>g ! i\<bar> \<le> \<bar>g ! k\<bar>)"
  using argmax_spec[OF assms] by auto


lemma vdot_commute: "vdot xs ys = vdot ys xs"
  unfolding vdot_def
  by (induction xs arbitrary: ys) (case_tac ys; simp add: mult.commute)+




section \<open>The gap of the L1 drivers\<close>





section \<open>Properties of single passes\<close>

lemma PFW_L1_ceiling:
  assumes "PFW_L1_body f_grad alpha tol ls n it s = Continue (x', f', g', L', a', w', c')"
  shows "L' < 10 ^ 10"
  using assms
  by (cases s) (auto simp: PFW_L1_body_def Let_def split: sum.splits prod.splits if_splits)

lemma AFW_L1_ceiling:
  assumes "AFW_L1_body f_grad alpha tol ls n it s = Continue (x', f', g', L', a', w', c')"
  shows "L' < 10 ^ 10"
  using assms
  by (cases s) (auto simp: AFW_L1_body_def Let_def split: sum.splits prod.splits if_splits)

lemma FW_L1_body_stops:
  assumes "FW_L1_direction alpha x grad = Inr (d_t, g_t)" "g_t \<le> tol"
  shows "FW_L1_body f_grad alpha tol ls it (x, f, grad, L, calls) = Break"
  using assms by (simp add: FW_L1_body_def)

lemma FW_trace_body_stops:
  assumes "FW_trace_direction svds_uvt alpha x grad = Inr (d_t, g_t)" "g_t \<le> tol"
  shows "FW_trace_body svds_uvt A alpha tol ls it (x, f, grad, L, calls) = Break"
  using assms by (simp add: FW_trace_body_def)

lemma PFW_L1_body_stops:
  assumes "L1_atoms alpha n grad active = Inr (io, mo, mi, ma)"
    and "PFW_L1_gap alpha n x grad w io mo mi ma = Inr (gamma_max, g_t)" "g_t \<le> tol"
  shows "PFW_L1_body f_grad alpha tol ls n it (x, f, grad, L, active, w, calls) = Break"
  using assms by (simp add: PFW_L1_body_def)

lemma AFW_L1_body_stops:
  assumes "L1_atoms alpha n grad active = Inr (io, mo, mi, ma)"
    and "AFW_L1_direction alpha n x grad io mo mi ma = Inr (d_t, gamma_max, g_t)" "g_t \<le> tol"
  shows "AFW_L1_body f_grad alpha tol ls n it (x, f, grad, L, active, w, calls) = Break"
  using assms by (simp add: AFW_L1_body_def)

lemma PFW_trace_body_never_stops:
  "PFW_trace_body svds_uvt A alpha tol ls it s \<noteq> Break"
  by (cases s) (auto simp: PFW_trace_body_def Let_def split: sum.splits prod.splits if_splits)

lemma PFW_L1_body_raises_at_ceiling:
  assumes "L1_atoms alpha n grad active = Inr (io, mo, mi, ma)"
    and "PFW_L1_gap alpha n x grad w io mo mi ma = Inr (gamma_max, g_t)"
    and "\<not> g_t \<le> tol" "int io \<noteq> mi"
    and "L1_linesearch (PFW_L1_probe f_grad x n io mo (mi = int (2 * n)) mi ma) ls f g_t
           (2 * alpha ^ 2) L gamma_max = Inr (step_size, L_next, x_next, f_next, grad_next)"
    and "10 ^ 10 \<le> L_next"
  shows "PFW_L1_body f_grad alpha tol ls n it (x, f, grad, L, active, w, calls) = Raise ValueError"
  using assms by (simp add: PFW_L1_body_def Let_def)

lemma AFW_L1_body_raises_at_ceiling:
  assumes "L1_atoms alpha n grad active = Inr (io, mo, mi, ma)"
    and "AFW_L1_direction alpha n x grad io mo mi ma = Inr (d_t, gamma_max, g_t)"
    and "\<not> g_t \<le> tol"
    and "L1_linesearch (probe_along (call_f_grad f_grad) x d_t) ls f g_t (vdot d_t d_t) L gamma_max
           = Inr (step_size, L_next, x_next, f_next, grad_next)"
    and "10 ^ 10 \<le> L_next"
  shows "AFW_L1_body f_grad alpha tol ls n it (x, f, grad, L, active, w, calls) = Raise ValueError"
  using assms by (simp add: AFW_L1_body_def Let_def)

lemma for_range_no_step:
  assumes "\<And>s'. body it s \<noteq> Continue s'"
  shows "for_range body n it s = Inr s \<or> (\<exists>e. for_range body n it s = Inl e)"
  using assms by (cases n; cases "body it s") auto

lemma FW_L1_body_unknown:
  assumes "ls \<noteq> ''adaptive''" "ls \<noteq> ''Lipschitz''" "ls \<noteq> ''approx_ls''"
  shows "FW_L1_body f_grad alpha tol ls it s \<noteq> Continue s'"
  using assms
  by (cases s) (auto simp: FW_L1_body_def FW_L1_linesearch_def split: sum.splits prod.splits if_splits)

lemma FW_trace_body_unknown:
  assumes "ls \<noteq> ''adaptive''" "ls \<noteq> ''Lipschitz''" "ls \<noteq> ''approx_ls''"
  shows "FW_trace_body svds A alpha tol ls it s \<noteq> Continue s'"
  using assms
  by (cases s) (auto simp: FW_trace_body_def FW_trace_linesearch_def split: sum.splits prod.splits if_splits)

lemma PFW_trace_body_unknown:
  assumes "ls \<noteq> ''adaptive''" "ls \<noteq> ''Lipschitz''" "ls \<noteq> ''approx_ls''"
  shows "PFW_trace_body svds A alpha tol ls it s \<noteq> Continue s'"
  using assms
  by (cases s) (auto simp: PFW_trace_body_def PFW_trace_linesearch_def split: sum.splits prod.splits if_splits)

lemma PFW_L1_body_unknown:
  assumes "ls \<noteq> ''adaptive''" "ls \<noteq> ''Lipschitz''"
  shows "PFW_L1_body f_grad alpha tol ls n it s \<noteq> Continue s'"
  using assms
  by (cases s) (auto simp: PFW_L1_body_def L1_linesearch_def Let_def split: sum.splits prod.splits if_splits)

lemma AFW_L1_body_unknown:
  assumes "ls \<noteq> ''adaptive''" "ls \<noteq> ''Lipschitz''"
  shows "AFW_L1_body f_grad alpha tol ls n it s \<noteq> Continue s'"
  using assms
  by (cases s) (auto simp: AFW_L1_body_def L1_linesearch_def Let_def split: sum.splits prod.splits if_splits)

section \<open>The trial loops\<close>

text \<open>
  When the first trial of \<^verbatim>\<open>backtrack\<close> is rejected, every later trial repeats it with the
  same \<^verbatim>\<open>L_t\<close>, and the \<^verbatim>\<open>else\<close> of the \<^verbatim>\<open>for\<close> doubles \<^verbatim>\<open>L_t\<close> once at the end. In the loop
  written inline in the other drivers a rejected trial doubles \<^verbatim>\<open>L_t\<close> before the next one.
\<close>

lemma backtrack_for_rejected:
  assumes "fdiv g_t (d2_t * L_t) = Inr q"
    and "call_f_grad f_grad (vadd x_t (smul (min q gamma_max) d_t)) = Inr (f_next, grad_next)"
    and "\<not> f_next \<le> f_t - min q gamma_max * g_t + 0.5 * (min q gamma_max) ^ 2 * L_t * d2_t"
  shows "backtrack_for f_t f_grad x_t d_t g_t d2_t L_t gamma_max ratio_increase ratio_decrease
           (Suc k) i prev
         = Inr (Exhausted, min q gamma_max, L_t * ratio_increase, f_next, grad_next)"
  using assms by (induction k arbitrary: i prev) (simp_all add: Let_def)

lemma adaptive_trials_rejected:
  assumes "fdiv g_t (d2_t * L_t) = Inr q" "probe (min q gamma_max) = Inr (x_next, f_next, grad_next)"
    and "\<not> (tiny \<and> min q gamma_max < 1 / 10 ^ 7)" "min q gamma_max \<noteq> 0"
    and "\<not> (f_next - f_t) / min q gamma_max
             \<le> - (g_t - 0.5 * min q gamma_max * L_t * d2_t) + LS_EPS / min q gamma_max"
  shows "adaptive_trials probe tiny decay f_t g_t d2_t gamma_max (Suc k) i L_t prev
         = adaptive_trials probe tiny decay f_t g_t d2_t gamma_max k (Suc i) (L_t * 2)
             (Some (min q gamma_max, x_next, f_next, grad_next))"
  using assms by (auto simp add: Let_def)
















section \<open>The away atom of \<^verbatim>\<open>minimize_PFW_trace\<close>\<close>

lemma length_pop_at: "i < length xs \<Longrightarrow> Suc (length (pop_at i xs)) = length xs"
  by (simp add: pop_at_def)

lemma away_atom_spec:
  "away_atom grad x as i v l idx = (v', idx') \<Longrightarrow>
     (idx' = idx \<and> v' = v) \<or>
     (int i \<le> idx' \<and> idx' < int i + int (length as) \<and> v' = as ! nat (idx' - int i))"
proof (induction as arbitrary: i v l idx)
  case Nil
  then show ?case by simp
next
  case (Cons a as)
  show ?case
  proof (cases "case l of None \<Rightarrow> True | Some m \<Rightarrow> vdot grad (vsub x a) \<le> m")
    case True
    with Cons.prems have "away_atom grad x as (Suc i) a (Some (vdot grad (vsub x a))) (int i) = (v', idx')"
      by (simp add: Let_def)
    from Cons.IH[OF this] show ?thesis
    proof
      assume "idx' = int i \<and> v' = a"
      then show ?thesis by simp
    next
      assume h: "int (Suc i) \<le> idx' \<and> idx' < int (Suc i) + int (length as) \<and> v' = as ! nat (idx' - int (Suc i))"
      then have "nat (idx' - int i) = Suc (nat (idx' - int (Suc i)))" by linarith
      with h show ?thesis by simp
    qed
  next
    case False
    with Cons.prems have "away_atom grad x as (Suc i) v l idx = (v', idx')"
      by (simp add: Let_def)
    from Cons.IH[OF this] show ?thesis
    proof
      assume "idx' = idx \<and> v' = v"
      then show ?thesis by simp
    next
      assume h: "int (Suc i) \<le> idx' \<and> idx' < int (Suc i) + int (length as) \<and> v' = as ! nat (idx' - int (Suc i))"
      then have "nat (idx' - int i) = Suc (nat (idx' - int (Suc i)))" by linarith
      with h show ?thesis by simp
    qed
  qed
qed

lemma PFW_trace_direction_spec:
  assumes "PFW_trace_direction svds alpha x grad active coefs
           = Inr (in_as, idx_min, s_t, vt_idx, gamma_max, d_t, g_t)"
  shows "vt_idx < length active \<and> vt_idx < length coefs \<and> gamma_max = coefs ! vt_idx
         \<and> d_t = vsub s_t (active ! vt_idx)"
proof -
  from assms obtain first rest where ne: "active = first # rest"
    by (cases active) (auto simp: PFW_trace_direction_def Let_def split: sum.splits if_splits)
  obtain v_t vi where aw: "away_atom grad x active 0 first None (- 1) = (v_t, vi)"
    by (cases "away_atom grad x active 0 first None (- 1)") auto
  from assms ne aw have vi: "0 \<le> vi" "nat vi < length coefs" "vt_idx = nat vi"
    "gamma_max = coefs ! nat vi" "d_t = vsub s_t v_t"
    by (auto simp: PFW_trace_direction_def Let_def split: sum.splits if_splits prod.splits)
  from away_atom_spec[OF aw] vi(1) have "vi < int (length active)" "v_t = active ! nat vi"
    by auto
  with vi show ?thesis by (simp add: nat_less_iff)
qed

lemma PFW_trace_body_pass:
  assumes dir: "PFW_trace_direction svds_uvt alpha x_t grad active_set coefs_active_set
           = Inr (atom_in_activeset, idx_min_vt_st, s_t, vt_idx, gamma_max, d_t, g_t)"
    and ls: "PFW_trace_linesearch A ls_strategy f_t x_t d_t g_t L_t gamma_max
           = Inr (step_size, L_next, f_next, grad_next)"
    and ok: "atom_in_activeset \<longrightarrow> idx_min_vt_st < length coefs_active_set"
    and tw: "PFW_trace_toward_update atom_in_activeset idx_min_vt_st s_t step_size
           (active_set, coefs_active_set) = (active_tw, coefs_tw)"
  shows "PFW_trace_body svds_uvt A alpha tol ls_strategy it
           (x_t, f_t, grad, L_t, active_set, coefs_active_set, calls)
         = Continue (vadd x_t (smul step_size d_t), f_next, grad_next, L_next,
             (if step_size = gamma_max then pop_at vt_idx active_tw else active_tw),
             (if step_size = gamma_max then pop_at vt_idx coefs_tw
              else coefs_tw[vt_idx := coefs_tw ! vt_idx - step_size]),
             calls @ [vadd x_t (smul step_size d_t)])"
  using assms by (simp add: PFW_trace_body_def PFW_trace_away_update_def Let_def)

lemma PFW_trace_toward_keeps:
  assumes "PFW_trace_toward_update atom_in_activeset idx_min_vt_st s_t step_size
           (active_set, coefs_active_set) = (active_tw, coefs_tw)"
    and "vt_idx < length active_set" "vt_idx < length coefs_active_set"
  shows "vt_idx < length active_tw \<and> vt_idx < length coefs_tw
         \<and> active_tw ! vt_idx = active_set ! vt_idx"
  using assms by (auto simp: PFW_trace_toward_update_def nth_append split: if_splits)

lemma PFW_L1_update_later_drop:
  assumes "0 < it"
  shows "PFW_L1_update n it io (int (2 * n)) True w x active w
         = ((active[io := (x ! (io mod n) \<noteq> 0)])[2 * n := False], 0)"
  using assms by (simp add: PFW_L1_update_def Let_def)

section \<open>A first pass at radius zero\<close>

lemma vdot_zeros_right: "vdot g (zeros n) = 0"
  unfolding vdot_def zeros_def
  by (induction g arbitrary: n) (case_tac n; simp)+

lemma vdot_zeros_left: "vdot (zeros n) g = 0"
  using vdot_zeros_right[of g n] vdot_commute[of g "zeros n"] by simp

lemma smul_zero: "smul 0 xs = zeros (length xs)"
  by (induction xs) (simp_all add: smul_def zeros_def)

lemma vsub_zeros: "vsub (zeros n) (zeros n) = zeros n"
  by (induction n) (simp_all add: vsub_def zeros_def)

lemma vneg_zeros: "vneg (zeros n) = zeros n"
  by (simp add: vneg_def zeros_def)

lemma zeros_update: "(zeros n)[i := 0] = zeros n"
  unfolding zeros_def by (induction n arbitrary: i) (simp, case_tac i, simp_all)

lemma zeros_nth: "i < n \<Longrightarrow> zeros n ! i = 0"
  by (simp add: zeros_def)

lemma for_range_break: "body it s = Break \<Longrightarrow> for_range body n it s = Inr s"
  by (cases n) simp_all

lemma FW_L1_zero_radius:
  assumes "0 \<le> tol" "x0 = zeros n" "length (snd (f_grad x0)) = n"
  shows "minimize_FW_L1 f_grad x0 0 L_t max_iter tol ls = Inr (x0, [x0])
         \<or> (n = 0 \<and> minimize_FW_L1 f_grad x0 0 L_t max_iter tol ls = Inl ValueError)"
proof -
  obtain f g where fg: "f_grad x0 = (f, g)" by (cases "f_grad x0")
  with assms have lg: "length g = n" by simp
  have lx: "length x0 = n" using assms(2) by (simp add: zeros_def)
  have cf: "call_f_grad f_grad x0 = Inr (f, g)" using fg lg lx by (simp add: call_f_grad_def)
  show ?thesis
  proof (cases "argmax (map abs g)")
    case (Inl e)
    then have "g = []" "e = ValueError" by (auto simp: argmax_def split: list.splits)
    with lg have n0: "n = 0" by simp
    have b: "FW_L1_body f_grad 0 tol ls 0 (x0, f, g, L_t, [x0]) = Raise ValueError"
      using Inl \<open>e = ValueError\<close> by (simp add: FW_L1_body_def FW_L1_direction_def)
    show ?thesis
    proof (cases max_iter)
      case 0
      then show ?thesis using cf by (simp add: minimize_FW_L1_def)
    next
      case (Suc k)
      then show ?thesis using cf b n0 by (simp add: minimize_FW_L1_def)
    qed
  next
    case (Inr k)
    from argmax_abs[OF Inr] lg have kn: "k < n" by simp
    have "FW_L1_direction 0 x0 g = Inr (x0, 0)"
      using Inr kn lx assms(2)
      by (simp add: FW_L1_direction_def Let_def vneg_zeros zeros_nth zeros_update vdot_zeros_left)
    then have "FW_L1_body f_grad 0 tol ls 0 (x0, f, g, L_t, [x0]) = Break"
      using assms(1) by (simp add: FW_L1_body_def)
    then have "for_range (FW_L1_body f_grad 0 tol ls) max_iter 0 (x0, f, g, L_t, [x0])
               = Inr (x0, f, g, L_t, [x0])" by (rule for_range_break)
    then show ?thesis using cf by (simp add: minimize_FW_L1_def)
  qed
qed

lemma fold_inactive:
  assumes "\<And>j. j \<in> set js \<Longrightarrow> \<not> active ! j"
  shows "fold (\<lambda>j (m, idx). if active ! j \<and> P j m then F j m idx else (m, idx)) js acc = acc"
  using assms by (induction js arbitrary: acc) (auto split: prod.splits)

lemma L1_init_nth: "j < 2 * n \<Longrightarrow> \<not> L1_init n ! j"
  by (simp add: L1_init_def nth_list_update del: replicate.simps)

lemma L1_init_last: "L1_init n ! (2 * n)"
  by (simp add: L1_init_def del: replicate.simps)

lemma max_active_init: "max_active grad (L1_init n) n True = (Some 0, int (2 * n))"
proof -
  have 1: "fold (\<lambda>j (m, idx). if L1_init n ! j \<and> above (grad ! j) m
                 then (Some (grad ! j), int j) else (m, idx)) [0 ..< n] (None, - 1) = (None, - 1)"
    by (rule fold_inactive[where P = "\<lambda>j m. above (grad ! j) m" and F = "\<lambda>j m idx. (Some (grad ! j), int j)"])
       (simp add: L1_init_nth)
  have 2: "fold (\<lambda>j (m, idx). if L1_init n ! j \<and> above (- (grad ! (j mod n))) m
                 then (Some (- (grad ! (j mod n))), int j) else (m, idx)) [n ..< 2 * n] (None, - 1) = (None, - 1)"
    by (rule fold_inactive[where P = "\<lambda>j m. above (- (grad ! (j mod n))) m"
          and F = "\<lambda>j m idx. (Some (- (grad ! (j mod n))), int j)"])
       (simp add: L1_init_nth)
  show ?thesis by (simp add: max_active_def 1 2 L1_init_last)
qed

lemma L1_atoms_zero_radius:
  assumes "L1_atoms 0 n grad (L1_init n) = Inr (io, mo, mi, ma)"
  shows "mo = 0 \<and> ma = 0 \<and> mi = int (2 * n)"
  using assms by (auto simp: L1_atoms_def Let_def max_active_init split: sum.splits)

lemma L1_atoms_error:
  assumes "L1_atoms alpha n grad active = Inl e"
  shows "grad = [] \<and> e = ValueError"
  using assms by (auto simp: L1_atoms_def Let_def argmax_def split: sum.splits list.splits)

lemma PFW_L1_zero_radius:
  assumes "0 \<le> tol" "length (snd (f_grad (zeros (length x0)))) = length x0"
  shows "minimize_PFW_L1 f_grad x0 0 L_t max_iter tol ls = Inr (zeros (length x0), [zeros (length x0)])
         \<or> (x0 = [] \<and> minimize_PFW_L1 f_grad x0 0 L_t max_iter tol ls = Inl ValueError)"
proof -
  let ?n = "length x0"
  let ?z = "zeros (length x0)"
  obtain f g where fg: "f_grad ?z = (f, g)" by (cases "f_grad ?z")
  with assms have lg: "length g = ?n" by simp
  have cf: "call_f_grad f_grad ?z = Inr (f, g)" using fg lg by (simp add: call_f_grad_def zeros_def)
  show ?thesis
  proof (cases "L1_atoms 0 ?n g (L1_init ?n)")
    case (Inl e)
    from L1_atoms_error[OF Inl] lg have n0: "x0 = []" and e: "e = ValueError" by auto
    have b: "PFW_L1_body f_grad 0 tol ls ?n 0 (?z, f, g, L_t, L1_init ?n, 1, [?z]) = Raise ValueError"
      using Inl e by (simp add: PFW_L1_body_def)
    show ?thesis
    proof (cases max_iter)
      case 0
      then show ?thesis using cf by (simp add: minimize_PFW_L1_def Let_def)
    next
      case (Suc k)
      then show ?thesis using cf b n0 by (simp add: minimize_PFW_L1_def Let_def)
    qed
  next
    case (Inr r)
    obtain io mo mi ma where r: "r = (io, mo, mi, ma)" by (cases r) auto
    from L1_atoms_zero_radius[OF Inr[unfolded r]] have m: "mo = 0" "ma = 0" "mi = int (2 * ?n)" by auto
    have "PFW_L1_gap 0 ?n ?z g 1 io mo mi ma = Inr (1, 0)"
      using m by (simp add: PFW_L1_gap_def Let_def)
    then have "PFW_L1_body f_grad 0 tol ls ?n 0 (?z, f, g, L_t, L1_init ?n, 1, [?z]) = Break"
      using Inr r assms(1) by (simp add: PFW_L1_body_def)
    then have "for_range (PFW_L1_body f_grad 0 tol ls ?n) max_iter 0 (?z, f, g, L_t, L1_init ?n, 1, [?z])
               = Inr (?z, f, g, L_t, L1_init ?n, 1, [?z])" by (rule for_range_break)
    then show ?thesis using cf by (simp add: minimize_PFW_L1_def Let_def)
  qed
qed

lemma AFW_L1_zero_radius:
  assumes "0 \<le> tol" "length (snd (f_grad (zeros (length x0)))) = length x0"
  shows "minimize_AFW_L1 f_grad x0 0 L_t max_iter tol ls = Inr (zeros (length x0), [zeros (length x0)])
         \<or> (x0 = [] \<and> minimize_AFW_L1 f_grad x0 0 L_t max_iter tol ls = Inl ValueError)"
proof -
  let ?n = "length x0"
  let ?z = "zeros (length x0)"
  obtain f g where fg: "f_grad ?z = (f, g)" by (cases "f_grad ?z")
  with assms have lg: "length g = ?n" by simp
  have cf: "call_f_grad f_grad ?z = Inr (f, g)" using fg lg by (simp add: call_f_grad_def zeros_def)
  show ?thesis
  proof (cases "L1_atoms 0 ?n g (L1_init ?n)")
    case (Inl e)
    from L1_atoms_error[OF Inl] lg have n0: "x0 = []" and e: "e = ValueError" by auto
    have b: "AFW_L1_body f_grad 0 tol ls ?n 0 (?z, f, g, L_t, L1_init ?n, 1, [?z]) = Raise ValueError"
      using Inl e by (simp add: AFW_L1_body_def)
    show ?thesis
    proof (cases max_iter)
      case 0
      then show ?thesis using cf by (simp add: minimize_AFW_L1_def Let_def)
    next
      case (Suc k)
      then show ?thesis using cf b n0 by (simp add: minimize_AFW_L1_def Let_def)
    qed
  next
    case (Inr r)
    obtain io mo mi ma where r: "r = (io, mo, mi, ma)" by (cases r) auto
    from L1_atoms_zero_radius[OF Inr[unfolded r]] have m: "mo = 0" "ma = 0" "mi = int (2 * ?n)" by auto
    have "\<exists>d. AFW_L1_direction 0 ?n ?z g io mo mi ma = Inr (d, 1, 0)"
      using m by (simp add: AFW_L1_direction_def AFW_L1_gaps_def Let_def vdot_zeros_right)
    then have "AFW_L1_body f_grad 0 tol ls ?n 0 (?z, f, g, L_t, L1_init ?n, 1, [?z]) = Break"
      using Inr r assms(1) by (auto simp add: AFW_L1_body_def)
    then have "for_range (AFW_L1_body f_grad 0 tol ls ?n) max_iter 0 (?z, f, g, L_t, L1_init ?n, 1, [?z])
               = Inr (?z, f, g, L_t, L1_init ?n, 1, [?z])" by (rule for_range_break)
    then show ?thesis using cf by (simp add: minimize_AFW_L1_def Let_def)
  qed
qed

lemma FW_trace_zero_radius:
  assumes "0 \<le> tol" "A \<noteq> []" "x0 = zeros (length A)"
    and "\<And>v. length v = length A \<Longrightarrow> length (svds_uvt v) = length A"
  shows "minimize_FW_trace svds_uvt A x0 0 L_t max_iter tol ls = Inr (x0, [x0])"
proof -
  have lx: "length x0 = length A" using assms(3) by (simp add: zeros_def)
  have nz: "real (length A) \<noteq> 0" using assms(2) by simp
  obtain f g where fg: "trace_f_grad A x0 = Inr (f, g)" and lg: "length g = length A"
    using lx nz by (simp add: trace_f_grad_def Let_def fdiv_def vsub_def dense_def pattern_def)
  have "length (svds_uvt (vneg g)) = length A" using assms(4) lg by (simp add: vneg_def)
  then have "FW_trace_direction svds_uvt 0 x0 g = Inr (x0, 0)"
    using lx assms(3) by (simp add: FW_trace_direction_def Let_def smul_zero vsub_zeros vdot_zeros_right)
  then have "FW_trace_body svds_uvt A 0 tol ls 0 (x0, f, g, L_t, [x0]) = Break"
    using assms(1) by (simp add: FW_trace_body_def)
  then have "for_range (FW_trace_body svds_uvt A 0 tol ls) max_iter 0 (x0, f, g, L_t, [x0])
             = Inr (x0, f, g, L_t, [x0])" by (rule for_range_break)
  then show ?thesis
    using fg assms(2) by (simp add: minimize_FW_trace_def)
qed

section \<open>Running a driver\<close>

lemma for_range_one: "body it s = Continue s' \<Longrightarrow> for_range body (Suc 0) it s = Inr s'"
  by simp

lemma for_range_raise: "body it s = Raise e \<Longrightarrow> for_range body (Suc k) it s = Inl e"
  by simp

lemma minimize_FW_L1_run:
  assumes "call_f_grad f_grad x0 = Inr (f, g)"
    and "for_range (FW_L1_body f_grad alpha tol ls) max_iter 0 (x0, f, g, L, [x0])
           = Inr (x, f', g', L', calls)"
  shows "minimize_FW_L1 f_grad x0 alpha L max_iter tol ls = Inr (x, calls)"
  using assms by (simp add: minimize_FW_L1_def)

lemma minimize_PFW_L1_run:
  assumes "length x0 = n" "call_f_grad f_grad (zeros n) = Inr (f, g)"
    and "for_range (PFW_L1_body f_grad alpha tol ls n) max_iter 0
           (zeros n, f, g, L, L1_init n, 1, [zeros n]) = Inr (x, f', g', L', a, w, calls)"
  shows "minimize_PFW_L1 f_grad x0 alpha L max_iter tol ls = Inr (x, calls)"
  using assms by (simp add: minimize_PFW_L1_def Let_def)

lemma minimize_PFW_L1_fails:
  assumes "length x0 = n" "call_f_grad f_grad (zeros n) = Inr (f, g)"
    and "for_range (PFW_L1_body f_grad alpha tol ls n) max_iter 0
           (zeros n, f, g, L, L1_init n, 1, [zeros n]) = Inl e"
  shows "minimize_PFW_L1 f_grad x0 alpha L max_iter tol ls = Inl e"
  using assms by (simp add: minimize_PFW_L1_def Let_def)

lemma minimize_AFW_L1_run:
  assumes "length x0 = n" "call_f_grad f_grad (zeros n) = Inr (f, g)"
    and "for_range (AFW_L1_body f_grad alpha tol ls n) max_iter 0
           (zeros n, f, g, L, L1_init n, 1, [zeros n]) = Inr (x, f', g', L', a, w, calls)"
  shows "minimize_AFW_L1 f_grad x0 alpha L max_iter tol ls = Inr (x, calls)"
  using assms by (simp add: minimize_AFW_L1_def Let_def)

text \<open>
  The callback's log only grows: what a run returns as its log begins with the log it started
  with. Both L1 drivers with an active set start their log with the zero vector.
\<close>

lemma for_range_log:
  assumes "\<And>it s s'. body it s = Continue s' \<Longrightarrow> \<exists>ys. c s' = c s @ ys"
  shows "for_range body k it s = Inr s' \<Longrightarrow> \<exists>ys. c s' = c s @ ys"
proof (induction k arbitrary: it s)
  case 0
  then show ?case by simp
next
  case (Suc k)
  show ?case
  proof (cases "body it s")
    case (Raise e)
    with Suc.prems show ?thesis by simp
  next
    case Break
    with Suc.prems show ?thesis by simp
  next
    case (Continue s1)
    with Suc.prems have "for_range body k (Suc it) s1 = Inr s'" by simp
    from Suc.IH[OF this] obtain ys where "c s' = c s1 @ ys" by blast
    moreover from assms[OF Continue] obtain zs where "c s1 = c s @ zs" by blast
    ultimately show ?thesis by simp
  qed
qed

lemma PFW_L1_body_log:
  "PFW_L1_body f_grad alpha tol ls n it s = Continue s'
   \<Longrightarrow> \<exists>ys. snd (snd (snd (snd (snd (snd s'))))) = snd (snd (snd (snd (snd (snd s))))) @ ys"
  by (cases s)
     (auto simp: PFW_L1_body_def Let_def split: sum.splits prod.splits if_splits)

lemma AFW_L1_body_log:
  "AFW_L1_body f_grad alpha tol ls n it s = Continue s'
   \<Longrightarrow> \<exists>ys. snd (snd (snd (snd (snd (snd s'))))) = snd (snd (snd (snd (snd (snd s))))) @ ys"
  by (cases s)
     (auto simp: AFW_L1_body_def Let_def split: sum.splits prod.splits if_splits)

lemma minimize_PFW_L1_log:
  assumes "minimize_PFW_L1 f_grad x0 alpha L_t max_iter tol ls = Inr (x_end, calls)"
  shows "\<exists>rest. calls = zeros (length x0) # rest"
proof -
  let ?n = "length x0"
  from assms obtain f g where c: "call_f_grad f_grad (zeros ?n) = Inr (f, g)"
    by (auto simp: minimize_PFW_L1_def Let_def split: sum.splits)
  with assms obtain f' g' L' a' w' where
    r: "for_range (PFW_L1_body f_grad alpha tol ls ?n) max_iter 0
          (zeros ?n, f, g, L_t, L1_init ?n, 1, [zeros ?n]) = Inr (x_end, f', g', L', a', w', calls)"
    by (auto simp: minimize_PFW_L1_def Let_def split: sum.splits prod.splits)
  from for_range_log[where c = "\<lambda>s. snd (snd (snd (snd (snd (snd s)))))", OF PFW_L1_body_log r]
  show ?thesis by simp
qed

lemma minimize_AFW_L1_log:
  assumes "minimize_AFW_L1 f_grad x0 alpha L_t max_iter tol ls = Inr (x_end, calls)"
  shows "\<exists>rest. calls = zeros (length x0) # rest"
proof -
  let ?n = "length x0"
  from assms obtain f g where c: "call_f_grad f_grad (zeros ?n) = Inr (f, g)"
    by (auto simp: minimize_AFW_L1_def Let_def split: sum.splits)
  with assms obtain f' g' L' a' w' where
    r: "for_range (AFW_L1_body f_grad alpha tol ls ?n) max_iter 0
          (zeros ?n, f, g, L_t, L1_init ?n, 1, [zeros ?n]) = Inr (x_end, f', g', L', a', w', calls)"
    by (auto simp: minimize_AFW_L1_def Let_def split: sum.splits prod.splits)
  from for_range_log[where c = "\<lambda>s. snd (snd (snd (snd (snd (snd s)))))", OF AFW_L1_body_log r]
  show ?thesis by simp
qed

lemma zeros_2: "zeros 2 = [0, 0]"
  by (simp add: zeros_def numeral_eq_Suc)

text \<open>
  A strategy that a driver does not know: the pass that reaches the line search raises
  \<^verbatim>\<open>ValueError\<close> in the four drivers whose chain of strategies ends in \<^verbatim>\<open>else: raise\<close>, and a
  run whose passes cannot go on takes no step.
\<close>

lemma FW_trace_body_unknown_raises:
  assumes "ls \<noteq> ''adaptive''" "ls \<noteq> ''Lipschitz''" "ls \<noteq> ''approx_ls''"
    and "FW_trace_direction svds alpha x grad = Inr (d_t, g_t)" "\<not> g_t \<le> tol"
  shows "FW_trace_body svds A alpha tol ls it (x, f, grad, L, calls) = Raise ValueError"
  using assms by (simp add: FW_trace_body_def FW_trace_linesearch_def)

lemma PFW_trace_body_unknown_raises:
  assumes "ls \<noteq> ''adaptive''" "ls \<noteq> ''Lipschitz''" "ls \<noteq> ''approx_ls''"
    and "PFW_trace_direction svds alpha x grad active coefs
           = Inr (in_as, idx_min, s_t, vt_idx, gamma_max, d_t, g_t)"
  shows "PFW_trace_body svds A alpha tol ls it (x, f, grad, L, active, coefs, calls)
         = Raise ValueError"
  using assms by (simp add: PFW_trace_body_def PFW_trace_linesearch_def)

lemma PFW_L1_body_unknown_raises:
  assumes "ls \<noteq> ''adaptive''" "ls \<noteq> ''Lipschitz''"
    and "L1_atoms alpha n grad active = Inr (io, mo, mi, ma)"
    and "PFW_L1_gap alpha n x grad w io mo mi ma = Inr (gamma_max, g_t)" "\<not> g_t \<le> tol"
  shows "PFW_L1_body f_grad alpha tol ls n it (x, f, grad, L, active, w, calls) = Raise ValueError"
  using assms by (simp add: PFW_L1_body_def L1_linesearch_def Let_def)

lemma AFW_L1_body_unknown_raises:
  assumes "ls \<noteq> ''adaptive''" "ls \<noteq> ''Lipschitz''"
    and "L1_atoms alpha n grad active = Inr (io, mo, mi, ma)"
    and "AFW_L1_direction alpha n x grad io mo mi ma = Inr (d_t, gamma_max, g_t)" "\<not> g_t \<le> tol"
  shows "AFW_L1_body f_grad alpha tol ls n it (x, f, grad, L, active, w, calls) = Raise ValueError"
  using assms by (simp add: AFW_L1_body_def L1_linesearch_def Let_def)

lemma minimize_FW_trace_no_step:
  assumes "\<And>s s'. FW_trace_body svds_uvt A alpha tol ls 0 s \<noteq> Continue s'"
  shows "isl (minimize_FW_trace svds_uvt A x alpha L max_iter tol ls)
         \<or> minimize_FW_trace svds_uvt A x alpha L max_iter tol ls = Inr (x, [x])"
proof (cases "trace_f_grad A x")
  case (Inl e)
  then show ?thesis by (simp add: minimize_FW_trace_def)
next
  case (Inr r)
  obtain f g where r: "r = (f, g)" by (cases r)
  have "for_range (FW_trace_body svds_uvt A alpha tol ls) max_iter 0 (x, f, g, L, [x])
          = Inr (x, f, g, L, [x])
        \<or> (\<exists>e. for_range (FW_trace_body svds_uvt A alpha tol ls) max_iter 0
                  (x, f, g, L, [x]) = Inl e)"
    by (rule for_range_no_step) (rule assms)
  then show ?thesis using Inr r by (auto simp: minimize_FW_trace_def)
qed

lemma minimize_PFW_trace_no_step:
  assumes "\<And>s s'. PFW_trace_body svds_uvt A alpha tol ls 0 s \<noteq> Continue s'"
  shows "isl (minimize_PFW_trace svds_uvt A x alpha L max_iter tol ls)
         \<or> minimize_PFW_trace svds_uvt A x alpha L max_iter tol ls = Inr (x, [x])"
proof (cases "trace_f_grad A x")
  case (Inl e)
  then show ?thesis by (simp add: minimize_PFW_trace_def)
next
  case (Inr r)
  obtain f g where r: "r = (f, g)" by (cases r)
  have "for_range (PFW_trace_body svds_uvt A alpha tol ls) max_iter 0
          (x, f, g, L, [zeros (length A)], [1], [x])
          = Inr (x, f, g, L, [zeros (length A)], [1], [x])
        \<or> (\<exists>e. for_range (PFW_trace_body svds_uvt A alpha tol ls) max_iter 0
                  (x, f, g, L, [zeros (length A)], [1], [x]) = Inl e)"
    by (rule for_range_no_step) (rule assms)
  then show ?thesis using Inr r by (auto simp: minimize_PFW_trace_def)
qed

lemma minimize_PFW_L1_no_step:
  assumes "\<And>s s'. PFW_L1_body f_grad alpha tol ls (length x) 0 s \<noteq> Continue s'"
  shows "isl (minimize_PFW_L1 f_grad x alpha L max_iter tol ls)
         \<or> minimize_PFW_L1 f_grad x alpha L max_iter tol ls
            = Inr (zeros (length x), [zeros (length x)])"
proof (cases "call_f_grad f_grad (zeros (length x))")
  case (Inl e)
  then show ?thesis by (simp add: minimize_PFW_L1_def Let_def)
next
  case (Inr r)
  let ?z = "zeros (length x)"
  obtain f g where r: "r = (f, g)" by (cases r)
  have "for_range (PFW_L1_body f_grad alpha tol ls (length x)) max_iter 0
          (?z, f, g, L, L1_init (length x), 1, [?z])
          = Inr (?z, f, g, L, L1_init (length x), 1, [?z])
        \<or> (\<exists>e. for_range (PFW_L1_body f_grad alpha tol ls (length x)) max_iter 0
                  (?z, f, g, L, L1_init (length x), 1, [?z]) = Inl e)"
    by (rule for_range_no_step) (rule assms)
  then show ?thesis using Inr r by (auto simp: minimize_PFW_L1_def Let_def)
qed

lemma minimize_AFW_L1_no_step:
  assumes "\<And>s s'. AFW_L1_body f_grad alpha tol ls (length x) 0 s \<noteq> Continue s'"
  shows "isl (minimize_AFW_L1 f_grad x alpha L max_iter tol ls)
         \<or> minimize_AFW_L1 f_grad x alpha L max_iter tol ls
            = Inr (zeros (length x), [zeros (length x)])"
proof (cases "call_f_grad f_grad (zeros (length x))")
  case (Inl e)
  then show ?thesis by (simp add: minimize_AFW_L1_def Let_def)
next
  case (Inr r)
  let ?z = "zeros (length x)"
  obtain f g where r: "r = (f, g)" by (cases r)
  have "for_range (AFW_L1_body f_grad alpha tol ls (length x)) max_iter 0
          (?z, f, g, L, L1_init (length x), 1, [?z])
          = Inr (?z, f, g, L, L1_init (length x), 1, [?z])
        \<or> (\<exists>e. for_range (AFW_L1_body f_grad alpha tol ls (length x)) max_iter 0
                  (?z, f, g, L, L1_init (length x), 1, [?z]) = Inl e)"
    by (rule for_range_no_step) (rule assms)
  then show ?thesis using Inr r by (auto simp: minimize_AFW_L1_def Let_def)
qed

lemma minimize_AFW_L1_fails:
  assumes "length x0 = n" "call_f_grad f_grad (zeros n) = Inr (f, g)"
    and "for_range (AFW_L1_body f_grad alpha tol ls n) max_iter 0
           (zeros n, f, g, L, L1_init n, 1, [zeros n]) = Inl e"
  shows "minimize_AFW_L1 f_grad x0 alpha L max_iter tol ls = Inl e"
  using assms by (simp add: minimize_AFW_L1_def Let_def)

section \<open>Runs on concrete inputs\<close>

text \<open>
  First passes of the drivers on the objectives of the section on concrete inputs, evaluated
  step by step. A loop of a hundred trials is evaluated for any number \<open>Suc k\<close> of trials,
  since it is left in the first.
\<close>

subsection \<open>\<open>50 (x - 1/10)\<^sup>2\<close> in \<^verbatim>\<open>minimize_FW_L1\<close>\<close>

lemma start_quad_steep: "call_f_grad quad_steep [0] = Inr (1 / 2, [- 10])"
  by (simp add: quad_steep_def call_f_grad_def power2_eq_square)

lemma FW_L1_direction_quad_steep: "FW_L1_direction 1 [0] [- 10] = Inr ([1], 10)"
  by (simp add: FW_L1_direction_def argmax_def vneg_def vdot_def Let_def)

lemma FW_L1_linesearch_Lipschitz_quad_steep:
  "FW_L1_linesearch quad_steep ''Lipschitz'' (1 / 2) [0] [1] 10 1 = Inr (1, 1, 81 / 2, [90])"
  by (simp add: FW_L1_linesearch_def vdot_def fdiv_def call_f_grad_def quad_steep_def
        vadd_def smul_def Let_def power2_eq_square)

lemma FW_L1_body_Lipschitz_quad_steep:
  "FW_L1_body quad_steep 1 (1 / 10 ^ 12) ''Lipschitz'' 0 ([0], 1 / 2, [- 10], 1, [[0]])
   = Continue ([1], 81 / 2, [90], 1, [[0], [1]])"
  by (simp add: FW_L1_body_def FW_L1_direction_quad_steep FW_L1_linesearch_Lipschitz_quad_steep
        vadd_def smul_def Let_def)

lemma backtrack_for_quad_steep_big_L:
  "backtrack_for (1 / 2) quad_steep [0] [1] 10 1 (10 ^ 11) 1 2 (999 / 1000) (Suc k) 0 None
   = Inr (Accepted, 1 / 10 ^ 10, 999 * 10 ^ 8,
          fst (quad_steep [1 / 10 ^ 10]), snd (quad_steep [1 / 10 ^ 10]))"
  by (simp add: fdiv_def call_f_grad_def quad_steep_def vadd_def smul_def Let_def
        power2_eq_square)

lemma FW_L1_linesearch_quad_steep_big_L:
  "FW_L1_linesearch quad_steep ''adaptive'' (1 / 2) [0] [1] 10 (10 ^ 11)
   = Inr (1 / 10 ^ 10, 999 * 10 ^ 8,
          fst (quad_steep [1 / 10 ^ 10]), snd (quad_steep [1 / 10 ^ 10]))"
proof -
  have "vdot [1] [1] = 1" by (simp add: vdot_def)
  then show ?thesis
    using backtrack_for_quad_steep_big_L[of 99]
    by (simp add: FW_L1_linesearch_def backtrack_def)
qed

lemma FW_L1_body_quad_steep_big_L:
  "FW_L1_body quad_steep 1 (1 / 10 ^ 12) ''adaptive'' 0 ([0], 1 / 2, [- 10], 10 ^ 11, [[0]])
   = Continue ([1 / 10 ^ 10], fst (quad_steep [1 / 10 ^ 10]), snd (quad_steep [1 / 10 ^ 10]),
               999 * 10 ^ 8, [[0], [1 / 10 ^ 10]])"
  using FW_L1_linesearch_quad_steep_big_L
  by (simp add: FW_L1_body_def FW_L1_direction_quad_steep vadd_def smul_def Let_def
        case_prod_beta)

lemma minimize_FW_L1_converged_unknown:
  "minimize_FW_L1 quad_steep [1 / 10] 1 1 5 (1 / 10 ^ 12) ''bogus'' = Inr ([1 / 10], [[1 / 10]])"
proof -
  have s: "call_f_grad quad_steep [1 / 10] = Inr (0, [0])"
    by (simp add: call_f_grad_def quad_steep_def)
  have "FW_L1_direction 1 [1 / 10] [0] = Inr ([- (1 / 10)], 0)"
    by (simp add: FW_L1_direction_def argmax_def vneg_def vdot_def Let_def)
  then have "FW_L1_body quad_steep 1 (1 / 10 ^ 12) ''bogus'' 0 ([1 / 10], 0, [0], 1, [[1 / 10]])
             = Break"
    by (simp add: FW_L1_body_def)
  then have "for_range (FW_L1_body quad_steep 1 (1 / 10 ^ 12) ''bogus'') 5 0
               ([1 / 10], 0, [0], 1, [[1 / 10]]) = Inr ([1 / 10], 0, [0], 1, [[1 / 10]])"
    by (rule for_range_break)
  from minimize_FW_L1_run[OF s this] show ?thesis .
qed

lemma minimize_FW_L1_zero_radius_nonzero_start:
  "minimize_FW_L1 quad_steep [1 / 10] 0 1 3 (1 / 10 ^ 12) ''adaptive''
   = Inr ([1 / 10], [[1 / 10]])"
proof -
  have s: "call_f_grad quad_steep [1 / 10] = Inr (0, [0])"
    by (simp add: call_f_grad_def quad_steep_def)
  have "FW_L1_direction 0 [1 / 10] [0] = Inr ([- (1 / 10)], 0)"
    by (simp add: FW_L1_direction_def argmax_def vneg_def vdot_def Let_def)
  then have "FW_L1_body quad_steep 0 (1 / 10 ^ 12) ''adaptive'' 0 ([1 / 10], 0, [0], 1, [[1 / 10]])
             = Break"
    by (simp add: FW_L1_body_def)
  then have "for_range (FW_L1_body quad_steep 0 (1 / 10 ^ 12) ''adaptive'') 3 0
               ([1 / 10], 0, [0], 1, [[1 / 10]]) = Inr ([1 / 10], 0, [0], 1, [[1 / 10]])"
    by (rule for_range_break)
  from minimize_FW_L1_run[OF s this] show ?thesis .
qed

subsection \<open>\<open>(x\<^sub>1 - 1)\<^sup>2 / 2\<close> in the L1 drivers\<close>

lemma start_quad_2d: "call_f_grad quad_2d (zeros 2) = Inr (1 / 2, [0, - 1])"
  by (simp add: quad_2d_def call_f_grad_def zeros_def numeral_eq_Suc)

lemma L1_atoms_quad_2d: "L1_atoms 1 2 [0, - 1] (L1_init 2) = Inr (Suc 0, 1, 4, - 1)"
  by (simp add: L1_atoms_def max_active_init argmax_def Let_def)

lemma PFW_L1_gap_quad_2d: "PFW_L1_gap 1 2 [0, 0] [0, - 1] 1 (Suc 0) 1 4 (- 1) = Inr (1, 1)"
  by (simp add: PFW_L1_gap_def Let_def)

lemma PFW_L1_probe_quad_2d:
  "PFW_L1_probe quad_2d [0, 0] 2 (Suc 0) 1 True 4 (- 1) (1 / 2) = Inr ([0, 1 / 2], 1 / 8, [0, - (1 / 2)])"
  by (simp add: PFW_L1_probe_def quad_2d_def call_f_grad_def Let_def power2_eq_square)

lemma trials_quad_2d:
  "adaptive_trials (PFW_L1_probe quad_2d [0, 0] 2 (Suc 0) 1 True 4 (- 1)) True (999 / 1000)
     (1 / 2) 1 2 1 (Suc k) 0 1 None
   = Inr (Accepted, 1 / 2, 999 / 1000, [0, 1 / 2], 1 / 8, [0, - (1 / 2)])"
  by (simp add: fdiv_def PFW_L1_probe_quad_2d LS_EPS_def Let_def)

lemma L1_linesearch_quad_2d:
  "L1_linesearch (PFW_L1_probe quad_2d [0, 0] 2 (Suc 0) 1 True 4 (- 1)) ''adaptive'' (1 / 2) 1 2 1 1
   = Inr (1 / 2, 999 / 1000, [0, 1 / 2], 1 / 8, [0, - (1 / 2)])"
  using trials_quad_2d[of 99] by (simp add: L1_linesearch_def)

lemma PFW_L1_update_quad_2d:
  "PFW_L1_update 2 0 (Suc 0) 4 True (1 / 2) [0, 1 / 2] (L1_init 2) 1
   = ([False, True, False, False, True], 1)"
  by (simp add: PFW_L1_update_def L1_init_def Let_def numeral_eq_Suc)

lemma PFW_L1_body_quad_2d:
  "PFW_L1_body quad_2d 1 (1 / 10 ^ 12) ''adaptive'' 2 0
     ([0, 0], 1 / 2, [0, - 1], 1, L1_init 2, 1, [[0, 0]])
   = Continue ([0, 1 / 2], 1 / 8, [0, - (1 / 2)], 999 / 1000,
        [False, True, False, False, True], 1, [[0, 0], [0, 1 / 2]])"
  by (simp add: PFW_L1_body_def L1_atoms_quad_2d PFW_L1_gap_quad_2d L1_linesearch_quad_2d
        PFW_L1_update_quad_2d Let_def)

lemma backtrack_for_quad_2d:
  "backtrack_for (1 / 2) quad_2d [0, 0] [0, 1] 1 1 1 1 2 (999 / 1000) (Suc k) 0 None
   = Inr (Accepted, 1, 999 / 1000, 0, [0, 0])"
  by (simp add: fdiv_def call_f_grad_def quad_2d_def vadd_def smul_def Let_def)

lemma AFW_L1_direction_quad_2d:
  "AFW_L1_direction 1 2 [0, 0] [0, - 1] (Suc 0) 1 4 (- 1) = Inr ([0, 1], 1, 1)"
  by (simp add: AFW_L1_direction_def AFW_L1_gaps_def vdot_def vneg_def Let_def)

lemma AFW_probe_quad_2d:
  "probe_along (call_f_grad quad_2d) [0, 0] [0, 1] 1 = Inr ([0, 1], 0, [0, 0])"
  by (simp add: probe_along_def call_f_grad_def quad_2d_def vadd_def smul_def Let_def)

lemma AFW_trials_quad_2d:
  "adaptive_trials (probe_along (call_f_grad quad_2d) [0, 0] [0, 1]) True (999 / 1000)
     (1 / 2) 1 1 1 (Suc k) 0 1 None
   = Inr (Accepted, 1, 999 / 1000, [0, 1], 0, [0, 0])"
  by (simp add: fdiv_def AFW_probe_quad_2d LS_EPS_def Let_def)

lemma AFW_linesearch_quad_2d:
  "L1_linesearch (probe_along (call_f_grad quad_2d) [0, 0] [0, 1]) ''adaptive'' (1 / 2) 1 1 1 1
   = Inr (1, 999 / 1000, [0, 1], 0, [0, 0])"
  using AFW_trials_quad_2d[of 99] by (simp add: L1_linesearch_def)

lemma AFW_L1_body_quad_2d:
  "AFW_L1_body quad_2d 1 (1 / 10 ^ 12) ''adaptive'' 2 0
     ([0, 0], 1 / 2, [0, - 1], 1, L1_init 2, 1, [[0, 0]])
   = Continue ([0, 1], 0, [0, 0], 999 / 1000, [False, True, False, False, False], 1,
               [[0, 0], [0, 1]])"
proof -
  have "vdot [0, 1] [0, 1] = 1" by (simp add: vdot_def)
  moreover have "L1_init 2 = [False, False, False, False, True]"
    by (simp add: L1_init_def numeral_eq_Suc)
  ultimately show ?thesis
    using L1_atoms_quad_2d
    by (simp add: AFW_L1_body_def AFW_L1_direction_quad_2d AFW_linesearch_quad_2d py_set_def
          Let_def)
qed

lemma trials_quad_2d_drop:
  "adaptive_trials (PFW_L1_probe quad_2d [0, 0] 2 (Suc 0) 1 True 4 (- 1)) True (999 / 1000)
     (1 / 2) 1 2 1 (Suc k) 0 (1 / 2) None
   = Inr (Accepted, 1, 999 / 2000, [0, 1], 0, [0, 0])"
  by (simp add: fdiv_def PFW_L1_probe_def quad_2d_def call_f_grad_def LS_EPS_def Let_def)

lemma L1_linesearch_quad_2d_drop:
  "L1_linesearch (PFW_L1_probe quad_2d [0, 0] 2 (Suc 0) 1 True 4 (- 1)) ''adaptive'' (1 / 2) 1 2
     (1 / 2) 1
   = Inr (1, 999 / 2000, [0, 1], 0, [0, 0])"
  using trials_quad_2d_drop[of 99] by (simp add: L1_linesearch_def)

lemma PFW_L1_update_quad_2d_drop:
  "PFW_L1_update 2 0 (Suc 0) 4 True 1 [0, 1] (L1_init 2) 1
   = ([False, True, False, False, True], 1)"
  by (simp add: PFW_L1_update_def L1_init_def Let_def numeral_eq_Suc)

lemma PFW_L1_body_quad_2d_drop:
  "PFW_L1_body quad_2d 1 (1 / 10 ^ 12) ''adaptive'' 2 0
     ([0, 0], 1 / 2, [0, - 1], 1 / 2, L1_init 2, 1, [[0, 0]])
   = Continue ([0, 1], 0, [0, 0], 999 / 2000, [False, True, False, False, True], 1,
        [[0, 0], [0, 1]])"
  by (simp add: PFW_L1_body_def L1_atoms_quad_2d PFW_L1_gap_quad_2d L1_linesearch_quad_2d_drop
        PFW_L1_update_quad_2d_drop Let_def)

lemma minimize_PFW_L1_quad_2d:
  "minimize_PFW_L1 quad_2d [3, 4] 1 1 (Suc 0) (1 / 10 ^ 12) ''adaptive''
   = Inr ([0, 1 / 2], [[0, 0], [0, 1 / 2]])"
proof -
  have l: "length [3, 4 :: real] = 2" by simp
  have "for_range (PFW_L1_body quad_2d 1 (1 / 10 ^ 12) ''adaptive'' 2) (Suc 0) 0
          ([0, 0], 1 / 2, [0, - 1], 1, L1_init 2, 1, [[0, 0]])
        = Inr ([0, 1 / 2], 1 / 8, [0, - (1 / 2)], 999 / 1000,
               [False, True, False, False, True], 1, [[0, 0], [0, 1 / 2]])"
    using PFW_L1_body_quad_2d by (rule for_range_one)
  then have "for_range (PFW_L1_body quad_2d 1 (1 / 10 ^ 12) ''adaptive'' 2) (Suc 0) 0
          (zeros 2, 1 / 2, [0, - 1], 1, L1_init 2, 1, [zeros 2])
        = Inr ([0, 1 / 2], 1 / 8, [0, - (1 / 2)], 999 / 1000,
               [False, True, False, False, True], 1, [[0, 0], [0, 1 / 2]])"
    by (simp add: zeros_2)
  from minimize_PFW_L1_run[OF l start_quad_2d this] show ?thesis .
qed

lemma minimize_AFW_L1_quad_2d:
  "minimize_AFW_L1 quad_2d [3, 4] 1 1 (Suc 0) (1 / 10 ^ 12) ''adaptive''
   = Inr ([0, 1], [[0, 0], [0, 1]])"
proof -
  have l: "length [3, 4 :: real] = 2" by simp
  have "for_range (AFW_L1_body quad_2d 1 (1 / 10 ^ 12) ''adaptive'' 2) (Suc 0) 0
          ([0, 0], 1 / 2, [0, - 1], 1, L1_init 2, 1, [[0, 0]])
        = Inr ([0, 1], 0, [0, 0], 999 / 1000, [False, True, False, False, False], 1,
               [[0, 0], [0, 1]])"
    using AFW_L1_body_quad_2d by (rule for_range_one)
  then have "for_range (AFW_L1_body quad_2d 1 (1 / 10 ^ 12) ''adaptive'' 2) (Suc 0) 0
          (zeros 2, 1 / 2, [0, - 1], 1, L1_init 2, 1, [zeros 2])
        = Inr ([0, 1], 0, [0, 0], 999 / 1000, [False, True, False, False, False], 1,
               [[0, 0], [0, 1]])"
    by (simp add: zeros_2)
  from minimize_AFW_L1_run[OF l start_quad_2d this] show ?thesis .
qed

lemma PFW_linesearch_big_L:
  "L1_linesearch (PFW_L1_probe quad_2d [0, 0] 2 (Suc 0) 1 True 4 (- 1)) ''Lipschitz'' (1 / 2) 1 2
     (10 ^ 11) 1
   = Inr (1 / (2 * 10 ^ 11), 10 ^ 11, [0, 1 / (2 * 10 ^ 11)],
          fst (quad_2d [0, 1 / (2 * 10 ^ 11)]), snd (quad_2d [0, 1 / (2 * 10 ^ 11)]))"
  by (simp add: L1_linesearch_def fdiv_def PFW_L1_probe_def call_f_grad_def quad_2d_def Let_def)

lemma AFW_linesearch_big_L:
  "L1_linesearch (probe_along (call_f_grad quad_2d) [0, 0] [0, 1]) ''Lipschitz'' (1 / 2) 1 1
     (10 ^ 11) 1
   = Inr (1 / 10 ^ 11, 10 ^ 11, [0, 1 / 10 ^ 11],
          fst (quad_2d [0, 1 / 10 ^ 11]), snd (quad_2d [0, 1 / 10 ^ 11]))"
  by (simp add: L1_linesearch_def fdiv_def probe_along_def call_f_grad_def quad_2d_def vadd_def
        smul_def Let_def)

lemma L1_linesearch_approx_ls: "L1_linesearch probe ''approx_ls'' f_t g_t d2_t L_t gamma_max = Inl ValueError"
  by (simp add: L1_linesearch_def)

lemma PFW_L1_body_approx_ls:
  "PFW_L1_body quad_2d 1 (1 / 10 ^ 12) ''approx_ls'' 2 0
     (zeros 2, 1 / 2, [0, - 1], 1, L1_init 2, 1, [zeros 2]) = Raise ValueError"
  by (simp add: PFW_L1_body_def zeros_2 L1_atoms_quad_2d PFW_L1_gap_quad_2d
        L1_linesearch_approx_ls Let_def)

lemma minimize_PFW_L1_approx_ls:
  "minimize_PFW_L1 quad_2d [0, 0] 1 1 5 (1 / 10 ^ 12) ''approx_ls'' = Inl ValueError"
proof -
  have l: "length [0, 0 :: real] = 2" by simp
  have "for_range (PFW_L1_body quad_2d 1 (1 / 10 ^ 12) ''approx_ls'' 2) (Suc 4) 0
          (zeros 2, 1 / 2, [0, - 1], 1, L1_init 2, 1, [zeros 2]) = Inl ValueError"
    using PFW_L1_body_approx_ls by (rule for_range_raise)
  then have "for_range (PFW_L1_body quad_2d 1 (1 / 10 ^ 12) ''approx_ls'' 2) 5 0
          (zeros 2, 1 / 2, [0, - 1], 1, L1_init 2, 1, [zeros 2]) = Inl ValueError"
    by (simp add: numeral_eq_Suc)
  from minimize_PFW_L1_fails[OF l start_quad_2d this] show ?thesis .
qed

subsection \<open>The gaps at the iterate \<open>(0, 1/2)\<close>\<close>







subsection \<open>The trace-norm problem\<close>

lemma trace_f_grad_e11_start:
  "trace_f_grad A_e11 [0, 0, 0, 0] = Inr (1 / 8, [- (1 / 4), 0, 0, 0])"
  by (simp add: trace_f_grad_def A_e11_def dense_def pattern_def vsub_def fdiv_def)

lemma trace_f_grad_e11_next:
  "trace_f_grad A_e11 [1 / 4, 0, 0, 0] = Inr (9 / 128, [- (3 / 16), 0, 0, 0])"
  by (simp add: trace_f_grad_def A_e11_def dense_def pattern_def vsub_def fdiv_def
        power2_eq_square)

lemma PFW_trace_direction_e11:
  "PFW_trace_direction uvt_e11 1 [0, 0, 0, 0] [- (1 / 4), 0, 0, 0] [[0, 0, 0, 0]] [1]
   = Inr (False, 0, [1, 0, 0, 0], 0, 1, [1, 0, 0, 0], 1 / 4)"
  by (simp add: PFW_trace_direction_def uvt_e11_def amax_def smul_def vsub_def vneg_def
        vdot_def Let_def)

lemma probe_e11:
  "probe_along (trace_f_grad A_e11) [0, 0, 0, 0] [1, 0, 0, 0] (1 / 4)
   = Inr ([1 / 4, 0, 0, 0], 9 / 128, [- (3 / 16), 0, 0, 0])"
  by (simp add: probe_along_def vadd_def smul_def trace_f_grad_e11_next)

lemma trials_e11:
  "adaptive_trials (probe_along (trace_f_grad A_e11) [0, 0, 0, 0] [1, 0, 0, 0]) False (99 / 100)
     (1 / 8) (1 / 4) 1 1 (Suc k) 0 1 None
   = Inr (Accepted, 1 / 4, 99 / 100, [1 / 4, 0, 0, 0], 9 / 128, [- (3 / 16), 0, 0, 0])"
  by (simp add: fdiv_def probe_e11 LS_EPS_def Let_def)

lemma PFW_trace_linesearch_e11:
  "PFW_trace_linesearch A_e11 ''adaptive'' (1 / 8) [0, 0, 0, 0] [1, 0, 0, 0] (1 / 4) 1 1
   = Inr (1 / 4, 99 / 100, 9 / 128, [- (3 / 16), 0, 0, 0])"
  using trials_e11[of 99] by (simp add: PFW_trace_linesearch_def vdot_def)

lemma PFW_trace_body_e11:
  "PFW_trace_body uvt_e11 A_e11 1 1 ''adaptive'' 0
     ([0, 0, 0, 0], 1 / 8, [- (1 / 4), 0, 0, 0], 1, [[0, 0, 0, 0]], [1], [[0, 0, 0, 0]])
   = Continue ([1 / 4, 0, 0, 0], 9 / 128, [- (3 / 16), 0, 0, 0], 99 / 100,
        [[0, 0, 0, 0], [1, 0, 0, 0]], [3 / 4, 1 / 4], [[0, 0, 0, 0], [1 / 4, 0, 0, 0]])"
  by (simp add: PFW_trace_body_def PFW_trace_direction_e11 PFW_trace_linesearch_e11
        PFW_trace_toward_update_def PFW_trace_away_update_def vadd_def smul_def Let_def)

lemma minimize_PFW_trace_e11:
  "minimize_PFW_trace uvt_e11 A_e11 [0, 0, 0, 0] 1 1 1 1 ''adaptive''
   = Inr ([1 / 4, 0, 0, 0], [[0, 0, 0, 0], [1 / 4, 0, 0, 0]])"
proof -
  have "zeros (length A_e11) = [0, 0, 0, 0]"
    by (simp add: A_e11_def zeros_def)
  then show ?thesis
    by (simp add: minimize_PFW_trace_def trace_f_grad_e11_start PFW_trace_body_e11)
qed

lemma FW_trace_direction_e11:
  "FW_trace_direction uvt_e11 1 [0, 0, 0, 0] [- (1 / 4), 0, 0, 0] = Inr ([1, 0, 0, 0], 1 / 4)"
  by (simp add: FW_trace_direction_def uvt_e11_def smul_def vsub_def vneg_def vdot_def Let_def)

lemma minimize_FW_trace_e11:
  "minimize_FW_trace uvt_e11 A_e11 [0, 0, 0, 0] 1 1 1 1 ''adaptive''
   = Inr ([0, 0, 0, 0], [[0, 0, 0, 0]])"
proof -
  have "length A_e11 \<noteq> 0"
    by (simp add: A_e11_def)
  then show ?thesis
    by (simp add: minimize_FW_trace_def trace_f_grad_e11_start FW_trace_body_def
          FW_trace_direction_e11)
qed

lemma trace_f_grad_e11_vertex:
  "trace_f_grad A_e11 [1, 0, 0, 0] = Inr (0, [0, 0, 0, 0])"
  by (simp add: trace_f_grad_def A_e11_def dense_def pattern_def vsub_def fdiv_def)

lemma probe_e11_vertex:
  "probe_along (trace_f_grad A_e11) [0, 0, 0, 0] [1, 0, 0, 0] 1
   = Inr ([1, 0, 0, 0], 0, [0, 0, 0, 0])"
  by (simp add: probe_along_def vadd_def smul_def trace_f_grad_e11_vertex)

lemma trials_e11_drop:
  "adaptive_trials (probe_along (trace_f_grad A_e11) [0, 0, 0, 0] [1, 0, 0, 0]) False (99 / 100)
     (1 / 8) (1 / 4) 1 1 (Suc k) 0 (1 / 4) None
   = Inr (Accepted, 1, 99 / 400, [1, 0, 0, 0], 0, [0, 0, 0, 0])"
  by (simp add: fdiv_def probe_e11_vertex LS_EPS_def Let_def)

lemma PFW_trace_linesearch_e11_drop:
  "PFW_trace_linesearch A_e11 ''adaptive'' (1 / 8) [0, 0, 0, 0] [1, 0, 0, 0] (1 / 4) (1 / 4) 1
   = Inr (1, 99 / 400, 0, [0, 0, 0, 0])"
  using trials_e11_drop[of 99] by (simp add: PFW_trace_linesearch_def vdot_def)

lemma PFW_trace_toward_e11_drop:
  "PFW_trace_toward_update False 0 [1, 0, 0, 0] 1 ([[0, 0, 0, 0]], [1])
   = ([[0, 0, 0, 0], [1, 0, 0, 0]], [1, 1])"
  by (simp add: PFW_trace_toward_update_def)

subsection \<open>One pass with each strategy\<close>

text \<open>
  The first pass of each driver with each strategy it has a branch for, on \<open>(x\<^sub>1 - 1)\<^sup>2 / 2\<close>
  with \<open>alpha = 1\<close> and on the 2 x 2 trace-norm problem, and runs with the strategy
  \<^verbatim>\<open>'bogus'\<close>.
\<close>

lemma FW_L1_direction_quad_2d: "FW_L1_direction 1 [0, 0] [0, - 1] = Inr ([0, 1], 1)"
  by (simp add: FW_L1_direction_def argmax_def vneg_def vdot_def Let_def)

lemma vdot_01: "vdot [0, 1] [0, 1] = 1"
  by (simp add: vdot_def)

lemma FW_L1_linesearch_adaptive_quad_2d:
  "FW_L1_linesearch quad_2d ''adaptive'' (1 / 2) [0, 0] [0, 1] 1 1
   = Inr (1, 999 / 1000, 0, [0, 0])"
  using backtrack_for_quad_2d[of 99] by (simp add: FW_L1_linesearch_def backtrack_def vdot_01)

lemma FW_L1_body_adaptive_quad_2d:
  "FW_L1_body quad_2d 1 (1 / 10 ^ 12) ''adaptive'' 0 ([0, 0], 1 / 2, [0, - 1], 1, [[0, 0]])
   = Continue ([0, 1], 0, [0, 0], 999 / 1000, [[0, 0], [0, 1]])"
  by (simp add: FW_L1_body_def FW_L1_direction_quad_2d FW_L1_linesearch_adaptive_quad_2d
        vadd_def smul_def Let_def)

lemma FW_L1_linesearch_Lipschitz_quad_2d:
  "FW_L1_linesearch quad_2d ''Lipschitz'' (1 / 2) [0, 0] [0, 1] 1 1 = Inr (1, 1, 0, [0, 0])"
  by (simp add: FW_L1_linesearch_def vdot_01 fdiv_def call_f_grad_def quad_2d_def
        vadd_def smul_def Let_def)

lemma FW_L1_body_Lipschitz_quad_2d:
  "FW_L1_body quad_2d 1 (1 / 10 ^ 12) ''Lipschitz'' 0 ([0, 0], 1 / 2, [0, - 1], 1, [[0, 0]])
   = Continue ([0, 1], 0, [0, 0], 1, [[0, 0], [0, 1]])"
  by (simp add: FW_L1_body_def FW_L1_direction_quad_2d FW_L1_linesearch_Lipschitz_quad_2d
        vadd_def smul_def Let_def)

lemma ls_obj_quad_2d:
  "ls_obj (call_f_grad quad_2d) [0, 0] [0, 1] gamma
   = Inr ((gamma - 1) ^ 2 / 2, gamma - 1, [0, gamma - 1])"
  by (simp add: ls_obj_def call_f_grad_def quad_2d_def vadd_def smul_def vdot_def)

lemma armijo_for_quad_2d:
  "approx_ls_armijo_for (1 / 2) [0, 1] (ls_obj (call_f_grad quad_2d) [0, 0] [0, 1]) (Suc k)
     0 (- 1) 1 0 None = Inr (1 / 2)"
  by (simp add: ls_obj_quad_2d bisect_def vdot_def Let_def power2_eq_square)

lemma FW_L1_linesearch_approx_ls_quad_2d:
  "FW_L1_linesearch quad_2d ''approx_ls'' (1 / 2) [0, 0] [0, 1] 1 1
   = Inr (1 / 2, 1, 1 / 8, [0, - (1 / 2)])"
proof -
  have "approx_ls_armijo (1 / 2) (call_f_grad quad_2d) [0, 0] [0, 1] 1 1 1 100 = Inr (1 / 2)"
    using armijo_for_quad_2d[of 99] by (simp add: approx_ls_armijo_def ls_obj_quad_2d)
  then show ?thesis
    by (simp add: FW_L1_linesearch_def call_f_grad_def quad_2d_def vadd_def smul_def
          power2_eq_square)
qed

lemma FW_L1_body_approx_ls_quad_2d:
  "FW_L1_body quad_2d 1 (1 / 10 ^ 12) ''approx_ls'' 0 ([0, 0], 1 / 2, [0, - 1], 1, [[0, 0]])
   = Continue ([0, 1 / 2], 1 / 8, [0, - (1 / 2)], 1, [[0, 0], [0, 1 / 2]])"
  by (simp add: FW_L1_body_def FW_L1_direction_quad_2d FW_L1_linesearch_approx_ls_quad_2d
        vadd_def smul_def Let_def)

lemma L1_linesearch_Lipschitz_quad_2d:
  "L1_linesearch (PFW_L1_probe quad_2d [0, 0] 2 (Suc 0) 1 True 4 (- 1)) ''Lipschitz'' (1 / 2) 1 2
     1 1
   = Inr (1 / 2, 1, [0, 1 / 2], 1 / 8, [0, - (1 / 2)])"
  by (simp add: L1_linesearch_def fdiv_def PFW_L1_probe_quad_2d Let_def)

lemma PFW_L1_body_Lipschitz_quad_2d:
  "PFW_L1_body quad_2d 1 (1 / 10 ^ 12) ''Lipschitz'' 2 0
     ([0, 0], 1 / 2, [0, - 1], 1, L1_init 2, 1, [[0, 0]])
   = Continue ([0, 1 / 2], 1 / 8, [0, - (1 / 2)], 1,
        [False, True, False, False, True], 1, [[0, 0], [0, 1 / 2]])"
  by (simp add: PFW_L1_body_def L1_atoms_quad_2d PFW_L1_gap_quad_2d
        L1_linesearch_Lipschitz_quad_2d PFW_L1_update_quad_2d Let_def)

lemma AFW_linesearch_Lipschitz_quad_2d:
  "L1_linesearch (probe_along (call_f_grad quad_2d) [0, 0] [0, 1]) ''Lipschitz'' (1 / 2) 1 1 1 1
   = Inr (1, 1, [0, 1], 0, [0, 0])"
  by (simp add: L1_linesearch_def fdiv_def AFW_probe_quad_2d Let_def)

lemma AFW_L1_body_Lipschitz_quad_2d:
  "AFW_L1_body quad_2d 1 (1 / 10 ^ 12) ''Lipschitz'' 2 0
     ([0, 0], 1 / 2, [0, - 1], 1, L1_init 2, 1, [[0, 0]])
   = Continue ([0, 1], 0, [0, 0], 1, [False, True, False, False, False], 1,
               [[0, 0], [0, 1]])"
proof -
  have "L1_init 2 = [False, False, False, False, True]"
    by (simp add: L1_init_def numeral_eq_Suc)
  then show ?thesis
    using L1_atoms_quad_2d
    by (simp add: AFW_L1_body_def AFW_L1_direction_quad_2d AFW_linesearch_Lipschitz_quad_2d
          py_set_def vdot_01 Let_def)
qed

lemma trace_f_grad_e11_half:
  "trace_f_grad A_e11 [1 / 2, 0, 0, 0] = Inr (1 / 32, [- (1 / 8), 0, 0, 0])"
  by (simp add: trace_f_grad_def A_e11_def dense_def pattern_def vsub_def fdiv_def
        power2_eq_square)

lemma vdot_e11: "vdot [1, 0, 0, 0] [1, 0, 0, 0] = 1"
  by (simp add: vdot_def)

lemma trials_e11_FW:
  "adaptive_trials (probe_along (trace_f_grad A_e11) [0, 0, 0, 0] [1, 0, 0, 0]) False
     (999 / 1000) (1 / 8) (1 / 4) 1 1 (Suc k) 0 1 None
   = Inr (Accepted, 1 / 4, 999 / 1000, [1 / 4, 0, 0, 0], 9 / 128, [- (3 / 16), 0, 0, 0])"
  by (simp add: fdiv_def probe_e11 LS_EPS_def Let_def)

lemma FW_trace_linesearch_adaptive_e11:
  "FW_trace_linesearch A_e11 ''adaptive'' (1 / 8) [0, 0, 0, 0] [1, 0, 0, 0] (1 / 4) 1
   = Inr (1 / 4, 999 / 1000, 9 / 128, [- (3 / 16), 0, 0, 0])"
  using trials_e11_FW[of 99] by (simp add: FW_trace_linesearch_def vdot_e11)

lemma FW_trace_body_adaptive_e11:
  "FW_trace_body uvt_e11 A_e11 1 (1 / 10 ^ 12) ''adaptive'' 0
     ([0, 0, 0, 0], 1 / 8, [- (1 / 4), 0, 0, 0], 1, [[0, 0, 0, 0]])
   = Continue ([1 / 4, 0, 0, 0], 9 / 128, [- (3 / 16), 0, 0, 0], 999 / 1000,
        [[0, 0, 0, 0], [1 / 4, 0, 0, 0]])"
  by (simp add: FW_trace_body_def FW_trace_direction_e11 FW_trace_linesearch_adaptive_e11
        vadd_def smul_def Let_def)

lemma FW_trace_linesearch_Lipschitz_e11:
  "FW_trace_linesearch A_e11 ''Lipschitz'' (1 / 8) [0, 0, 0, 0] [1, 0, 0, 0] (1 / 4) 1
   = Inr (1 / 4, 1, 9 / 128, [- (3 / 16), 0, 0, 0])"
  by (simp add: FW_trace_linesearch_def vdot_e11 fdiv_def vadd_def smul_def
        trace_f_grad_e11_next Let_def)

lemma FW_trace_body_Lipschitz_e11:
  "FW_trace_body uvt_e11 A_e11 1 (1 / 10 ^ 12) ''Lipschitz'' 0
     ([0, 0, 0, 0], 1 / 8, [- (1 / 4), 0, 0, 0], 1, [[0, 0, 0, 0]])
   = Continue ([1 / 4, 0, 0, 0], 9 / 128, [- (3 / 16), 0, 0, 0], 1,
        [[0, 0, 0, 0], [1 / 4, 0, 0, 0]])"
  by (simp add: FW_trace_body_def FW_trace_direction_e11 FW_trace_linesearch_Lipschitz_e11
        vadd_def smul_def Let_def)

lemma ls_obj_e11_0:
  "ls_obj (trace_f_grad A_e11) [0, 0, 0, 0] [1, 0, 0, 0] 0
   = Inr (1 / 8, - (1 / 4), [- (1 / 4), 0, 0, 0])"
  by (simp add: ls_obj_def vadd_def smul_def trace_f_grad_e11_start vdot_def)

lemma ls_obj_e11_1:
  "ls_obj (trace_f_grad A_e11) [0, 0, 0, 0] [1, 0, 0, 0] 1 = Inr (0, 0, [0, 0, 0, 0])"
  by (simp add: ls_obj_def vadd_def smul_def trace_f_grad_e11_vertex vdot_def)

lemma ls_obj_e11_half:
  "ls_obj (trace_f_grad A_e11) [0, 0, 0, 0] [1, 0, 0, 0] (1 / 2)
   = Inr (1 / 32, - (1 / 8), [- (1 / 8), 0, 0, 0])"
  by (simp add: ls_obj_def vadd_def smul_def trace_f_grad_e11_half vdot_def)

lemma approx_ls_trace_for_e11:
  "approx_ls_trace_for (1 / 8) (ls_obj (trace_f_grad A_e11) [0, 0, 0, 0] [1, 0, 0, 0]) (Suc k)
     0 (- (1 / 4)) 1 0 None
   = Inr (1 / 2, 1, Some (1 / 2, 1 / 32, - (1 / 8)))"
  by (simp add: ls_obj_e11_half bisect_def Let_def)

lemma FW_trace_linesearch_approx_ls_e11:
  "FW_trace_linesearch A_e11 ''approx_ls'' (1 / 8) [0, 0, 0, 0] [1, 0, 0, 0] (1 / 4) 1
   = Inr (1 / 2, 1, 1 / 32, [- (1 / 8), 0, 0, 0])"
proof -
  have "approx_ls_trace (1 / 8) (trace_f_grad A_e11) [0, 0, 0, 0] [1, 0, 0, 0] (1 / 4) 1 1 100
        = Inr (1 / 2)"
    using approx_ls_trace_for_e11[of 99]
    by (simp add: approx_ls_trace_def ls_obj_e11_0 ls_obj_e11_1)
  then show ?thesis
    by (simp add: FW_trace_linesearch_def vadd_def smul_def trace_f_grad_e11_half)
qed

lemma FW_trace_body_approx_ls_e11:
  "FW_trace_body uvt_e11 A_e11 1 (1 / 10 ^ 12) ''approx_ls'' 0
     ([0, 0, 0, 0], 1 / 8, [- (1 / 4), 0, 0, 0], 1, [[0, 0, 0, 0]])
   = Continue ([1 / 2, 0, 0, 0], 1 / 32, [- (1 / 8), 0, 0, 0], 1,
        [[0, 0, 0, 0], [1 / 2, 0, 0, 0]])"
  by (simp add: FW_trace_body_def FW_trace_direction_e11 FW_trace_linesearch_approx_ls_e11
        vadd_def smul_def Let_def)

lemma PFW_trace_linesearch_Lipschitz_e11:
  "PFW_trace_linesearch A_e11 ''Lipschitz'' (1 / 8) [0, 0, 0, 0] [1, 0, 0, 0] (1 / 4) 1 1
   = Inr (1 / 4, 1, 9 / 128, [- (3 / 16), 0, 0, 0])"
  by (simp add: PFW_trace_linesearch_def vdot_e11 fdiv_def vadd_def smul_def
        trace_f_grad_e11_next Let_def)

lemma PFW_trace_body_Lipschitz_e11:
  "PFW_trace_body uvt_e11 A_e11 1 (1 / 10 ^ 12) ''Lipschitz'' 0
     ([0, 0, 0, 0], 1 / 8, [- (1 / 4), 0, 0, 0], 1, [[0, 0, 0, 0]], [1], [[0, 0, 0, 0]])
   = Continue ([1 / 4, 0, 0, 0], 9 / 128, [- (3 / 16), 0, 0, 0], 1,
        [[0, 0, 0, 0], [1, 0, 0, 0]], [3 / 4, 1 / 4], [[0, 0, 0, 0], [1 / 4, 0, 0, 0]])"
  by (simp add: PFW_trace_body_def PFW_trace_direction_e11 PFW_trace_linesearch_Lipschitz_e11
        PFW_trace_toward_update_def PFW_trace_away_update_def vadd_def smul_def Let_def)

lemma PFW_trace_body_adaptive_e11:
  "PFW_trace_body uvt_e11 A_e11 1 (1 / 10 ^ 12) ''adaptive'' 0
     ([0, 0, 0, 0], 1 / 8, [- (1 / 4), 0, 0, 0], 1, [[0, 0, 0, 0]], [1], [[0, 0, 0, 0]])
   = Continue ([1 / 4, 0, 0, 0], 9 / 128, [- (3 / 16), 0, 0, 0], 99 / 100,
        [[0, 0, 0, 0], [1, 0, 0, 0]], [3 / 4, 1 / 4], [[0, 0, 0, 0], [1 / 4, 0, 0, 0]])"
  by (simp add: PFW_trace_body_def PFW_trace_direction_e11 PFW_trace_linesearch_e11
        PFW_trace_toward_update_def PFW_trace_away_update_def vadd_def smul_def Let_def)

lemma PFW_trace_linesearch_approx_ls:
  "isl (PFW_trace_linesearch A ''approx_ls'' f_t x_t d_t g_t L_t gamma_max)"
  by (simp add: PFW_trace_linesearch_def split: sum.splits prod.splits)

lemma PFW_trace_linesearch_approx_ls_e11:
  "PFW_trace_linesearch A_e11 ''approx_ls'' (1 / 8) [0, 0, 0, 0] [1, 0, 0, 0] (1 / 4) 1 1
   = Inl NotImplementedError"
  by (simp add: PFW_trace_linesearch_def vadd_def smul_def trace_f_grad_e11_start
        trace_f_grad_e11_vertex)

lemma minimize_PFW_L1_bogus:
  "minimize_PFW_L1 quad_2d [0, 0] 1 1 5 (1 / 10 ^ 12) ''bogus'' = Inl ValueError"
proof -
  have l: "length [0, 0 :: real] = 2" by simp
  have "PFW_L1_body quad_2d 1 (1 / 10 ^ 12) ''bogus'' 2 0
          (zeros 2, 1 / 2, [0, - 1], 1, L1_init 2, 1, [zeros 2]) = Raise ValueError"
    by (simp add: PFW_L1_body_def zeros_2 L1_atoms_quad_2d PFW_L1_gap_quad_2d
          L1_linesearch_def Let_def)
  then have "for_range (PFW_L1_body quad_2d 1 (1 / 10 ^ 12) ''bogus'' 2) (Suc 4) 0
          (zeros 2, 1 / 2, [0, - 1], 1, L1_init 2, 1, [zeros 2]) = Inl ValueError"
    by (rule for_range_raise)
  then have "for_range (PFW_L1_body quad_2d 1 (1 / 10 ^ 12) ''bogus'' 2) 5 0
          (zeros 2, 1 / 2, [0, - 1], 1, L1_init 2, 1, [zeros 2]) = Inl ValueError"
    by (simp add: numeral_eq_Suc)
  from minimize_PFW_L1_fails[OF l start_quad_2d this] show ?thesis .
qed

lemma minimize_AFW_L1_bogus:
  "minimize_AFW_L1 quad_2d [0, 0] 1 1 5 (1 / 10 ^ 12) ''bogus'' = Inl ValueError"
proof -
  have l: "length [0, 0 :: real] = 2" by simp
  have "AFW_L1_body quad_2d 1 (1 / 10 ^ 12) ''bogus'' 2 0
          (zeros 2, 1 / 2, [0, - 1], 1, L1_init 2, 1, [zeros 2]) = Raise ValueError"
    by (simp add: AFW_L1_body_def zeros_2 L1_atoms_quad_2d AFW_L1_direction_quad_2d
          L1_linesearch_def Let_def)
  then have "for_range (AFW_L1_body quad_2d 1 (1 / 10 ^ 12) ''bogus'' 2) (Suc 4) 0
          (zeros 2, 1 / 2, [0, - 1], 1, L1_init 2, 1, [zeros 2]) = Inl ValueError"
    by (rule for_range_raise)
  then have "for_range (AFW_L1_body quad_2d 1 (1 / 10 ^ 12) ''bogus'' 2) 5 0
          (zeros 2, 1 / 2, [0, - 1], 1, L1_init 2, 1, [zeros 2]) = Inl ValueError"
    by (simp add: numeral_eq_Suc)
  from minimize_AFW_L1_fails[OF l start_quad_2d this] show ?thesis .
qed

lemma minimize_FW_trace_bogus:
  "minimize_FW_trace uvt_e11 A_e11 [0, 0, 0, 0] 1 1 5 (1 / 10 ^ 12) ''bogus'' = Inl ValueError"
proof -
  have "FW_trace_body uvt_e11 A_e11 1 (1 / 10 ^ 12) ''bogus'' 0
          ([0, 0, 0, 0], 1 / 8, [- (1 / 4), 0, 0, 0], 1, [[0, 0, 0, 0]]) = Raise ValueError"
    by (simp add: FW_trace_body_def FW_trace_direction_e11 FW_trace_linesearch_def)
  then have "for_range (FW_trace_body uvt_e11 A_e11 1 (1 / 10 ^ 12) ''bogus'') (Suc 4) 0
          ([0, 0, 0, 0], 1 / 8, [- (1 / 4), 0, 0, 0], 1, [[0, 0, 0, 0]]) = Inl ValueError"
    by (rule for_range_raise)
  then have "for_range (FW_trace_body uvt_e11 A_e11 1 (1 / 10 ^ 12) ''bogus'') 5 0
          ([0, 0, 0, 0], 1 / 8, [- (1 / 4), 0, 0, 0], 1, [[0, 0, 0, 0]]) = Inl ValueError"
    by (simp add: numeral_eq_Suc)
  moreover have "length A_e11 \<noteq> 0" by (simp add: A_e11_def)
  ultimately show ?thesis
    by (simp add: minimize_FW_trace_def trace_f_grad_e11_start)
qed

lemma minimize_PFW_trace_bogus:
  "minimize_PFW_trace uvt_e11 A_e11 [0, 0, 0, 0] 1 1 5 (1 / 10 ^ 12) ''bogus'' = Inl ValueError"
proof -
  have "PFW_trace_body uvt_e11 A_e11 1 (1 / 10 ^ 12) ''bogus'' 0
          ([0, 0, 0, 0], 1 / 8, [- (1 / 4), 0, 0, 0], 1, [[0, 0, 0, 0]], [1], [[0, 0, 0, 0]])
        = Raise ValueError"
    by (simp add: PFW_trace_body_def PFW_trace_direction_e11 PFW_trace_linesearch_def)
  then have "for_range (PFW_trace_body uvt_e11 A_e11 1 (1 / 10 ^ 12) ''bogus'') (Suc 4) 0
          ([0, 0, 0, 0], 1 / 8, [- (1 / 4), 0, 0, 0], 1, [[0, 0, 0, 0]], [1], [[0, 0, 0, 0]])
        = Inl ValueError"
    by (rule for_range_raise)
  then have "for_range (PFW_trace_body uvt_e11 A_e11 1 (1 / 10 ^ 12) ''bogus'') 5 0
          ([0, 0, 0, 0], 1 / 8, [- (1 / 4), 0, 0, 0], 1, [[0, 0, 0, 0]], [1], [[0, 0, 0, 0]])
        = Inl ValueError"
    by (simp add: numeral_eq_Suc)
  moreover have "zeros (length A_e11) = [0, 0, 0, 0]" by (simp add: A_e11_def zeros_def)
  ultimately show ?thesis
    by (simp add: minimize_PFW_trace_def trace_f_grad_e11_start)
qed

subsection \<open>The descent inequality on the concrete objectives\<close>





section \<open>The claims\<close>

subsection \<open>C1: the stopping rule\<close>

text \<open>
  C1, for \<^verbatim>\<open>minimize_PFW_trace\<close>: the 2 x 2 problem with the one observed entry \<open>A\<^sub>0\<^sub>0 = 1\<close>,
  started at the zero matrix with \<open>alpha = 1\<close>, \<open>L_t = 1\<close>, \<open>max_iter = 1\<close>, the adaptive
  strategy and \<open>tol = 1\<close>. The gap of the first pass is \<open>1/4 \<le> tol\<close>. The claim has the loop
  stop there and return the current iterate, the zero matrix. \<^verbatim>\<open>minimize_FW_trace\<close> does so on
  this input, and a pass of each of the four other drivers is a \<^verbatim>\<open>break\<close> when its gap is at
  most \<open>tol\<close> (lemmas \<open>FW_L1_body_stops\<close>, \<open>FW_trace_body_stops\<close>, \<open>PFW_L1_body_stops\<close>,
  \<open>AFW_L1_body_stops\<close>). \<^verbatim>\<open>minimize_PFW_trace\<close> tests \<^verbatim>\<open>g_t <= tol\<close> and goes on (\<^verbatim>\<open>pass\<close>): it
  takes the step and returns \<open>x\<^sub>0\<^sub>0 = 1/4\<close>. No pass of it is a \<^verbatim>\<open>break\<close>, whatever the input.
\<close>

theorem PFW_trace_steps_at_gap_below_tol:
  "PFW_trace_direction uvt_e11 1 [0, 0, 0, 0] [- (1 / 4), 0, 0, 0] [[0, 0, 0, 0]] [1]
     = Inr (False, 0, [1, 0, 0, 0], 0, 1, [1, 0, 0, 0], 1 / 4)
   \<and> minimize_PFW_trace uvt_e11 A_e11 [0, 0, 0, 0] 1 1 1 1 ''adaptive''
     = Inr ([1 / 4, 0, 0, 0], [[0, 0, 0, 0], [1 / 4, 0, 0, 0]])
   \<and> minimize_FW_trace uvt_e11 A_e11 [0, 0, 0, 0] 1 1 1 1 ''adaptive''
     = Inr ([0, 0, 0, 0], [[0, 0, 0, 0]])
   \<and> PFW_trace_body svds_uvt A alpha tol ls_strategy it s \<noteq> Break"
  using PFW_trace_direction_e11 minimize_PFW_trace_e11 minimize_FW_trace_e11
    PFW_trace_body_never_stops
  by simp

subsection \<open>C2: the weights of the active set\<close>

text \<open>
  C2, for \<^verbatim>\<open>minimize_PFW_L1\<close>: the objective \<open>(x\<^sub>1 - 1)\<^sup>2 / 2\<close> in two variables, \<open>alpha = 1\<close>,
  \<open>L_t = 1\<close>, the adaptive strategy. The first pass moves the weight \<open>1/2\<close> from the origin to
  the atom \<open>+e\<^sub>1\<close>: the iterate becomes \<open>(0, 1/2)\<close>. The update of \<^verbatim>\<open>weight_zero\<close> stands under
  \<^verbatim>\<open>if it > 0\<close> and is skipped in this pass, so the weight of the origin stays \<open>1\<close>: after the
  first iteration the weights of the active atoms are \<open>1\<close> for the origin and \<open>\<bar>x\<^sub>1\<bar> / alpha = 1/2\<close>
  for \<open>+e\<^sub>1\<close>, with sum \<open>3/2\<close>, where the claim has the sum \<open>1\<close> after every iteration, the first
  included.
\<close>

theorem PFW_L1_first_pass_keeps_weight_zero:
  "call_f_grad quad_2d (zeros 2) = Inr (1 / 2, [0, - 1])
   \<and> PFW_L1_body quad_2d 1 (1 / 10 ^ 12) ''adaptive'' 2 0
       (zeros 2, 1 / 2, [0, - 1], 1, L1_init 2, 1, [zeros 2])
     = Continue ([0, 1 / 2], 1 / 8, [0, - (1 / 2)], 999 / 1000,
         [False, True, False, False, True], 1, [[0, 0], [0, 1 / 2]])
   \<and> 1 + norm1 [0, 1 / 2] / 1 = (3 / 2 :: real)"
  using start_quad_2d PFW_L1_body_quad_2d by (simp add: zeros_2 norm1_def)

subsection \<open>C3: the curvature estimate in the adaptive line search\<close>

text \<open>
  C3, at the call \<^verbatim>\<open>minimize_FW_L1\<close> makes in its first pass for the objective
  \<open>2 (x - 1/4)\<^sup>2\<close>, \<open>x0 = [0]\<close>, \<open>alpha = 1\<close>, \<open>L_t = 1\<close>: the first trial (step \<open>1\<close>, loss \<open>9/8\<close>
  against the bound \<open>- 3/8\<close>) is rejected. The claim has \<^verbatim>\<open>L_t\<close> doubled before each next trial,
  so that the third trial, with \<open>L_t = 4\<close> and step \<open>1/4\<close>, is accepted, and the loop written
  inline in the four other drivers does double at once (lemma \<open>adaptive_trials_rejected\<close>).
  \<^verbatim>\<open>backtrack\<close> instead returns the rejected step \<open>1\<close> with \<open>L_t = 2\<close>: one doubling after a
  hundred rejections (lemma \<open>backtrack_for_rejected\<close>).
\<close>

theorem backtrack_doubles_once_after_all_trials:
  "backtrack (1 / 8) quad_sharp [0] [1] 1 1 1 2 (999 / 1000) 100 = Inr (1, 2, 9 / 8, [3])"
proof -
  have 1: "fdiv 1 (vdot [1] [1] * 1) = Inr 1"
    by (simp add: fdiv_def vdot_def)
  have 2: "call_f_grad quad_sharp (vadd [0] (smul (min 1 1) [1])) = Inr (9 / 8, [3])"
    by (simp add: call_f_grad_def quad_sharp_def vadd_def smul_def power2_eq_square)
  have 3: "\<not> (9 / 8 :: real) \<le> 1 / 8 - min 1 1 * 1 + 0.5 * (min 1 1) ^ 2 * 1 * vdot [1] [1]"
    by (simp add: vdot_def)
  have "backtrack_for (1 / 8) quad_sharp [0] [1] 1 (vdot [1] [1]) 1 1 2 (999 / 1000)
          (Suc 99) 0 None
        = Inr (Exhausted, min 1 1, 1 * 2, 9 / 8, [3])"
    by (rule backtrack_for_rejected[OF 1 2 3])
  then show ?thesis by (simp add: backtrack_def)
qed

subsection \<open>C4: monotone decrease\<close>


subsection \<open>C5: the sign of the gap\<close>




subsection \<open>C6: the ceiling on the curvature estimate\<close>

text \<open>
  C6 as stated fails for the drivers that have no ceiling. \<^verbatim>\<open>minimize_FW_L1\<close>, started with
  \<open>L_t = 10\<^sup>1\<^sup>1\<close> on the objective \<open>50 (x - 1/10)\<^sup>2\<close>, accepts its first trial, goes on with
  \<open>L_t = 999 \<cdot> 10\<^sup>8\<close>, which is above \<open>10\<^sup>1\<^sup>0\<close>, and returns its iterate.
\<close>

theorem FW_L1_goes_on_above_ceiling:
  "FW_L1_body quad_steep 1 (1 / 10 ^ 12) ''adaptive'' 0 ([0], 1 / 2, [- 10], 10 ^ 11, [[0]])
     = Continue ([1 / 10 ^ 10], fst (quad_steep [1 / 10 ^ 10]), snd (quad_steep [1 / 10 ^ 10]),
                 999 * 10 ^ 8, [[0], [1 / 10 ^ 10]])
   \<and> (10 :: real) ^ 10 \<le> 999 * 10 ^ 8
   \<and> minimize_FW_L1 quad_steep [0] 1 (10 ^ 11) 1 (1 / 10 ^ 12) ''adaptive''
     = Inr ([1 / 10 ^ 10], [[0], [1 / 10 ^ 10]])"
proof -
  have "for_range (FW_L1_body quad_steep 1 (1 / 10 ^ 12) ''adaptive'') (Suc 0) 0
          ([0], 1 / 2, [- 10], 10 ^ 11, [[0]])
        = Inr ([1 / 10 ^ 10], fst (quad_steep [1 / 10 ^ 10]), snd (quad_steep [1 / 10 ^ 10]),
               999 * 10 ^ 8, [[0], [1 / 10 ^ 10]])"
    using FW_L1_body_quad_steep_big_L by (rule for_range_one)
  from minimize_FW_L1_run[OF start_quad_steep this]
  show ?thesis using FW_L1_body_quad_steep_big_L by simp
qed

text \<open>
  C6, amended: the ceiling is in \<^verbatim>\<open>minimize_PFW_L1\<close> and \<^verbatim>\<open>minimize_AFW_L1\<close> only, where it is
  tested after the line search of every pass that went by the gap test, under either
  strategy. No pass of these two drivers goes on with \<open>L_t \<ge> 10\<^sup>1\<^sup>0\<close>: a pass that hands its
  variables to the next one (or to the \<^verbatim>\<open>return\<close>) leaves \<open>L_t < 10\<^sup>1\<^sup>0\<close>, and a pass whose line
  search ends with \<open>L_t \<ge> 10\<^sup>1\<^sup>0\<close> raises \<^verbatim>\<open>ValueError\<close>.
\<close>

theorem L1_active_set_drivers_abort_at_ceiling:
  "(PFW_L1_body f_grad alpha tol ls_strategy n_features it s
      = Continue (x_next, f_next, grad_next, L_next, active_next, weight_next, calls_next)
    \<longrightarrow> L_next < 10 ^ 10)
   \<and> (AFW_L1_body f_grad alpha tol ls_strategy n_features it s
      = Continue (x_next, f_next, grad_next, L_next, active_next, weight_next, calls_next)
    \<longrightarrow> L_next < 10 ^ 10)
   \<and> (L1_atoms alpha n_features grad active_set = Inr (idx_oracle, mag_oracle, idx_away, mag_away)
      \<and> PFW_L1_gap alpha n_features x_t grad weight_zero idx_oracle mag_oracle idx_away mag_away
          = Inr (gamma_max, g_t)
      \<and> \<not> g_t \<le> tol \<and> int idx_oracle \<noteq> idx_away
      \<and> L1_linesearch
            (PFW_L1_probe f_grad x_t n_features idx_oracle mag_oracle
               (idx_away = int (2 * n_features)) idx_away mag_away)
            ls_strategy f_t g_t (2 * alpha ^ 2) L_t gamma_max
          = Inr (step_size, L_next, x_next, f_next, grad_next)
      \<and> 10 ^ 10 \<le> L_next
    \<longrightarrow> PFW_L1_body f_grad alpha tol ls_strategy n_features it
          (x_t, f_t, grad, L_t, active_set, weight_zero, calls) = Raise ValueError)
   \<and> (L1_atoms alpha n_features grad active_set = Inr (idx_oracle, mag_oracle, idx_away, mag_away)
      \<and> AFW_L1_direction alpha n_features x_t grad idx_oracle mag_oracle idx_away mag_away
          = Inr (d_t, gamma_max', g_t')
      \<and> \<not> g_t' \<le> tol
      \<and> L1_linesearch (probe_along (call_f_grad f_grad) x_t d_t) ls_strategy f_t g_t'
            (vdot d_t d_t) L_t gamma_max'
          = Inr (step_size', L_next', x_next', f_next', grad_next')
      \<and> 10 ^ 10 \<le> L_next'
    \<longrightarrow> AFW_L1_body f_grad alpha tol ls_strategy n_features it
          (x_t, f_t, grad, L_t, active_set, weight_zero, calls) = Raise ValueError)"
proof (intro conjI impI)
  assume "PFW_L1_body f_grad alpha tol ls_strategy n_features it s
      = Continue (x_next, f_next, grad_next, L_next, active_next, weight_next, calls_next)"
  then show "L_next < 10 ^ 10" by (rule PFW_L1_ceiling)
next
  assume "AFW_L1_body f_grad alpha tol ls_strategy n_features it s
      = Continue (x_next, f_next, grad_next, L_next, active_next, weight_next, calls_next)"
  then show "L_next < 10 ^ 10" by (rule AFW_L1_ceiling)
next
  assume "L1_atoms alpha n_features grad active_set = Inr (idx_oracle, mag_oracle, idx_away, mag_away)
      \<and> PFW_L1_gap alpha n_features x_t grad weight_zero idx_oracle mag_oracle idx_away mag_away
          = Inr (gamma_max, g_t)
      \<and> \<not> g_t \<le> tol \<and> int idx_oracle \<noteq> idx_away
      \<and> L1_linesearch
            (PFW_L1_probe f_grad x_t n_features idx_oracle mag_oracle
               (idx_away = int (2 * n_features)) idx_away mag_away)
            ls_strategy f_t g_t (2 * alpha ^ 2) L_t gamma_max
          = Inr (step_size, L_next, x_next, f_next, grad_next)
      \<and> 10 ^ 10 \<le> L_next"
  then show "PFW_L1_body f_grad alpha tol ls_strategy n_features it
          (x_t, f_t, grad, L_t, active_set, weight_zero, calls) = Raise ValueError"
    by (intro PFW_L1_body_raises_at_ceiling
          [where io = idx_oracle and mo = mag_oracle and mi = idx_away and ma = mag_away
             and gamma_max = gamma_max and g_t = g_t and step_size = step_size
             and L_next = L_next and x_next = x_next and f_next = f_next
             and grad_next = grad_next])
       simp_all
next
  assume "L1_atoms alpha n_features grad active_set = Inr (idx_oracle, mag_oracle, idx_away, mag_away)
      \<and> AFW_L1_direction alpha n_features x_t grad idx_oracle mag_oracle idx_away mag_away
          = Inr (d_t, gamma_max', g_t')
      \<and> \<not> g_t' \<le> tol
      \<and> L1_linesearch (probe_along (call_f_grad f_grad) x_t d_t) ls_strategy f_t g_t'
            (vdot d_t d_t) L_t gamma_max'
          = Inr (step_size', L_next', x_next', f_next', grad_next')
      \<and> 10 ^ 10 \<le> L_next'"
  then show "AFW_L1_body f_grad alpha tol ls_strategy n_features it
          (x_t, f_t, grad, L_t, active_set, weight_zero, calls) = Raise ValueError"
    by (intro AFW_L1_body_raises_at_ceiling
          [where io = idx_oracle and mo = mag_oracle and mi = idx_away and ma = mag_away
             and d_t = d_t and gamma_max = gamma_max' and g_t = g_t' and step_size = step_size'
             and L_next = L_next' and x_next = x_next' and f_next = f_next'
             and grad_next = grad_next'])
       simp_all
qed

theorem L1_active_set_drivers_abort_at_ceiling_witness:
  "PFW_L1_body quad_2d 1 (1 / 10 ^ 12) ''adaptive'' 2 0
       ([0, 0], 1 / 2, [0, - 1], 1, L1_init 2, 1, [[0, 0]])
     = Continue ([0, 1 / 2], 1 / 8, [0, - (1 / 2)], 999 / 1000,
         [False, True, False, False, True], 1, [[0, 0], [0, 1 / 2]])
   \<and> AFW_L1_body quad_2d 1 (1 / 10 ^ 12) ''adaptive'' 2 0
       ([0, 0], 1 / 2, [0, - 1], 1, L1_init 2, 1, [[0, 0]])
     = Continue ([0, 1], 0, [0, 0], 999 / 1000, [False, True, False, False, False], 1,
         [[0, 0], [0, 1]])
   \<and> (999 / 1000 :: real) < 10 ^ 10
   \<and> L1_atoms 1 2 [0, - 1] (L1_init 2) = Inr (1, 1, 4, - 1)
   \<and> PFW_L1_gap 1 2 [0, 0] [0, - 1] 1 1 1 4 (- 1) = Inr (1, 1)
   \<and> AFW_L1_direction 1 2 [0, 0] [0, - 1] 1 1 4 (- 1) = Inr ([0, 1], 1, 1)
   \<and> \<not> (1 :: real) \<le> 1 / 10 ^ 12 \<and> int 1 \<noteq> 4 \<and> (10 :: real) ^ 10 \<le> 10 ^ 11
   \<and> PFW_L1_body quad_2d 1 (1 / 10 ^ 12) ''Lipschitz'' 2 0
       ([0, 0], 1 / 2, [0, - 1], 10 ^ 11, L1_init 2, 1, [[0, 0]]) = Raise ValueError
   \<and> AFW_L1_body quad_2d 1 (1 / 10 ^ 12) ''Lipschitz'' 2 0
       ([0, 0], 1 / 2, [0, - 1], 10 ^ 11, L1_init 2, 1, [[0, 0]]) = Raise ValueError"
proof -
  have d2: "vdot [0, 1] [0, 1] = 1" by (simp add: vdot_def)
  note t1 = L1_active_set_drivers_abort_at_ceiling
      [where f_grad = quad_2d and alpha = 1 and tol = "1 / 10 ^ 12" and ls_strategy = "''adaptive''"
         and n_features = 2 and it = 0
         and s = "([0, 0], 1 / 2, [0, - 1], 1, L1_init 2, 1, [[0, 0]])"
         and x_next = "[0, 1 / 2]" and f_next = "1 / 8" and grad_next = "[0, - (1 / 2)]"
         and L_next = "999 / 1000" and active_next = "[False, True, False, False, True]"
         and weight_next = 1 and calls_next = "[[0, 0], [0, 1 / 2]]"]
  note t2 = L1_active_set_drivers_abort_at_ceiling
      [where f_grad = quad_2d and alpha = 1 and tol = "1 / 10 ^ 12" and ls_strategy = "''adaptive''"
         and n_features = 2 and it = 0
         and s = "([0, 0], 1 / 2, [0, - 1], 1, L1_init 2, 1, [[0, 0]])"
         and x_next = "[0, 1]" and f_next = 0 and grad_next = "[0, 0]"
         and L_next = "999 / 1000" and active_next = "[False, True, False, False, False]"
         and weight_next = 1 and calls_next = "[[0, 0], [0, 1]]"]
  note t3 = L1_active_set_drivers_abort_at_ceiling
      [where f_grad = quad_2d and alpha = 1 and tol = "1 / 10 ^ 12" and ls_strategy = "''Lipschitz''"
         and n_features = 2 and it = 0 and grad = "[0, - 1]" and active_set = "L1_init 2"
         and idx_oracle = 1 and mag_oracle = 1 and idx_away = 4 and mag_away = "- 1"
         and x_t = "[0, 0]" and weight_zero = 1 and gamma_max = 1 and g_t = 1
         and f_t = "1 / 2" and L_t = "10 ^ 11" and calls = "[[0, 0]]"
         and step_size = "1 / (2 * 10 ^ 11)" and L_next = "10 ^ 11"
         and x_next = "[0, 1 / (2 * 10 ^ 11)]"
         and f_next = "fst (quad_2d [0, 1 / (2 * 10 ^ 11)])"
         and grad_next = "snd (quad_2d [0, 1 / (2 * 10 ^ 11)])"
         and d_t = "[0, 1]" and gamma_max' = 1 and g_t' = 1
         and step_size' = "1 / 10 ^ 11" and L_next' = "10 ^ 11"
         and x_next' = "[0, 1 / 10 ^ 11]"
         and f_next' = "fst (quad_2d [0, 1 / 10 ^ 11])"
         and grad_next' = "snd (quad_2d [0, 1 / 10 ^ 11])"]
  show ?thesis
    using t1 t2 t3 PFW_L1_body_quad_2d AFW_L1_body_quad_2d L1_atoms_quad_2d PFW_L1_gap_quad_2d
      AFW_L1_direction_quad_2d PFW_linesearch_big_L AFW_linesearch_big_L d2
    by simp
qed

subsection \<open>C7: the line-search strategies\<close>

text \<open>
  C7 as stated fails twice. \<^verbatim>\<open>minimize_PFW_L1\<close> (as \<^verbatim>\<open>minimize_AFW_L1\<close>) knows \<^verbatim>\<open>'adaptive'\<close> and
  \<^verbatim>\<open>'Lipschitz'\<close> only and raises \<^verbatim>\<open>ValueError\<close> for \<^verbatim>\<open>'approx_ls'\<close>. And the strategy is looked
  at only in a pass that went by the gap test: \<^verbatim>\<open>minimize_FW_L1\<close>, started at the minimiser
  \<open>1/10\<close> of \<open>50 (x - 1/10)\<^sup>2\<close> with the strategy \<^verbatim>\<open>'bogus'\<close>, returns normally.
\<close>

theorem strategies_accepted_late_and_not_all:
  "minimize_PFW_L1 quad_2d [0, 0] 1 1 5 (1 / 10 ^ 12) ''approx_ls'' = Inl ValueError
   \<and> minimize_FW_L1 quad_steep [1 / 10] 1 1 5 (1 / 10 ^ 12) ''bogus''
     = Inr ([1 / 10], [[1 / 10]])"
  using minimize_PFW_L1_approx_ls minimize_FW_L1_converged_unknown by simp

text \<open>
  C7, amended. \<^verbatim>\<open>minimize_FW_L1\<close> and \<^verbatim>\<open>minimize_FW_trace\<close> take a step with each of
  \<^verbatim>\<open>'adaptive'\<close>, \<^verbatim>\<open>'Lipschitz'\<close> and \<^verbatim>\<open>'approx_ls'\<close>; \<^verbatim>\<open>minimize_PFW_trace\<close>,
  \<^verbatim>\<open>minimize_PFW_L1\<close> and \<^verbatim>\<open>minimize_AFW_L1\<close> take a step with \<^verbatim>\<open>'adaptive'\<close> and with
  \<^verbatim>\<open>'Lipschitz'\<close> (the first twelve conjuncts: a first pass of each).

  \<^verbatim>\<open>minimize_PFW_L1\<close> and \<^verbatim>\<open>minimize_AFW_L1\<close> know these two values only. With any other
  value, \<^verbatim>\<open>'approx_ls'\<close> included, a pass whose gap is above \<open>tol\<close> raises \<^verbatim>\<open>ValueError\<close>, and
  the run takes no step: it ends in an error, or it returns the initial iterate, the zero
  vector, the callback having seen nothing else (the first gap test passed, or \<^verbatim>\<open>max_iter\<close>
  is \<open>0\<close>: the strategy is not looked at before the loop). The same holds for
  \<^verbatim>\<open>minimize_FW_trace\<close> and \<^verbatim>\<open>minimize_PFW_trace\<close> with a value other than the three; a pass of
  \<^verbatim>\<open>minimize_PFW_trace\<close> has no gap test to go by.

  Two paths are not part of the statement. \<^verbatim>\<open>minimize_FW_L1\<close> has no final \<^verbatim>\<open>else\<close>, where
  its four siblings raise \<^verbatim>\<open>ValueError\<close>: another value leaves \<^verbatim>\<open>step_size\<close> unbound and line 139
  fails with \<^verbatim>\<open>UnboundLocalError\<close> (lemma \<open>FW_L1_body_unknown\<close>: no step is taken there
  either). \<^verbatim>\<open>minimize_PFW_trace\<close> has a branch for \<^verbatim>\<open>'approx_ls'\<close>, which calls the vector routine
  \<^verbatim>\<open>approx_ls\<close> on matrices and fails in it (lemma \<open>PFW_trace_linesearch_approx_ls\<close>).
\<close>

theorem strategies_of_the_drivers:
  "FW_L1_body quad_2d 1 (1 / 10 ^ 12) ''adaptive'' 0 ([0, 0], 1 / 2, [0, - 1], 1, [[0, 0]])
     = Continue ([0, 1], 0, [0, 0], 999 / 1000, [[0, 0], [0, 1]])
   \<and> FW_L1_body quad_2d 1 (1 / 10 ^ 12) ''Lipschitz'' 0 ([0, 0], 1 / 2, [0, - 1], 1, [[0, 0]])
     = Continue ([0, 1], 0, [0, 0], 1, [[0, 0], [0, 1]])
   \<and> FW_L1_body quad_2d 1 (1 / 10 ^ 12) ''approx_ls'' 0 ([0, 0], 1 / 2, [0, - 1], 1, [[0, 0]])
     = Continue ([0, 1 / 2], 1 / 8, [0, - (1 / 2)], 1, [[0, 0], [0, 1 / 2]])
   \<and> FW_trace_body uvt_e11 A_e11 1 (1 / 10 ^ 12) ''adaptive'' 0
       ([0, 0, 0, 0], 1 / 8, [- (1 / 4), 0, 0, 0], 1, [[0, 0, 0, 0]])
     = Continue ([1 / 4, 0, 0, 0], 9 / 128, [- (3 / 16), 0, 0, 0], 999 / 1000,
         [[0, 0, 0, 0], [1 / 4, 0, 0, 0]])
   \<and> FW_trace_body uvt_e11 A_e11 1 (1 / 10 ^ 12) ''Lipschitz'' 0
       ([0, 0, 0, 0], 1 / 8, [- (1 / 4), 0, 0, 0], 1, [[0, 0, 0, 0]])
     = Continue ([1 / 4, 0, 0, 0], 9 / 128, [- (3 / 16), 0, 0, 0], 1,
         [[0, 0, 0, 0], [1 / 4, 0, 0, 0]])
   \<and> FW_trace_body uvt_e11 A_e11 1 (1 / 10 ^ 12) ''approx_ls'' 0
       ([0, 0, 0, 0], 1 / 8, [- (1 / 4), 0, 0, 0], 1, [[0, 0, 0, 0]])
     = Continue ([1 / 2, 0, 0, 0], 1 / 32, [- (1 / 8), 0, 0, 0], 1,
         [[0, 0, 0, 0], [1 / 2, 0, 0, 0]])
   \<and> PFW_trace_body uvt_e11 A_e11 1 (1 / 10 ^ 12) ''adaptive'' 0
       ([0, 0, 0, 0], 1 / 8, [- (1 / 4), 0, 0, 0], 1, [[0, 0, 0, 0]], [1], [[0, 0, 0, 0]])
     = Continue ([1 / 4, 0, 0, 0], 9 / 128, [- (3 / 16), 0, 0, 0], 99 / 100,
         [[0, 0, 0, 0], [1, 0, 0, 0]], [3 / 4, 1 / 4], [[0, 0, 0, 0], [1 / 4, 0, 0, 0]])
   \<and> PFW_trace_body uvt_e11 A_e11 1 (1 / 10 ^ 12) ''Lipschitz'' 0
       ([0, 0, 0, 0], 1 / 8, [- (1 / 4), 0, 0, 0], 1, [[0, 0, 0, 0]], [1], [[0, 0, 0, 0]])
     = Continue ([1 / 4, 0, 0, 0], 9 / 128, [- (3 / 16), 0, 0, 0], 1,
         [[0, 0, 0, 0], [1, 0, 0, 0]], [3 / 4, 1 / 4], [[0, 0, 0, 0], [1 / 4, 0, 0, 0]])
   \<and> PFW_L1_body quad_2d 1 (1 / 10 ^ 12) ''adaptive'' 2 0
       ([0, 0], 1 / 2, [0, - 1], 1, [False, False, False, False, True], 1, [[0, 0]])
     = Continue ([0, 1 / 2], 1 / 8, [0, - (1 / 2)], 999 / 1000,
         [False, True, False, False, True], 1, [[0, 0], [0, 1 / 2]])
   \<and> PFW_L1_body quad_2d 1 (1 / 10 ^ 12) ''Lipschitz'' 2 0
       ([0, 0], 1 / 2, [0, - 1], 1, [False, False, False, False, True], 1, [[0, 0]])
     = Continue ([0, 1 / 2], 1 / 8, [0, - (1 / 2)], 1,
         [False, True, False, False, True], 1, [[0, 0], [0, 1 / 2]])
   \<and> AFW_L1_body quad_2d 1 (1 / 10 ^ 12) ''adaptive'' 2 0
       ([0, 0], 1 / 2, [0, - 1], 1, [False, False, False, False, True], 1, [[0, 0]])
     = Continue ([0, 1], 0, [0, 0], 999 / 1000, [False, True, False, False, False], 1,
         [[0, 0], [0, 1]])
   \<and> AFW_L1_body quad_2d 1 (1 / 10 ^ 12) ''Lipschitz'' 2 0
       ([0, 0], 1 / 2, [0, - 1], 1, [False, False, False, False, True], 1, [[0, 0]])
     = Continue ([0, 1], 0, [0, 0], 1, [False, True, False, False, False], 1,
         [[0, 0], [0, 1]])
   \<and> (ls_strategy \<notin> {''adaptive'', ''Lipschitz''} \<longrightarrow>
        (L1_atoms alpha n_features grad active_set
           = Inr (idx_oracle, mag_oracle, idx_away, mag_away)
         \<and> PFW_L1_gap alpha n_features x_t grad weight_zero idx_oracle mag_oracle idx_away
             mag_away = Inr (gamma_max, g_t)
         \<and> \<not> g_t \<le> tol
         \<longrightarrow> PFW_L1_body f_grad alpha tol ls_strategy n_features it
               (x_t, f_t, grad, L_t, active_set, weight_zero, calls) = Raise ValueError)
        \<and> (L1_atoms alpha n_features grad active_set
             = Inr (idx_oracle, mag_oracle, idx_away, mag_away)
           \<and> AFW_L1_direction alpha n_features x_t grad idx_oracle mag_oracle idx_away mag_away
               = Inr (d_t, gamma_a, g_a)
           \<and> \<not> g_a \<le> tol
           \<longrightarrow> AFW_L1_body f_grad alpha tol ls_strategy n_features it
                 (x_t, f_t, grad, L_t, active_set, weight_zero, calls) = Raise ValueError)
        \<and> (isl (minimize_PFW_L1 f_grad x_init alpha L_t max_iter tol ls_strategy)
             \<or> minimize_PFW_L1 f_grad x_init alpha L_t max_iter tol ls_strategy
                = Inr (zeros (length x_init), [zeros (length x_init)]))
        \<and> (isl (minimize_AFW_L1 f_grad x_init alpha L_t max_iter tol ls_strategy)
             \<or> minimize_AFW_L1 f_grad x_init alpha L_t max_iter tol ls_strategy
                = Inr (zeros (length x_init), [zeros (length x_init)])))
   \<and> (ls_strategy \<notin> {''adaptive'', ''Lipschitz'', ''approx_ls''} \<longrightarrow>
        (FW_trace_direction svds_uvt alpha X_t G = Inr (D_t, g_fw) \<and> \<not> g_fw \<le> tol
         \<longrightarrow> FW_trace_body svds_uvt A alpha tol ls_strategy it (X_t, F_t, G, L_t, Calls)
               = Raise ValueError)
        \<and> (PFW_trace_direction svds_uvt alpha X_t G atoms coefs
             = Inr (atom_in_activeset, idx_min_vt_st, s_t, vt_idx, gamma_p, D_p, g_p)
           \<longrightarrow> PFW_trace_body svds_uvt A alpha tol ls_strategy it
                 (X_t, F_t, G, L_t, atoms, coefs, Calls) = Raise ValueError)
        \<and> (isl (minimize_FW_trace svds_uvt A X_init alpha L_t max_iter tol ls_strategy)
             \<or> minimize_FW_trace svds_uvt A X_init alpha L_t max_iter tol ls_strategy
                = Inr (X_init, [X_init]))
        \<and> (isl (minimize_PFW_trace svds_uvt A X_init alpha L_t max_iter tol ls_strategy)
             \<or> minimize_PFW_trace svds_uvt A X_init alpha L_t max_iter tol ls_strategy
                = Inr (X_init, [X_init])))"
proof -
  have i: "L1_init 2 = [False, False, False, False, True]"
    by (simp add: L1_init_def numeral_eq_Suc)
  have known:
    "FW_L1_body quad_2d 1 (1 / 10 ^ 12) ''adaptive'' 0 ([0, 0], 1 / 2, [0, - 1], 1, [[0, 0]])
       = Continue ([0, 1], 0, [0, 0], 999 / 1000, [[0, 0], [0, 1]])"
    "FW_L1_body quad_2d 1 (1 / 10 ^ 12) ''Lipschitz'' 0 ([0, 0], 1 / 2, [0, - 1], 1, [[0, 0]])
       = Continue ([0, 1], 0, [0, 0], 1, [[0, 0], [0, 1]])"
    "FW_L1_body quad_2d 1 (1 / 10 ^ 12) ''approx_ls'' 0 ([0, 0], 1 / 2, [0, - 1], 1, [[0, 0]])
       = Continue ([0, 1 / 2], 1 / 8, [0, - (1 / 2)], 1, [[0, 0], [0, 1 / 2]])"
    "FW_trace_body uvt_e11 A_e11 1 (1 / 10 ^ 12) ''adaptive'' 0
         ([0, 0, 0, 0], 1 / 8, [- (1 / 4), 0, 0, 0], 1, [[0, 0, 0, 0]])
       = Continue ([1 / 4, 0, 0, 0], 9 / 128, [- (3 / 16), 0, 0, 0], 999 / 1000,
           [[0, 0, 0, 0], [1 / 4, 0, 0, 0]])"
    "FW_trace_body uvt_e11 A_e11 1 (1 / 10 ^ 12) ''Lipschitz'' 0
         ([0, 0, 0, 0], 1 / 8, [- (1 / 4), 0, 0, 0], 1, [[0, 0, 0, 0]])
       = Continue ([1 / 4, 0, 0, 0], 9 / 128, [- (3 / 16), 0, 0, 0], 1,
           [[0, 0, 0, 0], [1 / 4, 0, 0, 0]])"
    "FW_trace_body uvt_e11 A_e11 1 (1 / 10 ^ 12) ''approx_ls'' 0
         ([0, 0, 0, 0], 1 / 8, [- (1 / 4), 0, 0, 0], 1, [[0, 0, 0, 0]])
       = Continue ([1 / 2, 0, 0, 0], 1 / 32, [- (1 / 8), 0, 0, 0], 1,
           [[0, 0, 0, 0], [1 / 2, 0, 0, 0]])"
    "PFW_trace_body uvt_e11 A_e11 1 (1 / 10 ^ 12) ''adaptive'' 0
         ([0, 0, 0, 0], 1 / 8, [- (1 / 4), 0, 0, 0], 1, [[0, 0, 0, 0]], [1], [[0, 0, 0, 0]])
       = Continue ([1 / 4, 0, 0, 0], 9 / 128, [- (3 / 16), 0, 0, 0], 99 / 100,
           [[0, 0, 0, 0], [1, 0, 0, 0]], [3 / 4, 1 / 4], [[0, 0, 0, 0], [1 / 4, 0, 0, 0]])"
    "PFW_trace_body uvt_e11 A_e11 1 (1 / 10 ^ 12) ''Lipschitz'' 0
         ([0, 0, 0, 0], 1 / 8, [- (1 / 4), 0, 0, 0], 1, [[0, 0, 0, 0]], [1], [[0, 0, 0, 0]])
       = Continue ([1 / 4, 0, 0, 0], 9 / 128, [- (3 / 16), 0, 0, 0], 1,
           [[0, 0, 0, 0], [1, 0, 0, 0]], [3 / 4, 1 / 4], [[0, 0, 0, 0], [1 / 4, 0, 0, 0]])"
    "PFW_L1_body quad_2d 1 (1 / 10 ^ 12) ''adaptive'' 2 0
         ([0, 0], 1 / 2, [0, - 1], 1, [False, False, False, False, True], 1, [[0, 0]])
       = Continue ([0, 1 / 2], 1 / 8, [0, - (1 / 2)], 999 / 1000,
           [False, True, False, False, True], 1, [[0, 0], [0, 1 / 2]])"
    "PFW_L1_body quad_2d 1 (1 / 10 ^ 12) ''Lipschitz'' 2 0
         ([0, 0], 1 / 2, [0, - 1], 1, [False, False, False, False, True], 1, [[0, 0]])
       = Continue ([0, 1 / 2], 1 / 8, [0, - (1 / 2)], 1,
           [False, True, False, False, True], 1, [[0, 0], [0, 1 / 2]])"
    "AFW_L1_body quad_2d 1 (1 / 10 ^ 12) ''adaptive'' 2 0
         ([0, 0], 1 / 2, [0, - 1], 1, [False, False, False, False, True], 1, [[0, 0]])
       = Continue ([0, 1], 0, [0, 0], 999 / 1000, [False, True, False, False, False], 1,
           [[0, 0], [0, 1]])"
    "AFW_L1_body quad_2d 1 (1 / 10 ^ 12) ''Lipschitz'' 2 0
         ([0, 0], 1 / 2, [0, - 1], 1, [False, False, False, False, True], 1, [[0, 0]])
       = Continue ([0, 1], 0, [0, 0], 1, [False, True, False, False, False], 1,
           [[0, 0], [0, 1]])"
    using FW_L1_body_adaptive_quad_2d FW_L1_body_Lipschitz_quad_2d FW_L1_body_approx_ls_quad_2d
      FW_trace_body_adaptive_e11 FW_trace_body_Lipschitz_e11 FW_trace_body_approx_ls_e11
      PFW_trace_body_adaptive_e11 PFW_trace_body_Lipschitz_e11
      PFW_L1_body_quad_2d PFW_L1_body_Lipschitz_quad_2d
      AFW_L1_body_quad_2d AFW_L1_body_Lipschitz_quad_2d
    by (simp_all add: i)
  have two: "ls_strategy \<notin> {''adaptive'', ''Lipschitz''} \<longrightarrow>
        (L1_atoms alpha n_features grad active_set
           = Inr (idx_oracle, mag_oracle, idx_away, mag_away)
         \<and> PFW_L1_gap alpha n_features x_t grad weight_zero idx_oracle mag_oracle idx_away
             mag_away = Inr (gamma_max, g_t)
         \<and> \<not> g_t \<le> tol
         \<longrightarrow> PFW_L1_body f_grad alpha tol ls_strategy n_features it
               (x_t, f_t, grad, L_t, active_set, weight_zero, calls) = Raise ValueError)
        \<and> (L1_atoms alpha n_features grad active_set
             = Inr (idx_oracle, mag_oracle, idx_away, mag_away)
           \<and> AFW_L1_direction alpha n_features x_t grad idx_oracle mag_oracle idx_away mag_away
               = Inr (d_t, gamma_a, g_a)
           \<and> \<not> g_a \<le> tol
           \<longrightarrow> AFW_L1_body f_grad alpha tol ls_strategy n_features it
                 (x_t, f_t, grad, L_t, active_set, weight_zero, calls) = Raise ValueError)
        \<and> (isl (minimize_PFW_L1 f_grad x_init alpha L_t max_iter tol ls_strategy)
             \<or> minimize_PFW_L1 f_grad x_init alpha L_t max_iter tol ls_strategy
                = Inr (zeros (length x_init), [zeros (length x_init)]))
        \<and> (isl (minimize_AFW_L1 f_grad x_init alpha L_t max_iter tol ls_strategy)
             \<or> minimize_AFW_L1 f_grad x_init alpha L_t max_iter tol ls_strategy
                = Inr (zeros (length x_init), [zeros (length x_init)]))"
  proof (intro impI conjI)
    assume "ls_strategy \<notin> {''adaptive'', ''Lipschitz''}"
    then have n: "ls_strategy \<noteq> ''adaptive''" "ls_strategy \<noteq> ''Lipschitz''" by auto
    {
      assume "L1_atoms alpha n_features grad active_set
           = Inr (idx_oracle, mag_oracle, idx_away, mag_away)
         \<and> PFW_L1_gap alpha n_features x_t grad weight_zero idx_oracle mag_oracle idx_away
             mag_away = Inr (gamma_max, g_t)
         \<and> \<not> g_t \<le> tol"
      then show "PFW_L1_body f_grad alpha tol ls_strategy n_features it
               (x_t, f_t, grad, L_t, active_set, weight_zero, calls) = Raise ValueError"
        using PFW_L1_body_unknown_raises[OF n] by blast
    }
    {
      assume "L1_atoms alpha n_features grad active_set
             = Inr (idx_oracle, mag_oracle, idx_away, mag_away)
           \<and> AFW_L1_direction alpha n_features x_t grad idx_oracle mag_oracle idx_away mag_away
               = Inr (d_t, gamma_a, g_a)
           \<and> \<not> g_a \<le> tol"
      then show "AFW_L1_body f_grad alpha tol ls_strategy n_features it
                 (x_t, f_t, grad, L_t, active_set, weight_zero, calls) = Raise ValueError"
        using AFW_L1_body_unknown_raises[OF n] by blast
    }
    show "isl (minimize_PFW_L1 f_grad x_init alpha L_t max_iter tol ls_strategy)
             \<or> minimize_PFW_L1 f_grad x_init alpha L_t max_iter tol ls_strategy
                = Inr (zeros (length x_init), [zeros (length x_init)])"
      by (rule minimize_PFW_L1_no_step) (rule PFW_L1_body_unknown[OF n])
    show "isl (minimize_AFW_L1 f_grad x_init alpha L_t max_iter tol ls_strategy)
             \<or> minimize_AFW_L1 f_grad x_init alpha L_t max_iter tol ls_strategy
                = Inr (zeros (length x_init), [zeros (length x_init)])"
      by (rule minimize_AFW_L1_no_step) (rule AFW_L1_body_unknown[OF n])
  qed
  have three: "ls_strategy \<notin> {''adaptive'', ''Lipschitz'', ''approx_ls''} \<longrightarrow>
        (FW_trace_direction svds_uvt alpha X_t G = Inr (D_t, g_fw) \<and> \<not> g_fw \<le> tol
         \<longrightarrow> FW_trace_body svds_uvt A alpha tol ls_strategy it (X_t, F_t, G, L_t, Calls)
               = Raise ValueError)
        \<and> (PFW_trace_direction svds_uvt alpha X_t G atoms coefs
             = Inr (atom_in_activeset, idx_min_vt_st, s_t, vt_idx, gamma_p, D_p, g_p)
           \<longrightarrow> PFW_trace_body svds_uvt A alpha tol ls_strategy it
                 (X_t, F_t, G, L_t, atoms, coefs, Calls) = Raise ValueError)
        \<and> (isl (minimize_FW_trace svds_uvt A X_init alpha L_t max_iter tol ls_strategy)
             \<or> minimize_FW_trace svds_uvt A X_init alpha L_t max_iter tol ls_strategy
                = Inr (X_init, [X_init]))
        \<and> (isl (minimize_PFW_trace svds_uvt A X_init alpha L_t max_iter tol ls_strategy)
             \<or> minimize_PFW_trace svds_uvt A X_init alpha L_t max_iter tol ls_strategy
                = Inr (X_init, [X_init]))"
  proof (intro impI conjI)
    assume "ls_strategy \<notin> {''adaptive'', ''Lipschitz'', ''approx_ls''}"
    then have n: "ls_strategy \<noteq> ''adaptive''" "ls_strategy \<noteq> ''Lipschitz''"
      "ls_strategy \<noteq> ''approx_ls''" by auto
    {
      assume "FW_trace_direction svds_uvt alpha X_t G = Inr (D_t, g_fw) \<and> \<not> g_fw \<le> tol"
      then show "FW_trace_body svds_uvt A alpha tol ls_strategy it (X_t, F_t, G, L_t, Calls)
               = Raise ValueError"
        using FW_trace_body_unknown_raises[OF n] by blast
    }
    {
      assume "PFW_trace_direction svds_uvt alpha X_t G atoms coefs
             = Inr (atom_in_activeset, idx_min_vt_st, s_t, vt_idx, gamma_p, D_p, g_p)"
      then show "PFW_trace_body svds_uvt A alpha tol ls_strategy it
                 (X_t, F_t, G, L_t, atoms, coefs, Calls) = Raise ValueError"
        using PFW_trace_body_unknown_raises[OF n] by blast
    }
    show "isl (minimize_FW_trace svds_uvt A X_init alpha L_t max_iter tol ls_strategy)
             \<or> minimize_FW_trace svds_uvt A X_init alpha L_t max_iter tol ls_strategy
                = Inr (X_init, [X_init])"
      by (rule minimize_FW_trace_no_step) (rule FW_trace_body_unknown[OF n])
    show "isl (minimize_PFW_trace svds_uvt A X_init alpha L_t max_iter tol ls_strategy)
             \<or> minimize_PFW_trace svds_uvt A X_init alpha L_t max_iter tol ls_strategy
                = Inr (X_init, [X_init])"
      by (rule minimize_PFW_trace_no_step) (rule PFW_trace_body_unknown[OF n])
  qed
  from known two three show ?thesis by (intro conjI)
qed
theorem strategies_of_the_drivers_witness:
  "''bogus'' \<notin> {''adaptive'', ''Lipschitz''}
   \<and> ''bogus'' \<notin> {''adaptive'', ''Lipschitz'', ''approx_ls''}
   \<and> L1_atoms 1 2 [0, - 1] [False, False, False, False, True] = Inr (1, 1, 4, - 1)
   \<and> PFW_L1_gap 1 2 [0, 0] [0, - 1] 1 1 1 4 (- 1) = Inr (1, 1)
   \<and> AFW_L1_direction 1 2 [0, 0] [0, - 1] 1 1 4 (- 1) = Inr ([0, 1], 1, 1)
   \<and> \<not> (1 :: real) \<le> 1 / 10 ^ 12
   \<and> PFW_L1_body quad_2d 1 (1 / 10 ^ 12) ''bogus'' 2 0
       ([0, 0], 1 / 2, [0, - 1], 1, [False, False, False, False, True], 1, [[0, 0]])
     = Raise ValueError
   \<and> AFW_L1_body quad_2d 1 (1 / 10 ^ 12) ''bogus'' 2 0
       ([0, 0], 1 / 2, [0, - 1], 1, [False, False, False, False, True], 1, [[0, 0]])
     = Raise ValueError
   \<and> minimize_PFW_L1 quad_2d [0, 0] 1 1 5 (1 / 10 ^ 12) ''bogus'' = Inl ValueError
   \<and> minimize_AFW_L1 quad_2d [0, 0] 1 1 5 (1 / 10 ^ 12) ''bogus'' = Inl ValueError
   \<and> FW_trace_direction uvt_e11 1 [0, 0, 0, 0] [- (1 / 4), 0, 0, 0] = Inr ([1, 0, 0, 0], 1 / 4)
   \<and> \<not> (1 / 4 :: real) \<le> 1 / 10 ^ 12
   \<and> PFW_trace_direction uvt_e11 1 [0, 0, 0, 0] [- (1 / 4), 0, 0, 0] [[0, 0, 0, 0]] [1]
     = Inr (False, 0, [1, 0, 0, 0], 0, 1, [1, 0, 0, 0], 1 / 4)
   \<and> FW_trace_body uvt_e11 A_e11 1 (1 / 10 ^ 12) ''bogus'' 0
       ([0, 0, 0, 0], 1 / 8, [- (1 / 4), 0, 0, 0], 1, [[0, 0, 0, 0]]) = Raise ValueError
   \<and> PFW_trace_body uvt_e11 A_e11 1 (1 / 10 ^ 12) ''bogus'' 0
       ([0, 0, 0, 0], 1 / 8, [- (1 / 4), 0, 0, 0], 1, [[0, 0, 0, 0]], [1], [[0, 0, 0, 0]])
     = Raise ValueError
   \<and> minimize_FW_trace uvt_e11 A_e11 [0, 0, 0, 0] 1 1 5 (1 / 10 ^ 12) ''bogus''
     = Inl ValueError
   \<and> minimize_PFW_trace uvt_e11 A_e11 [0, 0, 0, 0] 1 1 5 (1 / 10 ^ 12) ''bogus''
     = Inl ValueError"
proof -
  have i: "L1_init 2 = [False, False, False, False, True]"
    by (simp add: L1_init_def numeral_eq_Suc)
  note t = strategies_of_the_drivers
      [where ls_strategy = "''bogus''" and alpha = 1 and n_features = 2 and grad = "[0, - 1]"
         and active_set = "[False, False, False, False, True]" and idx_oracle = 1
         and mag_oracle = 1 and idx_away = 4 and mag_away = "- 1" and x_t = "[0, 0]"
         and weight_zero = 1 and gamma_max = 1 and g_t = 1 and tol = "1 / 10 ^ 12"
         and f_grad = quad_2d and it = 0 and f_t = "1 / 2" and L_t = 1 and calls = "[[0, 0]]"
         and d_t = "[0, 1]" and gamma_a = 1 and g_a = 1 and x_init = "[0, 0]" and max_iter = 5
         and svds_uvt = uvt_e11 and X_t = "[0, 0, 0, 0]" and G = "[- (1 / 4), 0, 0, 0]"
         and D_t = "[1, 0, 0, 0]" and g_fw = "1 / 4" and A = A_e11
         and Calls = "[[0, 0, 0, 0]]" and atoms = "[[0, 0, 0, 0]]" and coefs = "[1]"
         and atom_in_activeset = False and idx_min_vt_st = 0 and s_t = "[1, 0, 0, 0]"
         and vt_idx = 0 and gamma_p = 1 and D_p = "[1, 0, 0, 0]" and g_p = "1 / 4"
         and X_init = "[0, 0, 0, 0]" and F_t = "1 / 8"]
  show ?thesis
    using t L1_atoms_quad_2d PFW_L1_gap_quad_2d AFW_L1_direction_quad_2d FW_trace_direction_e11
      PFW_trace_direction_e11 minimize_PFW_L1_bogus minimize_AFW_L1_bogus
      minimize_FW_trace_bogus minimize_PFW_trace_bogus
    by (simp add: i)
qed

subsection \<open>C8: drop steps\<close>

text \<open>
  C8. In \<^verbatim>\<open>minimize_PFW_trace\<close> every pass does what the claim says. The cap \<^verbatim>\<open>gamma_max\<close> is
  the weight \<^verbatim>\<open>coefs_active_set[vt_idx]\<close> of the away atom and the direction is the toward atom
  minus the away atom. With \<open>active_tw, coefs_tw\<close> the two lists after the update for the toward
  atom: if the step size the line search returns equals the cap, the pass goes on with both
  lists without their entry \<open>vt_idx\<close>, which is the away atom and its weight, so each list is
  shorter by exactly one; if not, it goes on with the lists as they are and the weight of the
  away atom decreased by the step size.

  \<^verbatim>\<open>minimize_PFW_L1\<close> keeps the same books in the mask \<^verbatim>\<open>active_set\<close> and the scalar
  \<^verbatim>\<open>weight_zero\<close>, and there the claim fails in the first pass: the update for the away atom
  stands under \<^verbatim>\<open>if it > 0\<close> (lines 458-467; in a later pass a drop step of the origin clears
  its slot and leaves it the weight \<open>0\<close>, lemma \<open>PFW_L1_update_later_drop\<close>). For the objective
  \<open>(x\<^sub>1 - 1)\<^sup>2 / 2\<close> in two variables, \<open>alpha = 1\<close>, \<open>L_t = 1/2\<close> and the adaptive strategy, the
  away atom of the first pass is the origin, the cap is its weight \<open>1\<close>, and the line search
  returns the step \<open>1\<close>: a drop step, which takes the iterate to the vertex \<open>(0, 1)\<close>. The pass
  leaves the origin in the active set (slot \<open>4\<close>) with the weight \<open>1\<close>.
\<close>

theorem PFW_drop_step:
  "(PFW_trace_direction svds_uvt alpha x_t grad active_set coefs_active_set
        = Inr (atom_in_activeset, idx_min_vt_st, s_t, vt_idx, gamma_max, d_t, g_t)
      \<and> PFW_trace_linesearch A ls_strategy f_t x_t d_t g_t L_t gamma_max
        = Inr (step_size, L_next, f_next, grad_next)
      \<and> (atom_in_activeset \<longrightarrow> idx_min_vt_st < length coefs_active_set)
      \<and> PFW_trace_toward_update atom_in_activeset idx_min_vt_st s_t step_size
          (active_set, coefs_active_set) = (active_tw, coefs_tw)
    \<longrightarrow> gamma_max = coefs_active_set ! vt_idx
      \<and> vt_idx < length active_set
      \<and> d_t = vsub s_t (active_set ! vt_idx)
      \<and> active_tw ! vt_idx = active_set ! vt_idx
      \<and> (step_size = gamma_max \<longrightarrow>
           PFW_trace_body svds_uvt A alpha tol ls_strategy it
             (x_t, f_t, grad, L_t, active_set, coefs_active_set, calls)
           = Continue (vadd x_t (smul step_size d_t), f_next, grad_next, L_next,
               take vt_idx active_tw @ drop (Suc vt_idx) active_tw,
               take vt_idx coefs_tw @ drop (Suc vt_idx) coefs_tw,
               calls @ [vadd x_t (smul step_size d_t)])
           \<and> Suc (length (take vt_idx active_tw @ drop (Suc vt_idx) active_tw)) = length active_tw
           \<and> Suc (length (take vt_idx coefs_tw @ drop (Suc vt_idx) coefs_tw)) = length coefs_tw)
      \<and> (step_size \<noteq> gamma_max \<longrightarrow>
           PFW_trace_body svds_uvt A alpha tol ls_strategy it
             (x_t, f_t, grad, L_t, active_set, coefs_active_set, calls)
           = Continue (vadd x_t (smul step_size d_t), f_next, grad_next, L_next,
               active_tw, coefs_tw[vt_idx := coefs_tw ! vt_idx - step_size],
               calls @ [vadd x_t (smul step_size d_t)])))
   \<and> PFW_L1_gap 1 2 [0, 0] [0, - 1] 1 1 1 4 (- 1) = Inr (1, 1)
   \<and> L1_linesearch (PFW_L1_probe quad_2d [0, 0] 2 1 1 True 4 (- 1)) ''adaptive'' (1 / 2) 1 2
       (1 / 2) 1
     = Inr (1, 999 / 2000, [0, 1], 0, [0, 0])
   \<and> PFW_L1_body quad_2d 1 (1 / 10 ^ 12) ''adaptive'' 2 0
       ([0, 0], 1 / 2, [0, - 1], 1 / 2, [False, False, False, False, True], 1, [[0, 0]])
     = Continue ([0, 1], 0, [0, 0], 999 / 2000, [False, True, False, False, True], 1,
         [[0, 0], [0, 1]])"
proof (intro conjI impI)
  assume h: "PFW_trace_direction svds_uvt alpha x_t grad active_set coefs_active_set
        = Inr (atom_in_activeset, idx_min_vt_st, s_t, vt_idx, gamma_max, d_t, g_t)
      \<and> PFW_trace_linesearch A ls_strategy f_t x_t d_t g_t L_t gamma_max
        = Inr (step_size, L_next, f_next, grad_next)
      \<and> (atom_in_activeset \<longrightarrow> idx_min_vt_st < length coefs_active_set)
      \<and> PFW_trace_toward_update atom_in_activeset idx_min_vt_st s_t step_size
          (active_set, coefs_active_set) = (active_tw, coefs_tw)"
  then have dir: "PFW_trace_direction svds_uvt alpha x_t grad active_set coefs_active_set
        = Inr (atom_in_activeset, idx_min_vt_st, s_t, vt_idx, gamma_max, d_t, g_t)"
    and ls: "PFW_trace_linesearch A ls_strategy f_t x_t d_t g_t L_t gamma_max
        = Inr (step_size, L_next, f_next, grad_next)"
    and ok: "atom_in_activeset \<longrightarrow> idx_min_vt_st < length coefs_active_set"
    and tw: "PFW_trace_toward_update atom_in_activeset idx_min_vt_st s_t step_size
          (active_set, coefs_active_set) = (active_tw, coefs_tw)"
    by simp_all
  from PFW_trace_direction_spec[OF dir]
  have v: "vt_idx < length active_set" "vt_idx < length coefs_active_set"
    and g: "gamma_max = coefs_active_set ! vt_idx" and d: "d_t = vsub s_t (active_set ! vt_idx)"
    by auto
  from PFW_trace_toward_keeps[OF tw v]
  have l1: "vt_idx < length active_tw" "vt_idx < length coefs_tw"
    and a1: "active_tw ! vt_idx = active_set ! vt_idx" by auto
  note body = PFW_trace_body_pass[OF dir ls ok tw, where tol = tol and it = it and calls = calls]
  show "gamma_max = coefs_active_set ! vt_idx" by (rule g)
  show "vt_idx < length active_set" by (rule v)
  show "d_t = vsub s_t (active_set ! vt_idx)" by (rule d)
  show "active_tw ! vt_idx = active_set ! vt_idx" by (rule a1)
  show "Suc (length (take vt_idx active_tw @ drop (Suc vt_idx) active_tw)) = length active_tw"
    using l1 by simp
  show "Suc (length (take vt_idx coefs_tw @ drop (Suc vt_idx) coefs_tw)) = length coefs_tw"
    using l1 by simp
  {
    assume "step_size = gamma_max"
    with body show "PFW_trace_body svds_uvt A alpha tol ls_strategy it
             (x_t, f_t, grad, L_t, active_set, coefs_active_set, calls)
           = Continue (vadd x_t (smul step_size d_t), f_next, grad_next, L_next,
               take vt_idx active_tw @ drop (Suc vt_idx) active_tw,
               take vt_idx coefs_tw @ drop (Suc vt_idx) coefs_tw,
               calls @ [vadd x_t (smul step_size d_t)])"
      by (simp add: pop_at_def)
  }
  {
    assume "step_size \<noteq> gamma_max"
    with body show "PFW_trace_body svds_uvt A alpha tol ls_strategy it
             (x_t, f_t, grad, L_t, active_set, coefs_active_set, calls)
           = Continue (vadd x_t (smul step_size d_t), f_next, grad_next, L_next,
               active_tw, coefs_tw[vt_idx := coefs_tw ! vt_idx - step_size],
               calls @ [vadd x_t (smul step_size d_t)])"
      by simp
  }
next
  show "PFW_L1_gap 1 2 [0, 0] [0, - 1] 1 1 1 4 (- 1) = Inr (1, 1)"
    using PFW_L1_gap_quad_2d by simp
  show "L1_linesearch (PFW_L1_probe quad_2d [0, 0] 2 1 1 True 4 (- 1)) ''adaptive'' (1 / 2) 1 2
       (1 / 2) 1
     = Inr (1, 999 / 2000, [0, 1], 0, [0, 0])"
    using L1_linesearch_quad_2d_drop by simp
  have "L1_init 2 = [False, False, False, False, True]"
    by (simp add: L1_init_def numeral_eq_Suc)
  then show "PFW_L1_body quad_2d 1 (1 / 10 ^ 12) ''adaptive'' 2 0
       ([0, 0], 1 / 2, [0, - 1], 1 / 2, [False, False, False, False, True], 1, [[0, 0]])
     = Continue ([0, 1], 0, [0, 0], 999 / 2000, [False, True, False, False, True], 1,
         [[0, 0], [0, 1]])"
    using PFW_L1_body_quad_2d_drop by simp
qed

theorem PFW_drop_step_witness:
  "PFW_trace_direction uvt_e11 1 [0, 0, 0, 0] [- (1 / 4), 0, 0, 0] [[0, 0, 0, 0]] [1]
     = Inr (False, 0, [1, 0, 0, 0], 0, 1, [1, 0, 0, 0], 1 / 4)
   \<and> PFW_trace_linesearch A_e11 ''adaptive'' (1 / 8) [0, 0, 0, 0] [1, 0, 0, 0] (1 / 4) (1 / 4) 1
     = Inr (1, 99 / 400, 0, [0, 0, 0, 0])
   \<and> PFW_trace_toward_update False 0 [1, 0, 0, 0] 1 ([[0, 0, 0, 0]], [1])
     = ([[0, 0, 0, 0], [1, 0, 0, 0]], [1, 1])
   \<and> PFW_trace_body uvt_e11 A_e11 1 (1 / 10 ^ 12) ''adaptive'' 0
       ([0, 0, 0, 0], 1 / 8, [- (1 / 4), 0, 0, 0], 1 / 4, [[0, 0, 0, 0]], [1], [[0, 0, 0, 0]])
     = Continue ([1, 0, 0, 0], 0, [0, 0, 0, 0], 99 / 400, [[1, 0, 0, 0]], [1],
         [[0, 0, 0, 0], [1, 0, 0, 0]])
   \<and> PFW_trace_linesearch A_e11 ''adaptive'' (1 / 8) [0, 0, 0, 0] [1, 0, 0, 0] (1 / 4) 1 1
     = Inr (1 / 4, 99 / 100, 9 / 128, [- (3 / 16), 0, 0, 0])
   \<and> PFW_trace_toward_update False 0 [1, 0, 0, 0] (1 / 4) ([[0, 0, 0, 0]], [1])
     = ([[0, 0, 0, 0], [1, 0, 0, 0]], [1, 1 / 4])
   \<and> PFW_trace_body uvt_e11 A_e11 1 (1 / 10 ^ 12) ''adaptive'' 0
       ([0, 0, 0, 0], 1 / 8, [- (1 / 4), 0, 0, 0], 1, [[0, 0, 0, 0]], [1], [[0, 0, 0, 0]])
     = Continue ([1 / 4, 0, 0, 0], 9 / 128, [- (3 / 16), 0, 0, 0], 99 / 100,
         [[0, 0, 0, 0], [1, 0, 0, 0]], [3 / 4, 1 / 4], [[0, 0, 0, 0], [1 / 4, 0, 0, 0]])"
proof -
  have t2: "PFW_trace_toward_update False 0 [1, 0, 0, 0] (1 / 4) ([[0, 0, 0, 0]], [1])
     = ([[0, 0, 0, 0], [1, 0, 0, 0]], [1, 1 / 4])"
    by (simp add: PFW_trace_toward_update_def)
  note d1 = PFW_drop_step
      [where svds_uvt = uvt_e11 and alpha = 1 and x_t = "[0, 0, 0, 0]"
         and grad = "[- (1 / 4), 0, 0, 0]" and active_set = "[[0, 0, 0, 0]]"
         and coefs_active_set = "[1]" and atom_in_activeset = False and idx_min_vt_st = 0
         and s_t = "[1, 0, 0, 0]" and vt_idx = 0 and gamma_max = 1 and d_t = "[1, 0, 0, 0]"
         and g_t = "1 / 4" and A = A_e11 and ls_strategy = "''adaptive''" and f_t = "1 / 8"
         and L_t = "1 / 4" and step_size = 1 and L_next = "99 / 400" and f_next = 0
         and grad_next = "[0, 0, 0, 0]" and active_tw = "[[0, 0, 0, 0], [1, 0, 0, 0]]"
         and coefs_tw = "[1, 1]" and tol = "1 / 10 ^ 12" and it = 0 and calls = "[[0, 0, 0, 0]]"]
  note d2 = PFW_drop_step
      [where svds_uvt = uvt_e11 and alpha = 1 and x_t = "[0, 0, 0, 0]"
         and grad = "[- (1 / 4), 0, 0, 0]" and active_set = "[[0, 0, 0, 0]]"
         and coefs_active_set = "[1]" and atom_in_activeset = False and idx_min_vt_st = 0
         and s_t = "[1, 0, 0, 0]" and vt_idx = 0 and gamma_max = 1 and d_t = "[1, 0, 0, 0]"
         and g_t = "1 / 4" and A = A_e11 and ls_strategy = "''adaptive''" and f_t = "1 / 8"
         and L_t = 1 and step_size = "1 / 4" and L_next = "99 / 100" and f_next = "9 / 128"
         and grad_next = "[- (3 / 16), 0, 0, 0]" and active_tw = "[[0, 0, 0, 0], [1, 0, 0, 0]]"
         and coefs_tw = "[1, 1 / 4]" and tol = "1 / 10 ^ 12" and it = 0
         and calls = "[[0, 0, 0, 0]]"]
  show ?thesis
    using d1 d2 PFW_trace_direction_e11 PFW_trace_linesearch_e11_drop PFW_trace_linesearch_e11
      PFW_trace_toward_e11_drop t2
    by (simp add: vadd_def smul_def)
qed

subsection \<open>C9: radius zero\<close>

text \<open>
  C9 as stated fails for the drivers that start at \<^verbatim>\<open>x0\<close>: with \<open>alpha = 0\<close>,
  \<^verbatim>\<open>minimize_FW_L1\<close> started at the minimiser \<open>1/10\<close> of \<open>50 (x - 1/10)\<^sup>2\<close> finds the gap \<open>0\<close>
  and returns \<open>x0 = [1/10]\<close>, which is not the zero vector.
\<close>

theorem FW_L1_zero_radius_returns_x0:
  "minimize_FW_L1 quad_steep [1 / 10] 0 1 3 (1 / 10 ^ 12) ''adaptive''
     = Inr ([1 / 10], [[1 / 10]])
   \<and> [1 / 10 :: real] \<noteq> zeros 1"
  using minimize_FW_L1_zero_radius_nonzero_start by (simp add: zeros_def)

text \<open>
  C9, amended, for \<open>alpha = 0\<close> and \<open>tol \<ge> 0\<close>, whatever the oracle, the other parameters and
  the strategy are. \<^verbatim>\<open>minimize_PFW_L1\<close> and \<^verbatim>\<open>minimize_AFW_L1\<close> return the zero vector at the
  first gap test, for every nonempty \<^verbatim>\<open>x0\<close>; \<^verbatim>\<open>minimize_FW_L1\<close> and \<^verbatim>\<open>minimize_FW_trace\<close> do so
  when started at the zero vector (the zero matrix). The callback sees the initial iterate
  only. The oracle is taken to answer with a gradient of the point's shape, and \<^verbatim>\<open>svds\<close>
  with factors of the matrix's shape. \<^verbatim>\<open>minimize_PFW_trace\<close> is not part of the statement.
\<close>

theorem zero_radius_returns_origin:
  "(0 \<le> tol \<and> x0 \<noteq> [] \<and> length (snd (f_grad (zeros (length x0)))) = length x0 \<longrightarrow>
      minimize_PFW_L1 f_grad x0 0 L_t max_iter tol ls_strategy
        = Inr (zeros (length x0), [zeros (length x0)])
      \<and> minimize_AFW_L1 f_grad x0 0 L_t max_iter tol ls_strategy
        = Inr (zeros (length x0), [zeros (length x0)]))
   \<and> (0 \<le> tol \<and> n \<noteq> 0 \<and> length (snd (f_grad (zeros n))) = n \<longrightarrow>
      minimize_FW_L1 f_grad (zeros n) 0 L_t max_iter tol ls_strategy
        = Inr (zeros n, [zeros n]))
   \<and> (0 \<le> tol \<and> A \<noteq> [] \<and> (\<forall>v. length v = length A \<longrightarrow> length (svds_uvt v) = length A) \<longrightarrow>
      minimize_FW_trace svds_uvt A (zeros (length A)) 0 L_t max_iter tol ls_strategy
        = Inr (zeros (length A), [zeros (length A)]))"
proof (intro conjI impI)
  assume h: "0 \<le> tol \<and> x0 \<noteq> [] \<and> length (snd (f_grad (zeros (length x0)))) = length x0"
  then show "minimize_PFW_L1 f_grad x0 0 L_t max_iter tol ls_strategy
        = Inr (zeros (length x0), [zeros (length x0)])"
    using PFW_L1_zero_radius[of tol f_grad x0 L_t max_iter ls_strategy] by blast
  from h show "minimize_AFW_L1 f_grad x0 0 L_t max_iter tol ls_strategy
        = Inr (zeros (length x0), [zeros (length x0)])"
    using AFW_L1_zero_radius[of tol f_grad x0 L_t max_iter ls_strategy] by blast
next
  assume h: "0 \<le> tol \<and> n \<noteq> 0 \<and> length (snd (f_grad (zeros n))) = n"
  then show "minimize_FW_L1 f_grad (zeros n) 0 L_t max_iter tol ls_strategy
        = Inr (zeros n, [zeros n])"
    using FW_L1_zero_radius[of tol "zeros n" n f_grad L_t max_iter ls_strategy] by blast
next
  assume h: "0 \<le> tol \<and> A \<noteq> [] \<and> (\<forall>v. length v = length A \<longrightarrow> length (svds_uvt v) = length A)"
  then show "minimize_FW_trace svds_uvt A (zeros (length A)) 0 L_t max_iter tol ls_strategy
        = Inr (zeros (length A), [zeros (length A)])"
    using FW_trace_zero_radius[of tol A "zeros (length A)" svds_uvt L_t max_iter ls_strategy]
    by blast
qed

theorem zero_radius_returns_origin_witness:
  "(0 :: real) \<le> 1 / 10 ^ 12 \<and> [3, 4 :: real] \<noteq> []
   \<and> length (snd (quad_2d (zeros (length [3, 4 :: real])))) = length [3, 4 :: real]
   \<and> (2 :: nat) \<noteq> 0 \<and> A_e11 \<noteq> []
   \<and> minimize_PFW_L1 quad_2d [3, 4] 0 1 5 (1 / 10 ^ 12) ''adaptive'' = Inr ([0, 0], [[0, 0]])
   \<and> minimize_AFW_L1 quad_2d [3, 4] 0 1 5 (1 / 10 ^ 12) ''adaptive'' = Inr ([0, 0], [[0, 0]])
   \<and> minimize_FW_L1 quad_2d [0, 0] 0 1 5 (1 / 10 ^ 12) ''adaptive'' = Inr ([0, 0], [[0, 0]])
   \<and> minimize_FW_trace uvt_e11 A_e11 [0, 0, 0, 0] 0 1 5 (1 / 10 ^ 12) ''adaptive''
       = Inr ([0, 0, 0, 0], [[0, 0, 0, 0]])"
proof -
  have 1: "length (snd (quad_2d (zeros (length [3, 4 :: real])))) = length [3, 4 :: real]"
    by (simp add: quad_2d_def)
  have 2: "length (snd (quad_2d (zeros 2))) = 2"
    by (simp add: quad_2d_def)
  have 3: "\<forall>v. length v = length A_e11 \<longrightarrow> length (uvt_e11 v) = length A_e11"
    by (simp add: uvt_e11_def A_e11_def)
  have 4: "A_e11 \<noteq> []" by (simp add: A_e11_def)
  have z: "zeros (length A_e11) = [0, 0, 0, 0]" by (simp add: zeros_def A_e11_def)
  from zero_radius_returns_origin
         [of "1 / 10 ^ 12" "[3, 4]" quad_2d 1 5 "''adaptive''" 2 A_e11 uvt_e11]
  show ?thesis using 1 2 3 4 z by (simp add: zeros_def numeral_eq_Suc)
qed

subsection \<open>C10: the start of the L1 active-set drivers\<close>

text \<open>
  C10. \<^verbatim>\<open>minimize_PFW_L1\<close> and \<^verbatim>\<open>minimize_AFW_L1\<close> read nothing of \<^verbatim>\<open>x0\<close> but its size and start
  from the zero vector. For two initial points of the same size, with the same oracle and
  configuration, the two runs give the same result: the same returned iterate (or the same
  error) and the same sequence of iterates handed to the callback. The start is the zero
  vector of that size, whatever the entries of \<^verbatim>\<open>x0\<close> are: the first iterate the callback sees
  in any run that returns is the zero vector, and a run of no pass (\<open>max_iter = 0\<close>) calls the
  oracle at the zero vector and returns the zero vector.
\<close>

theorem L1_active_set_drivers_ignore_x0:
  assumes "length x0 = length x0'"
  shows "minimize_PFW_L1 f_grad x0 alpha L_t max_iter tol ls_strategy
           = minimize_PFW_L1 f_grad x0' alpha L_t max_iter tol ls_strategy
         \<and> minimize_AFW_L1 f_grad x0 alpha L_t max_iter tol ls_strategy
           = minimize_AFW_L1 f_grad x0' alpha L_t max_iter tol ls_strategy
         \<and> (minimize_PFW_L1 f_grad x0 alpha L_t max_iter tol ls_strategy = Inr (x_end, calls)
            \<longrightarrow> (\<exists>rest. calls = zeros (length x0') # rest))
         \<and> (minimize_AFW_L1 f_grad x0 alpha L_t max_iter tol ls_strategy = Inr (y_end, calls')
            \<longrightarrow> (\<exists>rest. calls' = zeros (length x0') # rest))
         \<and> minimize_PFW_L1 f_grad x0 alpha L_t 0 tol ls_strategy
           = (case call_f_grad f_grad (zeros (length x0')) of
                Inl e \<Rightarrow> Inl e
              | Inr r \<Rightarrow> Inr (zeros (length x0'), [zeros (length x0')]))
         \<and> minimize_AFW_L1 f_grad x0 alpha L_t 0 tol ls_strategy
           = (case call_f_grad f_grad (zeros (length x0')) of
                Inl e \<Rightarrow> Inl e
              | Inr r \<Rightarrow> Inr (zeros (length x0'), [zeros (length x0')]))"
proof (intro conjI impI)
  show "minimize_PFW_L1 f_grad x0 alpha L_t max_iter tol ls_strategy
           = minimize_PFW_L1 f_grad x0' alpha L_t max_iter tol ls_strategy"
    using assms by (simp add: minimize_PFW_L1_def)
  show "minimize_AFW_L1 f_grad x0 alpha L_t max_iter tol ls_strategy
           = minimize_AFW_L1 f_grad x0' alpha L_t max_iter tol ls_strategy"
    using assms by (simp add: minimize_AFW_L1_def)
  show "minimize_PFW_L1 f_grad x0 alpha L_t 0 tol ls_strategy
           = (case call_f_grad f_grad (zeros (length x0')) of
                Inl e \<Rightarrow> Inl e
              | Inr r \<Rightarrow> Inr (zeros (length x0'), [zeros (length x0')]))"
    by (simp add: minimize_PFW_L1_def Let_def assms split: sum.splits prod.splits)
  show "minimize_AFW_L1 f_grad x0 alpha L_t 0 tol ls_strategy
           = (case call_f_grad f_grad (zeros (length x0')) of
                Inl e \<Rightarrow> Inl e
              | Inr r \<Rightarrow> Inr (zeros (length x0'), [zeros (length x0')]))"
    by (simp add: minimize_AFW_L1_def Let_def assms split: sum.splits prod.splits)
next
  assume "minimize_PFW_L1 f_grad x0 alpha L_t max_iter tol ls_strategy = Inr (x_end, calls)"
  from minimize_PFW_L1_log[OF this] show "\<exists>rest. calls = zeros (length x0') # rest"
    using assms by simp
next
  assume "minimize_AFW_L1 f_grad x0 alpha L_t max_iter tol ls_strategy = Inr (y_end, calls')"
  from minimize_AFW_L1_log[OF this] show "\<exists>rest. calls' = zeros (length x0') # rest"
    using assms by simp
qed

theorem L1_active_set_drivers_ignore_x0_witness:
  "length [3, 4 :: real] = length [7, 9 :: real]
   \<and> minimize_PFW_L1 quad_2d [3, 4] 1 1 1 (1 / 10 ^ 12) ''adaptive''
       = Inr ([0, 1 / 2], [[0, 0], [0, 1 / 2]])
   \<and> minimize_PFW_L1 quad_2d [7, 9] 1 1 1 (1 / 10 ^ 12) ''adaptive''
       = Inr ([0, 1 / 2], [[0, 0], [0, 1 / 2]])
   \<and> minimize_AFW_L1 quad_2d [3, 4] 1 1 1 (1 / 10 ^ 12) ''adaptive''
       = Inr ([0, 1], [[0, 0], [0, 1]])
   \<and> minimize_AFW_L1 quad_2d [7, 9] 1 1 1 (1 / 10 ^ 12) ''adaptive''
       = Inr ([0, 1], [[0, 0], [0, 1]])
   \<and> zeros (length [7, 9 :: real]) = [0, 0]
   \<and> minimize_PFW_L1 quad_2d [3, 4] 1 1 0 (1 / 10 ^ 12) ''adaptive'' = Inr ([0, 0], [[0, 0]])
   \<and> minimize_AFW_L1 quad_2d [3, 4] 1 1 0 (1 / 10 ^ 12) ''adaptive'' = Inr ([0, 0], [[0, 0]])"
  using L1_active_set_drivers_ignore_x0
          [of "[3, 4]" "[7, 9]" quad_2d 1 1 1 "1 / 10 ^ 12" "''adaptive''"
              "[0, 1 / 2]" "[[0, 0], [0, 1 / 2]]" "[0, 1]" "[[0, 0], [0, 1]]"]
        minimize_PFW_L1_quad_2d minimize_AFW_L1_quad_2d start_quad_2d
  by (simp add: zeros_2)

end
